theory Spec2Isabelle
  imports Main "HOL-Library.Sublist"
begin

section \<open>Common ground: thrown errors and JavaScript string helpers\<close>

text \<open>
  A thrown JavaScript value is an \<open>Error\<close> with a message. A computation that may throw
  returns \<open>js_error + 'a\<close>, with \<open>Inl\<close> for the throw.
\<close>

datatype js_error = JsError string

text \<open>
  \<open>String.prototype.trim\<close> and the white space \<open>parseInt\<close> skips, over the ASCII
  white space characters (tab, line feed, vertical tab, form feed, carriage return, space).
\<close>

definition isWhiteSpace :: "char \<Rightarrow> bool" where
  "isWhiteSpace c = (c \<in> set [CHR 0x09, CHR 0x0A, CHR 0x0B, CHR 0x0C, CHR 0x0D, CHR '' ''])"

definition trimStart :: "string \<Rightarrow> string" where
  "trimStart s = dropWhile isWhiteSpace s"

definition trim :: "string \<Rightarrow> string" where
  "trim s = rev (dropWhile isWhiteSpace (rev (dropWhile isWhiteSpace s)))"

definition isDigit :: "char \<Rightarrow> bool" where
  "isDigit c = (c \<in> set ''0123456789'')"

definition digitVal :: "char \<Rightarrow> int" where
  "digitVal c = int (of_char c) - 48"

definition digitsVal :: "string \<Rightarrow> int" where
  "digitsVal ds = foldl (\<lambda>acc c. 10 * acc + digitVal c) 0 ds"

text \<open>
  \<open>parseInt(s, 10)\<close>: skip leading white space, read an optional sign, then the longest
  prefix of decimal digits; \<open>None\<close> stands for \<open>NaN\<close> (no digit was read). Whatever
  follows the digits is ignored.
\<close>

definition parseInt10 :: "string \<Rightarrow> int option" where
  "parseInt10 s =
     (let t = trimStart s;
          neg = (t \<noteq> [] \<and> hd t = CHR ''-'');
          u = (if t \<noteq> [] \<and> (hd t = CHR ''-'' \<or> hd t = CHR ''+'') then tl t else t);
          z = takeWhile isDigit u
      in if z = [] then None
         else Some (if neg then - digitsVal z else digitsVal z))"

text \<open>\<open>String(n)\<close> for an integer: its decimal digits, with a minus sign when negative.\<close>

fun natToString :: "nat \<Rightarrow> string" where
  "natToString n =
     (if n < 10 then [char_of (48 + n)]
      else natToString (n div 10) @ [char_of (48 + n mod 10)])"

declare natToString.simps [simp del]

definition intToString :: "int \<Rightarrow> string" where
  "intToString i = (if i < 0 then CHR ''-'' # natToString (nat (- i)) else natToString (nat i))"

section \<open>The cross-process file lock (\<open>FileLock\<close> in utils.ts)\<close>

text \<open>
  The file system as the lock sees it: a path names nothing, a file with a content, or
  something that exists and cannot be read (a directory, a file without read permission).
  \<open>undeletable\<close> holds the paths whose removal the operating system refuses.
\<close>

datatype fs_entry = Content string | Unreadable

record lock_fs =
  entries :: "string \<Rightarrow> fs_entry option"
  undeletable :: "string set"

definition existsSync :: "lock_fs \<Rightarrow> string \<Rightarrow> bool" where
  "existsSync fs p = (entries fs p \<noteq> None)"

definition readFileSync :: "lock_fs \<Rightarrow> string \<Rightarrow> js_error + string" where
  "readFileSync fs p =
     (case entries fs p of
        None \<Rightarrow> Inl (JsError ''ENOENT'')
      | Some Unreadable \<Rightarrow> Inl (JsError ''EACCES'')
      | Some (Content c) \<Rightarrow> Inr c)"

definition unlinkSync :: "lock_fs \<Rightarrow> string \<Rightarrow> js_error + lock_fs" where
  "unlinkSync fs p =
     (if entries fs p = None then Inl (JsError ''ENOENT'')
      else if p \<in> undeletable fs then Inl (JsError ''EPERM'')
      else Inr (fs\<lparr>entries := (entries fs)(p := None)\<rparr>))"

text \<open>\<open>writeFileSync(path, data, { flag: 'wx' })\<close>: exclusive create.\<close>

definition writeFileSyncWx :: "lock_fs \<Rightarrow> string \<Rightarrow> string \<Rightarrow> js_error + lock_fs" where
  "writeFileSyncWx fs p d =
     (if entries fs p \<noteq> None then Inl (JsError ''EEXIST'')
      else Inr (fs\<lparr>entries := (entries fs)(p \<mapsto> Content d)\<rparr>))"

record FileLock =
  lockPath :: string
  held :: bool

text \<open>
  \<open>FileLock.release\<close>. The body of the \<open>try\<close> is \<open>release_try\<close>; the empty \<open>catch\<close>
  keeps the file system as it was when the body threw (neither the read nor the failed
  unlink changes it).
\<close>

definition release_try :: "int \<Rightarrow> FileLock \<Rightarrow> lock_fs \<Rightarrow> js_error + lock_fs" where
  "release_try pid l fs =
     (case readFileSync fs (lockPath l) of
        Inl e \<Rightarrow> Inl e
      | Inr content \<Rightarrow>
          if parseInt10 (trim content) = Some pid then unlinkSync fs (lockPath l)
          else Inr fs)"

definition release :: "int \<Rightarrow> FileLock \<Rightarrow> lock_fs \<Rightarrow> js_error + (FileLock \<times> lock_fs)" where
  "release pid l fs =
     (if \<not> held l then Inr (l, fs)
      else
        let fs' = (case release_try pid l fs of Inl _ \<Rightarrow> fs | Inr fs2 \<Rightarrow> fs2)
        in Inr (l\<lparr>held := False\<rparr>, fs'))"

text \<open>
  \<open>FileLock.acquire\<close>, with \<open>alive\<close> standing for \<open>isProcessAlive\<close>
  (\<open>process.kill(pid, 0)\<close> succeeding).
\<close>

definition lockedMessage :: "int \<Rightarrow> string \<Rightarrow> string" where
  "lockedMessage pid p =
     ''CodeGraph database is locked by another process (PID '' @ intToString pid @ ''). ''
     @ ''If this is stale, delete '' @ p"

definition acquire_check :: "(int \<Rightarrow> bool) \<Rightarrow> FileLock \<Rightarrow> lock_fs \<Rightarrow> js_error + lock_fs" where
  "acquire_check alive l fs =
     (if existsSync fs (lockPath l) then
        (case readFileSync fs (lockPath l) of
           Inr content \<Rightarrow>
             (case parseInt10 (trim content) of
                Some pid \<Rightarrow>
                  if alive pid then Inl (JsError (lockedMessage pid (lockPath l)))
                  else (case unlinkSync fs (lockPath l) of
                          Inr fs2 \<Rightarrow> Inr fs2
                        | Inl _ \<Rightarrow> (case unlinkSync fs (lockPath l) of
                                      Inr fs2 \<Rightarrow> Inr fs2 | Inl _ \<Rightarrow> Inr fs))
              | None \<Rightarrow>
                  (case unlinkSync fs (lockPath l) of
                     Inr fs2 \<Rightarrow> Inr fs2
                   | Inl _ \<Rightarrow> (case unlinkSync fs (lockPath l) of
                                 Inr fs2 \<Rightarrow> Inr fs2 | Inl _ \<Rightarrow> Inr fs)))
         | Inl _ \<Rightarrow>
             (case unlinkSync fs (lockPath l) of Inr fs2 \<Rightarrow> Inr fs2 | Inl _ \<Rightarrow> Inr fs))
      else Inr fs)"

definition acquire ::
  "(int \<Rightarrow> bool) \<Rightarrow> int \<Rightarrow> FileLock \<Rightarrow> lock_fs \<Rightarrow> js_error + (FileLock \<times> lock_fs)" where
  "acquire alive pid l fs =
     (case acquire_check alive l fs of
        Inl e \<Rightarrow> Inl e
      | Inr fs1 \<Rightarrow>
          (case writeFileSyncWx fs1 (lockPath l) (intToString pid) of
             Inr fs2 \<Rightarrow> Inr (l\<lparr>held := True\<rparr>, fs2)
           | Inl _ \<Rightarrow>
               Inl (JsError (''CodeGraph database is locked by another process. ''
                             @ ''If this is stale, delete '' @ lockPath l))))"

section \<open>The portable SQLite backend's transaction wrapper\<close>

text \<open>
  The engine behind \<open>WasmDatabaseAdapter\<close>, as far as \<open>transaction\<close> drives it: a
  durable state, the working copy of an open transaction, and the log of the transaction
  commands it was given. \<open>BEGIN\<close> fails inside an open transaction; \<open>COMMIT\<close> and
  \<open>ROLLBACK\<close> fail without one; \<open>COMMIT\<close> also fails, leaving the transaction open, when
  the engine cannot commit the working copy (\<open>can_commit\<close>: a deferred constraint, a busy
  file).
\<close>

datatype tx_cmd = BEGIN | COMMIT | ROLLBACK

datatype log_entry = Exec tx_cmd | Body

record 's wasm_db =
  durable :: 's
  txn :: "'s option"
  cmd_log :: "log_entry list"

definition exec :: "('s \<Rightarrow> bool) \<Rightarrow> 's wasm_db \<Rightarrow> tx_cmd \<Rightarrow> (js_error + unit) \<times> 's wasm_db" where
  "exec can_commit db c =
     (let db1 = db\<lparr>cmd_log := cmd_log db @ [Exec c]\<rparr> in
      case c of
        BEGIN \<Rightarrow>
          (case txn db of
             None \<Rightarrow> (Inr (), db1\<lparr>txn := Some (durable db)\<rparr>)
           | Some _ \<Rightarrow> (Inl (JsError ''cannot start a transaction within a transaction''), db1))
      | COMMIT \<Rightarrow>
          (case txn db of
             None \<Rightarrow> (Inl (JsError ''cannot commit - no transaction is active''), db1)
           | Some w \<Rightarrow>
               if can_commit w then (Inr (), db1\<lparr>durable := w, txn := None\<rparr>)
               else (Inl (JsError ''commit failed''), db1))
      | ROLLBACK \<Rightarrow>
          (case txn db of
             None \<Rightarrow> (Inl (JsError ''cannot rollback - no transaction is active''), db1)
           | Some _ \<Rightarrow> (Inr (), db1\<lparr>txn := None\<rparr>)))"

text \<open>
  The state that statements see: the working copy inside a transaction, the durable state
  in autocommit mode. A data statement that succeeds writes there.
\<close>

definition visible :: "'s wasm_db \<Rightarrow> 's" where
  "visible db = (case txn db of Some w \<Rightarrow> w | None \<Rightarrow> durable db)"

definition write_visible :: "('s \<Rightarrow> 's) \<Rightarrow> 's wasm_db \<Rightarrow> 's wasm_db" where
  "write_visible f db =
     (case txn db of Some w \<Rightarrow> db\<lparr>txn := Some (f w)\<rparr> | None \<Rightarrow> db\<lparr>durable := f (durable db)\<rparr>)"

text \<open>
  The wrapped function is any code that uses the database: what one run of it does is a
  tree of steps. It returns or throws; it reads the state it sees and goes on according to
  what it read; it runs a data statement that succeeds; it runs a statement whose failure
  makes the engine roll the open transaction back (a conflict clause \<open>OR ROLLBACK\<close>, an
  error after which the engine rolls back on its own) and goes on with the error; or it
  gives the engine a transaction command itself and goes on with the outcome. A statement
  that fails otherwise is undone by the engine and leaves the state: the function goes on
  from there, usually by throwing.
\<close>

datatype ('s, 'a) db_fn =
    Returns 'a
  | Throws js_error
  | Reads "'s \<Rightarrow> ('s, 'a) db_fn"
  | Writes "'s \<Rightarrow> 's" "('s, 'a) db_fn"
  | EngineRollsBack "('s, 'a) db_fn"
  | Execs tx_cmd "js_error + unit \<Rightarrow> ('s, 'a) db_fn"

primrec run_fn :: "('s \<Rightarrow> bool) \<Rightarrow> ('s, 'a) db_fn \<Rightarrow> 's wasm_db \<Rightarrow> (js_error + 'a) \<times> 's wasm_db" where
  "run_fn can_commit (Returns a) db = (Inr a, db)"
| "run_fn can_commit (Throws e) db = (Inl e, db)"
| "run_fn can_commit (Reads k) db = run_fn can_commit (k (visible db)) db"
| "run_fn can_commit (Writes f rest) db = run_fn can_commit rest (write_visible f db)"
| "run_fn can_commit (EngineRollsBack rest) db = run_fn can_commit rest (db\<lparr>txn := None\<rparr>)"
| "run_fn can_commit (Execs c k) db =
     (case exec can_commit db c of (r, db1) \<Rightarrow> run_fn can_commit (k r) db1)"

definition run_body :: "('s \<Rightarrow> bool) \<Rightarrow> ('s, 'a) db_fn \<Rightarrow> 's wasm_db \<Rightarrow> (js_error + 'a) \<times> 's wasm_db" where
  "run_body can_commit fn db = run_fn can_commit fn (db\<lparr>cmd_log := cmd_log db @ [Body]\<rparr>)"

text \<open>
  \<open>WasmDatabaseAdapter.transaction(fn)(...)\<close>: \<open>BEGIN\<close> stands before the \<open>try\<close>; the
  \<open>catch\<close> covers the body and the \<open>COMMIT\<close>, issues \<open>ROLLBACK\<close> and rethrows what it
  caught, unless the \<open>ROLLBACK\<close> itself throws.
\<close>

definition transaction_catch ::
  "('s \<Rightarrow> bool) \<Rightarrow> js_error \<Rightarrow> 's wasm_db \<Rightarrow> (js_error + 'a) \<times> 's wasm_db" where
  "transaction_catch can_commit error db =
     (case exec can_commit db ROLLBACK of
        (Inl e2, db') \<Rightarrow> (Inl e2, db')
      | (Inr _, db') \<Rightarrow> (Inl error, db'))"

definition transaction ::
  "('s \<Rightarrow> bool) \<Rightarrow> ('s, 'a) db_fn \<Rightarrow> 's wasm_db \<Rightarrow> (js_error + 'a) \<times> 's wasm_db" where
  "transaction can_commit fn db =
     (case exec can_commit db BEGIN of
        (Inl e, db1) \<Rightarrow> (Inl e, db1)
      | (Inr _, db1) \<Rightarrow>
          (case run_body can_commit fn db1 of
             (Inl error, db2) \<Rightarrow> transaction_catch can_commit error db2
           | (Inr result, db2) \<Rightarrow>
               (case exec can_commit db2 COMMIT of
                  (Inl error, db3) \<Rightarrow> transaction_catch can_commit error db3
                | (Inr _, db3) \<Rightarrow> (Inr result, db3))))"

text \<open>
  The wrapped functions that only read and write data: no step of theirs ends the
  transaction.
\<close>

inductive data_only :: "('s, 'a) db_fn \<Rightarrow> bool" where
  "data_only (Returns a)"
| "data_only (Throws e)"
| "(\<And>s. data_only (k s)) \<Longrightarrow> data_only (Reads k)"
| "data_only rest \<Longrightarrow> data_only (Writes f rest)"

section \<open>The graph data model\<close>

text \<open>
  The node and edge kinds of the graph. The declarations (types.ts) are not among the
  sources; the kinds are the ones the specification lists, and the extractor below uses
  \<open>class\<close>, \<open>struct\<close>, \<open>interface\<close>, \<open>trait\<close>, \<open>enum\<close>, \<open>function\<close> and \<open>method\<close> of the
  node kinds and \<open>contains\<close>, \<open>imports\<close>, \<open>calls\<close>, \<open>extends\<close> and \<open>implements\<close> of the edge
  kinds.
\<close>

datatype NodeKind =
    K_file | K_module | K_namespace | K_class | K_interface | K_trait | K_struct | K_enum
  | K_function | K_method | K_variable | K_constant | K_property | K_field | K_parameter
  | K_type_alias | K_component | K_route | K_import | K_export | K_protocol | K_enum_member

fun kindString :: "NodeKind \<Rightarrow> string" where
  "kindString K_file = ''file''"
| "kindString K_module = ''module''"
| "kindString K_namespace = ''namespace''"
| "kindString K_class = ''class''"
| "kindString K_interface = ''interface''"
| "kindString K_trait = ''trait''"
| "kindString K_struct = ''struct''"
| "kindString K_enum = ''enum''"
| "kindString K_function = ''function''"
| "kindString K_method = ''method''"
| "kindString K_variable = ''variable''"
| "kindString K_constant = ''constant''"
| "kindString K_property = ''property''"
| "kindString K_field = ''field''"
| "kindString K_parameter = ''parameter''"
| "kindString K_type_alias = ''type_alias''"
| "kindString K_component = ''component''"
| "kindString K_route = ''route''"
| "kindString K_import = ''import''"
| "kindString K_export = ''export''"
| "kindString K_protocol = ''protocol''"
| "kindString K_enum_member = ''enum_member''"

datatype EdgeKind =
    E_contains | E_imports | E_exports | E_calls | E_extends | E_implements
  | E_returns_type | E_throws | E_reads | E_writes | E_renders | E_instantiates
  | E_decorates | E_depends_on | E_references

text \<open>
  A node as \<open>createNode\<close> builds it. The attributes that the optional per-language hooks
  and the comment scanner fill in (signature, visibility, the exported, async and static
  flags, docstring) and the time stamp \<open>updatedAt\<close> are left out: no operation below
  reads them.
\<close>

record Node =
  n_id :: string
  n_kind :: NodeKind
  n_name :: string
  n_qualifiedName :: string
  n_filePath :: string
  n_language :: string
  n_startLine :: nat
  n_endLine :: nat
  n_startColumn :: nat
  n_endColumn :: nat

record Edge =
  e_source :: string
  e_target :: string
  e_kind :: EdgeKind

record UnresolvedReference =
  fromNodeId :: string
  referenceName :: string
  referenceKind :: EdgeKind
  r_line :: nat
  r_column :: nat
  r_filePath :: "string option"
  r_language :: "string option"

datatype Severity = SevError | SevWarning

record ExtractionError =
  message :: string
  severity :: Severity

text \<open>\<open>ExtractionResult\<close>, without its \<open>durationMs\<close>.\<close>

record ExtractionResult =
  res_nodes :: "Node list"
  res_edges :: "Edge list"
  res_unresolvedReferences :: "UnresolvedReference list"
  res_errors :: "ExtractionError list"

section \<open>Syntax trees\<close>

text \<open>
  A tree-sitter syntax node: its type, its extent in the source (indices and positions)
  and its children in order, each with the field name it is bound to, if any, and whether
  it is a named node.
\<close>

datatype SyntaxNode = SyntaxNode
  (ntype: string) (startIndex: nat) (endIndex: nat)
  (startPosRow: nat) (startPosColumn: nat) (endPosRow: nat) (endPosColumn: nat)
  (kids: "(string option \<times> bool \<times> SyntaxNode) list")

definition children :: "SyntaxNode \<Rightarrow> SyntaxNode list" where
  "children n = map (\<lambda>k. snd (snd k)) (kids n)"

definition namedChildren :: "SyntaxNode \<Rightarrow> SyntaxNode list" where
  "namedChildren n = map (\<lambda>k. snd (snd k)) (filter (\<lambda>k. fst (snd k)) (kids n))"

definition namedChild :: "SyntaxNode \<Rightarrow> nat \<Rightarrow> SyntaxNode option" where
  "namedChild n i = (if i < length (namedChildren n) then Some (namedChildren n ! i) else None)"

definition childForFieldName :: "SyntaxNode \<Rightarrow> string \<Rightarrow> SyntaxNode option" where
  "childForFieldName n f = map_option (\<lambda>k. snd (snd k)) (find (\<lambda>k. fst k = Some f) (kids n))"

definition getChildByField :: "SyntaxNode \<Rightarrow> string \<Rightarrow> SyntaxNode option" where
  "getChildByField node fieldName = childForFieldName node fieldName"

text \<open>\<open>a || b\<close> on two possibly-null objects.\<close>

definition orElse :: "'a option \<Rightarrow> 'a option \<Rightarrow> 'a option" where
  "orElse a b = (case a of Some x \<Rightarrow> Some x | None \<Rightarrow> b)"

text \<open>\<open>String.prototype.substring(a, b)\<close>: the arguments are swapped when \<open>a > b\<close>.\<close>

definition substring :: "string \<Rightarrow> nat \<Rightarrow> nat \<Rightarrow> string" where
  "substring s a b = (let lo = min a b; hi = max a b in take (hi - lo) (drop lo s))"

definition getNodeText :: "SyntaxNode \<Rightarrow> string \<Rightarrow> string" where
  "getNodeText node src = substring src (startIndex node) (endIndex node)"

section \<open>The extractor (tree-sitter.ts)\<close>

text \<open>
  \<open>generateNodeId\<close>. The SHA-256 hex digest is the platform's (\<open>crypto\<close>); it is the
  parameter \<open>sha256hex\<close>.
\<close>

definition generateNodeId :: "(string \<Rightarrow> string) \<Rightarrow> string \<Rightarrow> NodeKind \<Rightarrow> string \<Rightarrow> nat \<Rightarrow> string" where
  "generateNodeId sha256hex filePath kind name line =
     (let hash = take 16 (sha256hex (filePath @ '':'' @ kindString kind @ '':'' @ name @ '':''
                                     @ natToString line))
      in kindString kind @ '':'' @ hash)"

text \<open>
  The per-language rule table: the sets of syntax node types and the field names. The
  optional hooks of \<open>LanguageExtractor\<close> only fill node attributes that are not modelled.
\<close>

record LanguageExtractor =
  functionTypes :: "string list"
  classTypes :: "string list"
  methodTypes :: "string list"
  interfaceTypes :: "string list"
  structTypes :: "string list"
  enumTypes :: "string list"
  importTypes :: "string list"
  callTypes :: "string list"
  nameField :: string
  bodyField :: string
  paramsField :: string
  returnField :: "string option"

definition typescriptExtractor :: LanguageExtractor where
  "typescriptExtractor = \<lparr>
     functionTypes = [''function_declaration'', ''arrow_function'', ''function_expression''],
     classTypes = [''class_declaration''],
     methodTypes = [''method_definition'', ''public_field_definition''],
     interfaceTypes = [''interface_declaration''],
     structTypes = [],
     enumTypes = [''enum_declaration''],
     importTypes = [''import_statement''],
     callTypes = [''call_expression''],
     nameField = ''name'', bodyField = ''body'', paramsField = ''parameters'',
     returnField = Some ''return_type'' \<rparr>"

definition javascriptExtractor :: LanguageExtractor where
  "javascriptExtractor = \<lparr>
     functionTypes = [''function_declaration'', ''arrow_function'', ''function_expression''],
     classTypes = [''class_declaration''],
     methodTypes = [''method_definition'', ''field_definition''],
     interfaceTypes = [],
     structTypes = [],
     enumTypes = [],
     importTypes = [''import_statement''],
     callTypes = [''call_expression''],
     nameField = ''name'', bodyField = ''body'', paramsField = ''parameters'',
     returnField = None \<rparr>"

definition pythonExtractor :: LanguageExtractor where
  "pythonExtractor = \<lparr>
     functionTypes = [''function_definition''],
     classTypes = [''class_definition''],
     methodTypes = [''function_definition''],
     interfaceTypes = [],
     structTypes = [],
     enumTypes = [],
     importTypes = [''import_statement'', ''import_from_statement''],
     callTypes = [''call''],
     nameField = ''name'', bodyField = ''body'', paramsField = ''parameters'',
     returnField = Some ''return_type'' \<rparr>"

definition goExtractor :: LanguageExtractor where
  "goExtractor = \<lparr>
     functionTypes = [''function_declaration''],
     classTypes = [],
     methodTypes = [''method_declaration''],
     interfaceTypes = [''interface_type''],
     structTypes = [''struct_type''],
     enumTypes = [],
     importTypes = [''import_declaration''],
     callTypes = [''call_expression''],
     nameField = ''name'', bodyField = ''body'', paramsField = ''parameters'',
     returnField = Some ''result'' \<rparr>"

definition rustExtractor :: LanguageExtractor where
  "rustExtractor = \<lparr>
     functionTypes = [''function_item''],
     classTypes = [],
     methodTypes = [''function_item''],
     interfaceTypes = [''trait_item''],
     structTypes = [''struct_item''],
     enumTypes = [''enum_item''],
     importTypes = [''use_declaration''],
     callTypes = [''call_expression''],
     nameField = ''name'', bodyField = ''body'', paramsField = ''parameters'',
     returnField = Some ''return_type'' \<rparr>"

definition javaExtractor :: LanguageExtractor where
  "javaExtractor = \<lparr>
     functionTypes = [],
     classTypes = [''class_declaration''],
     methodTypes = [''method_declaration'', ''constructor_declaration''],
     interfaceTypes = [''interface_declaration''],
     structTypes = [],
     enumTypes = [''enum_declaration''],
     importTypes = [''import_declaration''],
     callTypes = [''method_invocation''],
     nameField = ''name'', bodyField = ''body'', paramsField = ''parameters'',
     returnField = Some ''type'' \<rparr>"

definition cExtractor :: LanguageExtractor where
  "cExtractor = \<lparr>
     functionTypes = [''function_definition''],
     classTypes = [],
     methodTypes = [],
     interfaceTypes = [],
     structTypes = [''struct_specifier''],
     enumTypes = [''enum_specifier''],
     importTypes = [''preproc_include''],
     callTypes = [''call_expression''],
     nameField = ''declarator'', bodyField = ''body'', paramsField = ''parameters'',
     returnField = None \<rparr>"

definition cppExtractor :: LanguageExtractor where
  "cppExtractor = \<lparr>
     functionTypes = [''function_definition''],
     classTypes = [''class_specifier''],
     methodTypes = [''function_definition''],
     interfaceTypes = [],
     structTypes = [''struct_specifier''],
     enumTypes = [''enum_specifier''],
     importTypes = [''preproc_include''],
     callTypes = [''call_expression''],
     nameField = ''declarator'', bodyField = ''body'', paramsField = ''parameters'',
     returnField = None \<rparr>"

definition csharpExtractor :: LanguageExtractor where
  "csharpExtractor = \<lparr>
     functionTypes = [],
     classTypes = [''class_declaration''],
     methodTypes = [''method_declaration'', ''constructor_declaration''],
     interfaceTypes = [''interface_declaration''],
     structTypes = [''struct_declaration''],
     enumTypes = [''enum_declaration''],
     importTypes = [''using_directive''],
     callTypes = [''invocation_expression''],
     nameField = ''name'', bodyField = ''body'', paramsField = ''parameter_list'',
     returnField = None \<rparr>"

definition phpExtractor :: LanguageExtractor where
  "phpExtractor = \<lparr>
     functionTypes = [''function_definition''],
     classTypes = [''class_declaration''],
     methodTypes = [''method_declaration''],
     interfaceTypes = [''interface_declaration''],
     structTypes = [],
     enumTypes = [''enum_declaration''],
     importTypes = [''namespace_use_declaration''],
     callTypes = [''function_call_expression'', ''member_call_expression'',
                  ''scoped_call_expression''],
     nameField = ''name'', bodyField = ''body'', paramsField = ''parameters'',
     returnField = Some ''return_type'' \<rparr>"

definition rubyExtractor :: LanguageExtractor where
  "rubyExtractor = \<lparr>
     functionTypes = [''method''],
     classTypes = [''class''],
     methodTypes = [''method'', ''singleton_method''],
     interfaceTypes = [],
     structTypes = [],
     enumTypes = [],
     importTypes = [''call''],
     callTypes = [''call'', ''method_call''],
     nameField = ''name'', bodyField = ''body'', paramsField = ''parameters'',
     returnField = None \<rparr>"

definition swiftExtractor :: LanguageExtractor where
  "swiftExtractor = \<lparr>
     functionTypes = [''function_declaration''],
     classTypes = [''class_declaration''],
     methodTypes = [''function_declaration''],
     interfaceTypes = [''protocol_declaration''],
     structTypes = [''struct_declaration''],
     enumTypes = [''enum_declaration''],
     importTypes = [''import_declaration''],
     callTypes = [''call_expression''],
     nameField = ''name'', bodyField = ''body'', paramsField = ''parameter'',
     returnField = Some ''return_type'' \<rparr>"

definition kotlinExtractor :: LanguageExtractor where
  "kotlinExtractor = \<lparr>
     functionTypes = [''function_declaration''],
     classTypes = [''class_declaration''],
     methodTypes = [''function_declaration''],
     interfaceTypes = [''class_declaration''],
     structTypes = [],
     enumTypes = [''class_declaration''],
     importTypes = [''import_header''],
     callTypes = [''call_expression''],
     nameField = ''simple_identifier'', bodyField = ''function_body'',
     paramsField = ''function_value_parameters'',
     returnField = Some ''type'' \<rparr>"

text \<open>\<open>EXTRACTORS\<close>, with \<open>tsx\<close> and \<open>jsx\<close> sharing the entries of their base languages.\<close>

definition EXTRACTORS :: "string \<Rightarrow> LanguageExtractor option" where
  "EXTRACTORS = map_of [
     (''typescript'', typescriptExtractor),
     (''javascript'', javascriptExtractor),
     (''python'', pythonExtractor),
     (''go'', goExtractor),
     (''rust'', rustExtractor),
     (''java'', javaExtractor),
     (''c'', cExtractor),
     (''cpp'', cppExtractor),
     (''csharp'', csharpExtractor),
     (''php'', phpExtractor),
     (''ruby'', rubyExtractor),
     (''swift'', swiftExtractor),
     (''kotlin'', kotlinExtractor),
     (''tsx'', typescriptExtractor),
     (''jsx'', javascriptExtractor)]"

text \<open>
  The fields of a \<open>TreeSitterExtractor\<close> that stay fixed during a run, with the digest
  function \<open>generateNodeId\<close> calls, and the fields the run updates. The top of
  \<open>nodeStack\<close> is its last element.
\<close>

record ExtractorCtx =
  sha256hex :: "string \<Rightarrow> string"
  filePath :: string
  language :: string
  source :: string
  extractor :: "LanguageExtractor option"

record ExtractorState =
  nodes :: "Node list"
  edges :: "Edge list"
  unresolvedReferences :: "UnresolvedReference list"
  errors :: "ExtractionError list"
  nodeStack :: "string list"

definition extractName :: "SyntaxNode \<Rightarrow> string \<Rightarrow> LanguageExtractor \<Rightarrow> string" where
  "extractName node src ex =
     (case getChildByField node (nameField ex) of
        Some nameNode \<Rightarrow>
          if ntype nameNode = ''function_declarator'' \<or> ntype nameNode = ''declarator'' then
            (case orElse (getChildByField nameNode ''declarator'') (namedChild nameNode 0) of
               Some innerName \<Rightarrow> getNodeText innerName src
             | None \<Rightarrow> getNodeText nameNode src)
          else getNodeText nameNode src
      | None \<Rightarrow>
          (case find (\<lambda>child. ntype child = ''identifier'' \<or> ntype child = ''type_identifier''
                          \<or> ntype child = ''simple_identifier'' \<or> ntype child = ''constant'')
                     (namedChildren node) of
             Some child \<Rightarrow> getNodeText child src
           | None \<Rightarrow> ''<anonymous>''))"

text \<open>\<open>parts.join('::')\<close>.\<close>

fun joinWith :: "string \<Rightarrow> string list \<Rightarrow> string" where
  "joinWith sep [] = []"
| "joinWith sep [x] = x"
| "joinWith sep (x # y # ys) = x @ sep @ joinWith sep (y # ys)"

definition buildQualifiedName :: "ExtractorCtx \<Rightarrow> ExtractorState \<Rightarrow> string \<Rightarrow> string" where
  "buildQualifiedName ctx st name =
     (let parts = [filePath ctx]
          @ concat (map (\<lambda>nodeId. case find (\<lambda>n. n_id n = nodeId) (nodes st) of
                                     Some node \<Rightarrow> [n_name node] | None \<Rightarrow> [])
                        (nodeStack st))
          @ [name]
      in joinWith ''::'' parts)"

definition hasChildOfType :: "SyntaxNode \<Rightarrow> string \<Rightarrow> bool" where
  "hasChildOfType node ty = list_ex (\<lambda>child. ntype child = ty) (children node)"

definition createNode ::
  "ExtractorCtx \<Rightarrow> NodeKind \<Rightarrow> string \<Rightarrow> SyntaxNode \<Rightarrow> ExtractorState \<Rightarrow> Node \<times> ExtractorState" where
  "createNode ctx kind name node st =
     (let ident = generateNodeId (sha256hex ctx) (filePath ctx) kind name (startPosRow node + 1);
          newNode = \<lparr> n_id = ident, n_kind = kind, n_name = name,
                      n_qualifiedName = buildQualifiedName ctx st name,
                      n_filePath = filePath ctx, n_language = language ctx,
                      n_startLine = startPosRow node + 1, n_endLine = endPosRow node + 1,
                      n_startColumn = startPosColumn node, n_endColumn = endPosColumn node \<rparr>;
          st1 = st\<lparr>nodes := nodes st @ [newNode]\<rparr>;
          st2 = (if nodeStack st1 \<noteq> [] \<and> last (nodeStack st1) \<noteq> []
                 then st1\<lparr>edges := edges st1 @ [\<lparr> e_source = last (nodeStack st1),
                                                   e_target = ident, e_kind = E_contains \<rparr>]\<rparr>
                 else st1)
      in (newNode, st2))"

definition pushStack :: "string \<Rightarrow> ExtractorState \<Rightarrow> ExtractorState" where
  "pushStack i st = st\<lparr>nodeStack := nodeStack st @ [i]\<rparr>"

definition popStack :: "ExtractorState \<Rightarrow> ExtractorState" where
  "popStack st = st\<lparr>nodeStack := butlast (nodeStack st)\<rparr>"

definition extractCall :: "ExtractorCtx \<Rightarrow> SyntaxNode \<Rightarrow> ExtractorState \<Rightarrow> ExtractorState" where
  "extractCall ctx node st =
     (if nodeStack st = [] then st
      else if last (nodeStack st) = [] then st
      else
        let callerId = last (nodeStack st);
            calleeName =
              (case orElse (getChildByField node ''function'') (namedChild node 0) of
                 None \<Rightarrow> []
               | Some func \<Rightarrow>
                   if ntype func = ''member_expression'' \<or> ntype func = ''attribute'' then
                     (case orElse (getChildByField func ''property'') (namedChild func 1) of
                        Some property \<Rightarrow> getNodeText property (source ctx)
                      | None \<Rightarrow> [])
                   else getNodeText func (source ctx))
        in if calleeName \<noteq> [] then
             st\<lparr>unresolvedReferences := unresolvedReferences st @
                  [\<lparr> fromNodeId = callerId, referenceName = calleeName, referenceKind = E_calls,
                     r_line = startPosRow node + 1, r_column = startPosColumn node,
                     r_filePath = None, r_language = None \<rparr>]\<rparr>
           else st)"

text \<open>\<open>visitForCalls\<close>, the local function of \<open>visitFunctionBody\<close>.\<close>

function visitForCalls :: "ExtractorCtx \<Rightarrow> LanguageExtractor \<Rightarrow> SyntaxNode \<Rightarrow> ExtractorState \<Rightarrow> ExtractorState" where
  "visitForCalls ctx ex node st =
     fold (visitForCalls ctx ex) (namedChildren node)
       (if ntype node \<in> set (callTypes ex) then extractCall ctx node st else st)"
  by pat_completeness auto

lemma kid_size: "(f, b, c) \<in> set (kids n) \<Longrightarrow> size c < size n"
proof -
  assume a: "(f, b, c) \<in> set (kids n)"
  have "size c < size_prod (\<lambda>x. 0) (size_prod (\<lambda>x. 0) size) (f, b, c)" by simp
  also have "\<dots> \<le> size_list (size_prod (\<lambda>x. 0) (size_prod (\<lambda>x. 0) size)) (kids n)"
    using a by (rule size_list_estimation') simp
  also have "\<dots> < size n" by (cases n) simp
  finally show ?thesis .
qed

lemma namedChildren_size: "c \<in> set (namedChildren n) \<Longrightarrow> size c < size n"
  by (auto simp: namedChildren_def dest: kid_size)

lemma find_Some_mem: "find P xs = Some x \<Longrightarrow> x \<in> set xs"
  by (induction xs) (auto split: if_splits)

lemma childForFieldName_size: "childForFieldName n f = Some c \<Longrightarrow> size c < size n"
proof -
  assume "childForFieldName n f = Some c"
  then obtain k where k: "find (\<lambda>k. fst k = Some f) (kids n) = Some k" and c: "c = snd (snd k)"
    by (auto simp: childForFieldName_def)
  have "(fst k, fst (snd k), c) \<in> set (kids n)"
    using find_Some_mem[OF k] c by simp
  then show ?thesis by (rule kid_size)
qed

termination visitForCalls
  by (relation "measure (\<lambda>(ctx, ex, node, st). size node)") (auto dest: namedChildren_size)

declare visitForCalls.simps [simp del]

definition visitFunctionBody :: "ExtractorCtx \<Rightarrow> SyntaxNode \<Rightarrow> string \<Rightarrow> ExtractorState \<Rightarrow> ExtractorState" where
  "visitFunctionBody ctx body functionId st =
     (case extractor ctx of
        None \<Rightarrow> st
      | Some ex \<Rightarrow> visitForCalls ctx ex body st)"

text \<open>\<open>s.replace(/['"]/g, '')\<close>.\<close>

definition stripQuotes :: "string \<Rightarrow> string" where
  "stripQuotes s = filter (\<lambda>c. c \<noteq> CHR 0x27 \<and> c \<noteq> CHR 0x22) s"

text \<open>The module name \<open>extractImport\<close> reads off an import node, by language.\<close>

definition importModuleName :: "ExtractorCtx \<Rightarrow> SyntaxNode \<Rightarrow> string" where
  "importModuleName ctx node =
     (let importText = getNodeText node (source ctx) in
      if language ctx = ''typescript'' \<or> language ctx = ''javascript'' then
        (case getChildByField node ''source'' of
           Some src \<Rightarrow> stripQuotes (getNodeText src (source ctx))
         | None \<Rightarrow> [])
      else if language ctx = ''python'' then
        (case orElse (getChildByField node ''module_name'') (namedChild node 0) of
           Some module \<Rightarrow> getNodeText module (source ctx)
         | None \<Rightarrow> [])
      else if language ctx = ''go'' then
        (case namedChild node 0 of
           Some path \<Rightarrow> stripQuotes (getNodeText path (source ctx))
         | None \<Rightarrow> [])
      else importText)"

definition extractImport :: "ExtractorCtx \<Rightarrow> SyntaxNode \<Rightarrow> ExtractorState \<Rightarrow> ExtractorState" where
  "extractImport ctx node st =
     (let moduleName = importModuleName ctx node
      in if moduleName \<noteq> [] \<and> nodeStack st \<noteq> [] then
           (let parentId = last (nodeStack st) in
            if parentId \<noteq> [] then
              st\<lparr>unresolvedReferences := unresolvedReferences st @
                   [\<lparr> fromNodeId = parentId, referenceName = moduleName,
                      referenceKind = E_imports,
                      r_line = startPosRow node + 1, r_column = startPosColumn node,
                      r_filePath = None, r_language = None \<rparr>]\<rparr>
            else st)
         else st)"

text \<open>\<open>extractInheritance\<close>: one step of its loop over the named children, then the loop.\<close>

definition inheritanceOfChild :: "ExtractorCtx \<Rightarrow> string \<Rightarrow> SyntaxNode \<Rightarrow> ExtractorState \<Rightarrow> ExtractorState" where
  "inheritanceOfChild ctx classId child st =
     (let st1 =
            (if ntype child = ''extends_clause'' \<or> ntype child = ''class_heritage''
                \<or> ntype child = ''superclass'' then
               (case namedChild child 0 of
                  Some superclass \<Rightarrow>
                    st\<lparr>unresolvedReferences := unresolvedReferences st @
                         [\<lparr> fromNodeId = classId,
                            referenceName = getNodeText superclass (source ctx),
                            referenceKind = E_extends,
                            r_line = startPosRow child + 1, r_column = startPosColumn child,
                            r_filePath = None, r_language = None \<rparr>]\<rparr>
                | None \<Rightarrow> st)
             else st)
      in if ntype child = ''implements_clause'' \<or> ntype child = ''class_interface_clause'' then
           st1\<lparr>unresolvedReferences := unresolvedReferences st1 @
                map (\<lambda>iface. \<lparr> fromNodeId = classId,
                                 referenceName = getNodeText iface (source ctx),
                                 referenceKind = E_implements,
                                 r_line = startPosRow iface + 1, r_column = startPosColumn iface,
                                 r_filePath = None, r_language = None \<rparr>)
                    (namedChildren child)\<rparr>
         else st1)"

definition extractInheritance :: "ExtractorCtx \<Rightarrow> SyntaxNode \<Rightarrow> string \<Rightarrow> ExtractorState \<Rightarrow> ExtractorState" where
  "extractInheritance ctx node classId st =
     fold (inheritanceOfChild ctx classId) (namedChildren node) st"

definition extractFunction :: "ExtractorCtx \<Rightarrow> SyntaxNode \<Rightarrow> ExtractorState \<Rightarrow> ExtractorState" where
  "extractFunction ctx node st =
     (case extractor ctx of
        None \<Rightarrow> st
      | Some ex \<Rightarrow>
          let name = extractName node (source ctx) ex in
          if name = ''<anonymous>'' then st
          else
            let (funcNode, st1) = createNode ctx K_function name node st;
                st2 = pushStack (n_id funcNode) st1;
                st3 = (case getChildByField node (bodyField ex) of
                         Some body \<Rightarrow> visitFunctionBody ctx body (n_id funcNode) st2
                       | None \<Rightarrow> st2)
            in popStack st3)"

definition extractMethod :: "ExtractorCtx \<Rightarrow> SyntaxNode \<Rightarrow> ExtractorState \<Rightarrow> ExtractorState" where
  "extractMethod ctx node st =
     (case extractor ctx of
        None \<Rightarrow> st
      | Some ex \<Rightarrow>
          if nodeStack st = [] \<and> language ctx \<noteq> ''go'' then extractFunction ctx node st
          else
            let name = extractName node (source ctx) ex;
                (methodNode, st1) = createNode ctx K_method name node st;
                st2 = pushStack (n_id methodNode) st1;
                st3 = (case getChildByField node (bodyField ex) of
                         Some body \<Rightarrow> visitFunctionBody ctx body (n_id methodNode) st2
                       | None \<Rightarrow> st2)
            in popStack st3)"

definition extractInterface :: "ExtractorCtx \<Rightarrow> SyntaxNode \<Rightarrow> ExtractorState \<Rightarrow> ExtractorState" where
  "extractInterface ctx node st =
     (case extractor ctx of
        None \<Rightarrow> st
      | Some ex \<Rightarrow>
          let name = extractName node (source ctx) ex;
              kind = (if language ctx = ''rust'' then K_trait else K_interface)
          in snd (createNode ctx kind name node st))"

definition extractEnum :: "ExtractorCtx \<Rightarrow> SyntaxNode \<Rightarrow> ExtractorState \<Rightarrow> ExtractorState" where
  "extractEnum ctx node st =
     (case extractor ctx of
        None \<Rightarrow> st
      | Some ex \<Rightarrow> snd (createNode ctx K_enum (extractName node (source ctx) ex) node st))"

text \<open>
  The body whose named children \<open>extractClass\<close> and \<open>extractStruct\<close> visit:
  \<open>getChildByField(node, bodyField) || node\<close>.
\<close>

definition bodyOrSelf :: "LanguageExtractor \<Rightarrow> SyntaxNode \<Rightarrow> SyntaxNode" where
  "bodyOrSelf ex node = (case getChildByField node (bodyField ex) of Some body \<Rightarrow> body | None \<Rightarrow> node)"

lemma bodyOrSelf_children_size: "c \<in> set (namedChildren (bodyOrSelf ex node)) \<Longrightarrow> size c < size node"
  by (auto simp: bodyOrSelf_def getChildByField_def split: option.splits
           dest!: namedChildren_size childForFieldName_size)

text \<open>
  \<open>visitNode\<close>, with \<open>extractClass\<close> and \<open>extractStruct\<close>, which call it back on the
  children of the body. The branches are tested in the order of the source.
\<close>

function visitNode :: "ExtractorCtx \<Rightarrow> SyntaxNode \<Rightarrow> ExtractorState \<Rightarrow> ExtractorState"
  and extractClass :: "ExtractorCtx \<Rightarrow> SyntaxNode \<Rightarrow> ExtractorState \<Rightarrow> ExtractorState"
  and extractStruct :: "ExtractorCtx \<Rightarrow> SyntaxNode \<Rightarrow> ExtractorState \<Rightarrow> ExtractorState"
where
  "visitNode ctx node st =
     (case extractor ctx of
        None \<Rightarrow> st
      | Some ex \<Rightarrow>
          let nodeType = ntype node in
          if nodeType \<in> set (functionTypes ex) then
            (if nodeStack st \<noteq> [] \<and> nodeType \<in> set (methodTypes ex)
             then extractMethod ctx node st
             else extractFunction ctx node st)
          else if nodeType \<in> set (classTypes ex) then
            (if language ctx = ''swift'' \<and> hasChildOfType node ''struct'' then extractStruct ctx node st
             else if language ctx = ''swift'' \<and> hasChildOfType node ''enum'' then extractEnum ctx node st
             else extractClass ctx node st)
          else if nodeType \<in> set (methodTypes ex) then extractMethod ctx node st
          else if nodeType \<in> set (interfaceTypes ex) then extractInterface ctx node st
          else if nodeType \<in> set (structTypes ex) then extractStruct ctx node st
          else if nodeType \<in> set (enumTypes ex) then extractEnum ctx node st
          else if nodeType \<in> set (importTypes ex) then
            fold (visitNode ctx) (namedChildren node) (extractImport ctx node st)
          else if nodeType \<in> set (callTypes ex) then
            fold (visitNode ctx) (namedChildren node) (extractCall ctx node st)
          else fold (visitNode ctx) (namedChildren node) st)"
| "extractClass ctx node st =
     (case extractor ctx of
        None \<Rightarrow> st
      | Some ex \<Rightarrow>
          let name = extractName node (source ctx) ex;
              (classNode, st1) = createNode ctx K_class name node st;
              st2 = extractInheritance ctx node (n_id classNode) st1;
              st3 = pushStack (n_id classNode) st2;
              st4 = fold (visitNode ctx) (namedChildren (bodyOrSelf ex node)) st3
          in popStack st4)"
| "extractStruct ctx node st =
     (case extractor ctx of
        None \<Rightarrow> st
      | Some ex \<Rightarrow>
          let name = extractName node (source ctx) ex;
              (structNode, st1) = createNode ctx K_struct name node st;
              st2 = pushStack (n_id structNode) st1;
              st3 = fold (visitNode ctx) (namedChildren (bodyOrSelf ex node)) st2
          in popStack st3)"
  by pat_completeness auto

termination
  by (relation "measure (\<lambda>x. case x of
                   Inl (ctx, node, st) \<Rightarrow> 2 * size node + 1
                 | Inr (Inl (ctx, node, st)) \<Rightarrow> 2 * size node
                 | Inr (Inr (ctx, node, st)) \<Rightarrow> 2 * size node)")
     (auto dest: namedChildren_size bodyOrSelf_children_size)

declare visitNode.simps [simp del] extractClass.simps [simp del] extractStruct.simps [simp del]

section \<open>The grammar registry (grammars.ts)\<close>

text \<open>
  A parser takes the source text and returns the root of the syntax tree, or throws.
  Which grammar modules load is a fact about the platform: \<open>tryRequire\<close> is a parameter,
  \<open>None\<close> where the module failed to load.
\<close>

type_synonym Parser = "string \<Rightarrow> js_error + SyntaxNode"

type_synonym Loader = "string \<Rightarrow> string option \<Rightarrow> Parser option"

text \<open>
  \<open>grammarEntries\<close>: language, module and the property read from the module. There is no
  entry for \<open>liquid\<close>.
\<close>

definition grammarEntries :: "(string \<times> string \<times> string option) list" where
  "grammarEntries = [
     (''typescript'', ''tree-sitter-typescript'', Some ''typescript''),
     (''tsx'', ''tree-sitter-typescript'', Some ''tsx''),
     (''javascript'', ''tree-sitter-javascript'', None),
     (''jsx'', ''tree-sitter-javascript'', None),
     (''python'', ''tree-sitter-python'', None),
     (''go'', ''tree-sitter-go'', None),
     (''rust'', ''tree-sitter-rust'', None),
     (''java'', ''tree-sitter-java'', None),
     (''c'', ''tree-sitter-c'', None),
     (''cpp'', ''tree-sitter-cpp'', None),
     (''csharp'', ''tree-sitter-c-sharp'', None),
     (''php'', ''tree-sitter-php'', Some ''php''),
     (''ruby'', ''tree-sitter-ruby'', None),
     (''swift'', ''tree-sitter-swift'', None),
     (''kotlin'', ''tree-sitter-kotlin'', None),
     (''dart'', ''@sengac/tree-sitter-dart'', None)]"

text \<open>\<open>GRAMMAR_MAP\<close>: the entries whose grammar loaded.\<close>

definition GRAMMAR_MAP :: "Loader \<Rightarrow> string \<Rightarrow> Parser option" where
  "GRAMMAR_MAP tryRequire lang =
     (case map_of grammarEntries lang of
        None \<Rightarrow> None
      | Some (module, prop) \<Rightarrow> tryRequire module prop)"

text \<open>
  \<open>getParser\<close>. The parser cache holds what an earlier call built from the same grammar,
  so a lookup returns what building the parser returns.
\<close>

definition getParser :: "Loader \<Rightarrow> string \<Rightarrow> Parser option" where
  "getParser tryRequire lang = GRAMMAR_MAP tryRequire lang"

definition EXTENSION_MAP :: "(string \<times> string) list" where
  "EXTENSION_MAP = [
     (''.ts'', ''typescript''), (''.tsx'', ''tsx''),
     (''.js'', ''javascript''), (''.mjs'', ''javascript''), (''.cjs'', ''javascript''),
     (''.jsx'', ''jsx''),
     (''.py'', ''python''), (''.pyw'', ''python''),
     (''.go'', ''go''), (''.rs'', ''rust''), (''.java'', ''java''),
     (''.c'', ''c''), (''.h'', ''c''),
     (''.cpp'', ''cpp''), (''.cc'', ''cpp''), (''.cxx'', ''cpp''), (''.hpp'', ''cpp''),
     (''.hxx'', ''cpp''),
     (''.cs'', ''csharp''), (''.php'', ''php''),
     (''.rb'', ''ruby''), (''.rake'', ''ruby''),
     (''.swift'', ''swift''), (''.kt'', ''kotlin''), (''.kts'', ''kotlin''),
     (''.dart'', ''dart''), (''.liquid'', ''liquid'')]"

definition toLowerCase :: "string \<Rightarrow> string" where
  "toLowerCase s =
     map (\<lambda>c. if 65 \<le> (of_char c :: nat) \<and> (of_char c :: nat) \<le> 90
                then char_of ((of_char c :: nat) + 32) else c) s"

text \<open>
  \<open>filePath.substring(filePath.lastIndexOf('.'))\<close>: from the last dot on, or the whole
  path when it has no dot.
\<close>

definition extensionOf :: "string \<Rightarrow> string" where
  "extensionOf p =
     (if CHR ''.'' \<in> set p then CHR ''.'' # rev (takeWhile (\<lambda>c. c \<noteq> CHR ''.'') (rev p)) else p)"

definition detectLanguage :: "string \<Rightarrow> string" where
  "detectLanguage p =
     (case map_of EXTENSION_MAP (toLowerCase (extensionOf p)) of
        Some lang \<Rightarrow> lang
      | None \<Rightarrow> ''unknown'')"

definition isLanguageSupported :: "Loader \<Rightarrow> string \<Rightarrow> bool" where
  "isLanguageSupported tryRequire lang =
     (if lang = ''liquid'' then True
      else lang \<noteq> ''unknown'' \<and> GRAMMAR_MAP tryRequire lang \<noteq> None)"

section \<open>Running the extractor\<close>

text \<open>The constructor of \<open>TreeSitterExtractor\<close>: \<open>language || detectLanguage(filePath)\<close>.\<close>

definition newExtractor :: "(string \<Rightarrow> string) \<Rightarrow> string \<Rightarrow> string \<Rightarrow> string option \<Rightarrow> ExtractorCtx" where
  "newExtractor digest path src lang =
     (let l = (case lang of Some l \<Rightarrow> if l \<noteq> [] then l else detectLanguage path
               | None \<Rightarrow> detectLanguage path)
      in \<lparr> sha256hex = digest, filePath = path, language = l, source = src,
           extractor = EXTRACTORS l \<rparr>)"

definition initialState :: ExtractorState where
  "initialState = \<lparr> nodes = [], edges = [], unresolvedReferences = [], errors = [],
                    nodeStack = [] \<rparr>"

definition resultOf :: "ExtractorState \<Rightarrow> ExtractionResult" where
  "resultOf st = \<lparr> res_nodes = nodes st, res_edges = edges st,
                    res_unresolvedReferences = unresolvedReferences st,
                    res_errors = errors st \<rparr>"

definition errorResult :: "string \<Rightarrow> Severity \<Rightarrow> ExtractionResult" where
  "errorResult msg sev = \<lparr> res_nodes = [], res_edges = [], res_unresolvedReferences = [],
                           res_errors = [\<lparr> message = msg, severity = sev \<rparr>] \<rparr>"

text \<open>\<open>TreeSitterExtractor.extract\<close>.\<close>

definition TreeSitterExtractor_extract :: "Loader \<Rightarrow> ExtractorCtx \<Rightarrow> ExtractionResult" where
  "TreeSitterExtractor_extract tryRequire ctx =
     (if \<not> isLanguageSupported tryRequire (language ctx) then
        errorResult (''Unsupported language: '' @ language ctx) SevError
      else
        case getParser tryRequire (language ctx) of
          None \<Rightarrow> errorResult (''Failed to get parser for language: '' @ language ctx) SevError
        | Some parser \<Rightarrow>
            (case parser (source ctx) of
               Inr rootNode \<Rightarrow> resultOf (visitNode ctx rootNode initialState)
             | Inl (JsError msg) \<Rightarrow>
                 resultOf (initialState\<lparr>errors := [\<lparr> message = ''Parse error: '' @ msg,
                                                     severity = SevError \<rparr>]\<rparr>)))"

definition extractFromSource ::
  "Loader \<Rightarrow> (string \<Rightarrow> string) \<Rightarrow> string \<Rightarrow> string \<Rightarrow> string option \<Rightarrow> ExtractionResult" where
  "extractFromSource tryRequire digest path src lang =
     TreeSitterExtractor_extract tryRequire (newExtractor digest path src lang)"

section \<open>Paths (\<open>path.resolve\<close>, \<open>path.join\<close> on POSIX)\<close>

text \<open>\<open>s.split(c)\<close>: the pieces between the separators, empty pieces included.\<close>

fun splitOn :: "char \<Rightarrow> string \<Rightarrow> string list" where
  "splitOn c [] = [[]]"
| "splitOn c (x # xs) =
     (if x = c then [] # splitOn c xs
      else (case splitOn c xs of
              [] \<Rightarrow> [[x]]
            | y # ys \<Rightarrow> (x # y) # ys))"

text \<open>
  \<open>normalizeString\<close>, segment by segment: empty segments and \<open>.\<close> are dropped; \<open>..\<close>
  removes the segment before it, unless there is none or it is \<open>..\<close> itself, in which case
  it is kept when \<open>allowAboveRoot\<close> holds and dropped otherwise.
\<close>

definition normalizeStep :: "bool \<Rightarrow> string list \<Rightarrow> string \<Rightarrow> string list" where
  "normalizeStep allowAboveRoot res seg =
     (if seg = [] \<or> seg = ''.'' then res
      else if seg = ''..'' then
        (if res \<noteq> [] \<and> last res \<noteq> ''..'' then butlast res
         else if allowAboveRoot then res @ [''..'']
         else res)
      else res @ [seg])"

definition normalizeString :: "string \<Rightarrow> bool \<Rightarrow> string" where
  "normalizeString p allowAboveRoot =
     joinWith ''/'' (foldl (normalizeStep allowAboveRoot) [] (splitOn (CHR ''/'') p))"

definition isAbsolute :: "string \<Rightarrow> bool" where
  "isAbsolute p = (p \<noteq> [] \<and> hd p = CHR ''/'')"

text \<open>
  \<open>path.resolve(...args)\<close>: the arguments are taken from the right until an absolute one
  is met, with the working directory as the last resort; empty arguments are skipped.
\<close>

fun resolveFrom :: "string list \<Rightarrow> string \<Rightarrow> string \<times> bool" where
  "resolveFrom [] acc = (acc, False)"
| "resolveFrom (p # ps) acc =
     (if p = [] then resolveFrom ps acc
      else if isAbsolute p then (p @ ''/'' @ acc, True)
      else resolveFrom ps (p @ ''/'' @ acc))"

definition path_resolve :: "string \<Rightarrow> string list \<Rightarrow> string" where
  "path_resolve cwd args =
     (let (resolvedPath, resolvedAbsolute) = resolveFrom (rev args @ [cwd]) [];
          normalized = normalizeString resolvedPath (\<not> resolvedAbsolute)
      in if resolvedAbsolute then ''/'' @ normalized
         else if normalized \<noteq> [] then normalized else ''.'')"



section \<open>Path checks (utils.ts)\<close>

definition validatePathWithinRoot :: "string \<Rightarrow> string \<Rightarrow> string \<Rightarrow> string option" where
  "validatePathWithinRoot cwd projectRoot path =
     (let resolved = path_resolve cwd [projectRoot, path];
          normalizedRoot = path_resolve cwd [projectRoot]
      in if \<not> prefix (normalizedRoot @ ''/'') resolved \<and> resolved \<noteq> normalizedRoot then None
         else Some resolved)"

definition isPathWithinRoot :: "string \<Rightarrow> string \<Rightarrow> string \<Rightarrow> bool" where
  "isPathWithinRoot cwd path rootDir =
     (let resolvedPath = path_resolve cwd [rootDir, path];
          resolvedRoot = path_resolve cwd [rootDir]
      in prefix (resolvedRoot @ ''/'') resolvedPath \<or> resolvedPath = resolvedRoot)"

text \<open>
  The file system the indexer reads: \<open>readFile\<close> and \<open>stat\<close> follow symbolic links, as the
  operating system does; \<open>realpath\<close> is \<open>fs.realpathSync\<close>.
\<close>

record Stats =
  st_size :: nat
  st_mtimeMs :: nat

record FileSys =
  readFile :: "string \<Rightarrow> js_error + string"
  stat :: "string \<Rightarrow> js_error + Stats"
  realpath :: "string \<Rightarrow> js_error + string"

definition isPathWithinRootReal :: "string \<Rightarrow> FileSys \<Rightarrow> string \<Rightarrow> string \<Rightarrow> bool" where
  "isPathWithinRootReal cwd fs path rootDir =
     (if \<not> isPathWithinRoot cwd path rootDir then False
      else
        case realpath fs (path_resolve cwd [rootDir, path]) of
          Inl _ \<Rightarrow> True
        | Inr realPath \<Rightarrow>
            (case realpath fs rootDir of
               Inl _ \<Rightarrow> True
             | Inr realRoot \<Rightarrow> prefix (realRoot @ ''/'') realPath \<or> realPath = realRoot))"

section \<open>The graph store\<close>

text \<open>
  The store's operations (\<open>QueryBuilder\<close>, db/queries.ts) are not among the sources; the
  orchestrator below calls them. They are modelled from the specification's data model and
  its list of store operations.
\<close>

record FileRecord =
  f_path :: string
  f_contentHash :: string
  f_language :: string
  f_size :: nat
  f_modifiedAt :: nat
  f_indexedAt :: nat
  f_nodeCount :: nat
  f_errors :: "ExtractionError list option"

record Store =
  s_files :: "FileRecord list"
  s_nodes :: "Node list"
  s_edges :: "Edge list"
  s_unresolvedRefs :: "UnresolvedReference list"

text \<open>
  Modelled from the spec: \<open>get_file_by_path(path)\<close> of the absent \<open>QueryBuilder\<close>: the file
  record with that path, if there is one.
\<close>

definition getFileByPath :: "Store \<Rightarrow> string \<Rightarrow> FileRecord option" where
  "getFileByPath st p = find (\<lambda>f. f_path f = p) (s_files st)"


text \<open>
  The mutating operations. The specification counts a database error, naming the failing
  operation, among the outcomes of a store operation; \<open>dbFails\<close> says which operations the
  engine fails. A failed operation throws and leaves the store as it was.
\<close>

datatype StoreOp = OpDeleteFile | OpInsertNodes | OpInsertEdges | OpInsertUnresolvedRefs | OpUpsertFile

definition databaseError :: "string \<Rightarrow> js_error" where
  "databaseError opName = JsError (''Database error: '' @ opName)"

text \<open>
  Modelled from the spec: \<open>delete_file(path)\<close> of the absent \<open>QueryBuilder\<close>, which cascades:
  the file record goes, with the nodes of the file, the edges that start at one of those
  nodes, and the pending edges (unresolved references) that start at one of them.
\<close>

definition deleteFile :: "(StoreOp \<Rightarrow> bool) \<Rightarrow> string \<Rightarrow> Store \<Rightarrow> (js_error + unit) \<times> Store" where
  "deleteFile dbFails p st =
     (if dbFails OpDeleteFile then (Inl (databaseError ''deleteFile''), st)
      else
        let ids = map n_id (filter (\<lambda>n. n_filePath n = p) (s_nodes st))
        in (Inr (), st\<lparr> s_files := filter (\<lambda>f. f_path f \<noteq> p) (s_files st),
                        s_nodes := filter (\<lambda>n. n_filePath n \<noteq> p) (s_nodes st),
                        s_edges := filter (\<lambda>e. e_source e \<notin> set ids) (s_edges st),
                        s_unresolvedRefs := filter (\<lambda>r. fromNodeId r \<notin> set ids)
                                              (s_unresolvedRefs st) \<rparr>))"

text \<open>
  Modelled from the spec: \<open>insert_nodes(nodes[])\<close> of the absent \<open>QueryBuilder\<close>. A node is
  identified by its id, so a stored node with the id of a new one is replaced.
\<close>

definition insertNodes :: "(StoreOp \<Rightarrow> bool) \<Rightarrow> Node list \<Rightarrow> Store \<Rightarrow> (js_error + unit) \<times> Store" where
  "insertNodes dbFails ns st =
     (if dbFails OpInsertNodes then (Inl (databaseError ''insertNodes''), st)
      else (Inr (), st\<lparr> s_nodes := filter (\<lambda>n. n_id n \<notin> set (map n_id ns)) (s_nodes st) @ ns \<rparr>))"

text \<open>
  Modelled from the spec: \<open>insert_edges(edges[])\<close> of the absent \<open>QueryBuilder\<close>. Edges are
  unique under source, target and kind (the extractor's edges carry no line number), so an
  edge that is already stored is not stored again.
\<close>

definition insertEdges :: "(StoreOp \<Rightarrow> bool) \<Rightarrow> Edge list \<Rightarrow> Store \<Rightarrow> (js_error + unit) \<times> Store" where
  "insertEdges dbFails es st =
     (if dbFails OpInsertEdges then (Inl (databaseError ''insertEdges''), st)
      else (Inr (), st\<lparr> s_edges := s_edges st @
                                     filter (\<lambda>e. e \<notin> set (s_edges st)) (remdups es) \<rparr>))"

text \<open>Modelled from the spec: \<open>insert_unresolved_refs(refs[])\<close> of the absent \<open>QueryBuilder\<close>.\<close>

definition insertUnresolvedRefsBatch ::
  "(StoreOp \<Rightarrow> bool) \<Rightarrow> UnresolvedReference list \<Rightarrow> Store \<Rightarrow> (js_error + unit) \<times> Store" where
  "insertUnresolvedRefsBatch dbFails rs st =
     (if dbFails OpInsertUnresolvedRefs then (Inl (databaseError ''insertUnresolvedRefsBatch''), st)
      else (Inr (), st\<lparr> s_unresolvedRefs := s_unresolvedRefs st @ rs \<rparr>))"

text \<open>
  Modelled from the spec: \<open>upsert_file(record)\<close> of the absent \<open>QueryBuilder\<close>: one record per
  path, the new one in place of the old.
\<close>

definition upsertFile :: "(StoreOp \<Rightarrow> bool) \<Rightarrow> FileRecord \<Rightarrow> Store \<Rightarrow> (js_error + unit) \<times> Store" where
  "upsertFile dbFails r st =
     (if dbFails OpUpsertFile then (Inl (databaseError ''upsertFile''), st)
      else (Inr (), st\<lparr> s_files := filter (\<lambda>f. f_path f \<noteq> f_path r) (s_files st) @ [r] \<rparr>))"

section \<open>The extraction orchestrator\<close>

text \<open>
  What the orchestrator takes from the platform: the working directory, the grammar
  loader, the SHA-256 hex digest, \<open>picomatch.isMatch(path, pattern, { dot: true })\<close>, the
  \<open>normalizePath\<close> helper (its definition is not among the sources), the clock, which
  store operations the engine fails, the output of \<open>git status --porcelain --no-renames\<close>
  and of \<open>git ls-files -co --exclude-standard\<close> in the project (\<open>None\<close> when git fails), and
  the list of files the file-system walk \<open>scanDirectoryWalk\<close> returns.
\<close>

record Host =
  h_cwd :: string
  h_tryRequire :: Loader
  h_sha256hex :: "string \<Rightarrow> string"
  h_isMatch :: "string \<Rightarrow> string \<Rightarrow> bool"
  h_normalizePath :: "string \<Rightarrow> string"
  h_now :: nat
  h_dbFails :: "StoreOp \<Rightarrow> bool"
  h_gitStatus :: "string option"
  h_gitLsFiles :: "string option"
  h_walk :: "string list"

record CodeGraphConfig =
  cfg_include :: "string list"
  cfg_exclude :: "string list"
  cfg_maxFileSize :: nat

record Orchestrator =
  rootDir :: string
  config :: CodeGraphConfig

definition hashContent :: "(string \<Rightarrow> string) \<Rightarrow> string \<Rightarrow> string" where
  "hashContent digest content = digest content"



text \<open>Sequencing of steps that may throw: the first throw ends the sequence.\<close>

definition thenDo ::
  "(js_error + 'a) \<times> Store \<Rightarrow> ('a \<Rightarrow> Store \<Rightarrow> (js_error + 'b) \<times> Store) \<Rightarrow> (js_error + 'b) \<times> Store" where
  "thenDo r k = (case r of (Inl e, s) \<Rightarrow> (Inl e, s) | (Inr a, s) \<Rightarrow> k a s)"

text \<open>\<open>storeExtractionResult\<close>: the steps after the early return, in the order of the source.\<close>

definition refsWithContext :: "string \<Rightarrow> string \<Rightarrow> UnresolvedReference list \<Rightarrow> UnresolvedReference list" where
  "refsWithContext path lang refs =
     map (\<lambda>ref. ref\<lparr> r_filePath := Some (case r_filePath ref of Some p \<Rightarrow> p | None \<Rightarrow> path),
                      r_language := Some (case r_language ref of Some l \<Rightarrow> l | None \<Rightarrow> lang) \<rparr>)
         refs"

definition newFileRecord :: "Host \<Rightarrow> string \<Rightarrow> string \<Rightarrow> string \<Rightarrow> Stats \<Rightarrow> ExtractionResult \<Rightarrow> FileRecord" where
  "newFileRecord host path content lang stats result =
     \<lparr> f_path = path, f_contentHash = hashContent (h_sha256hex host) content,
       f_language = lang, f_size = st_size stats, f_modifiedAt = st_mtimeMs stats,
       f_indexedAt = h_now host, f_nodeCount = length (res_nodes result),
       f_errors = (if res_errors result \<noteq> [] then Some (res_errors result) else None) \<rparr>"

definition storeExtractionResult ::
  "Host \<Rightarrow> string \<Rightarrow> string \<Rightarrow> string \<Rightarrow> Stats \<Rightarrow> ExtractionResult \<Rightarrow> Store
     \<Rightarrow> (js_error + unit) \<times> Store" where
  "storeExtractionResult host path content lang stats result st =
     (let contentHash = hashContent (h_sha256hex host) content;
          existingFile = getFileByPath st path
      in if (case existingFile of Some f \<Rightarrow> f_contentHash f = contentHash | None \<Rightarrow> False)
         then (Inr (), st)
         else
           thenDo (if existingFile \<noteq> None then deleteFile (h_dbFails host) path st
                   else (Inr (), st)) (\<lambda>_ st1.
           thenDo (if res_nodes result \<noteq> [] then insertNodes (h_dbFails host) (res_nodes result) st1
                   else (Inr (), st1)) (\<lambda>_ st2.
           thenDo (if res_edges result \<noteq> [] then insertEdges (h_dbFails host) (res_edges result) st2
                   else (Inr (), st2)) (\<lambda>_ st3.
           thenDo (if res_unresolvedReferences result \<noteq> []
                   then insertUnresolvedRefsBatch (h_dbFails host)
                          (refsWithContext path lang (res_unresolvedReferences result)) st3
                   else (Inr (), st3)) (\<lambda>_ st4.
           upsertFile (h_dbFails host) (newFileRecord host path content lang stats result) st4)))))"

definition emptyResult :: "ExtractionError list \<Rightarrow> ExtractionResult" where
  "emptyResult errs = \<lparr> res_nodes = [], res_edges = [], res_unresolvedReferences = [],
                         res_errors = errs \<rparr>"

definition indexFileWithContent ::
  "Orchestrator \<Rightarrow> Host \<Rightarrow> string \<Rightarrow> string \<Rightarrow> Stats \<Rightarrow> Store
     \<Rightarrow> (js_error + ExtractionResult) \<times> Store" where
  "indexFileWithContent orch host relativePath content stats st =
     (case validatePathWithinRoot (h_cwd host) (rootDir orch) relativePath of
        None \<Rightarrow>
          (Inr (emptyResult [\<lparr> message = ''Path traversal blocked'', severity = SevError \<rparr>]), st)
      | Some fullPath \<Rightarrow>
          if st_size stats > cfg_maxFileSize (config orch) then
            (Inr (emptyResult
                   [\<lparr> message = ''File exceeds max size ('' @ natToString (st_size stats) @ '' > ''
                                  @ natToString (cfg_maxFileSize (config orch)) @ '')'',
                      severity = SevWarning \<rparr>]), st)
          else
            let lang = detectLanguage relativePath in
            if \<not> isLanguageSupported (h_tryRequire host) lang then (Inr (emptyResult []), st)
            else
              let result = extractFromSource (h_tryRequire host) (h_sha256hex host)
                             relativePath content (Some lang)
              in if res_nodes result \<noteq> [] \<or> res_errors result = [] then
                   thenDo (storeExtractionResult host relativePath content lang stats result st)
                          (\<lambda>_ st1. (Inr result, st1))
                 else (Inr result, st))"

definition failedToRead :: "js_error \<Rightarrow> ExtractionResult" where
  "failedToRead e =
     (case e of JsError m \<Rightarrow>
        emptyResult [\<lparr> message = ''Failed to read file: '' @ m, severity = SevError \<rparr>])"

definition indexFile ::
  "Orchestrator \<Rightarrow> Host \<Rightarrow> FileSys \<Rightarrow> string \<Rightarrow> Store \<Rightarrow> (js_error + ExtractionResult) \<times> Store" where
  "indexFile orch host fs relativePath st =
     (case validatePathWithinRoot (h_cwd host) (rootDir orch) relativePath of
        None \<Rightarrow>
          (Inr (emptyResult [\<lparr> message = ''Path traversal blocked: '' @ relativePath,
                                severity = SevError \<rparr>]), st)
      | Some fullPath \<Rightarrow>
          (case stat fs fullPath of
             Inl e \<Rightarrow> (Inr (failedToRead e), st)
           | Inr stats \<Rightarrow>
               (case readFile fs fullPath of
                  Inl e \<Rightarrow> (Inr (failedToRead e), st)
                | Inr content \<Rightarrow> indexFileWithContent orch host relativePath content stats st)))"

section \<open>Change detection and sync\<close>





text \<open>The elements of a JavaScript \<open>Set\<close> built from a list: first occurrences, in order.\<close>

definition setOf :: "'a list \<Rightarrow> 'a list" where
  "setOf xs = rev (remdups (rev xs))"












text \<open>
  To state what \<open>storeExtractionResult\<close> leaves behind when an operation fails: the
  operations it issues past the early return, in order, and the effect of each when the
  engine carries it out.
\<close>

definition plannedOps :: "bool \<Rightarrow> ExtractionResult \<Rightarrow> StoreOp list" where
  "plannedOps existing result =
     (if existing then [OpDeleteFile] else [])
     @ (if res_nodes result \<noteq> [] then [OpInsertNodes] else [])
     @ (if res_edges result \<noteq> [] then [OpInsertEdges] else [])
     @ (if res_unresolvedReferences result \<noteq> [] then [OpInsertUnresolvedRefs] else [])
     @ [OpUpsertFile]"

definition applyOp ::
  "Host \<Rightarrow> string \<Rightarrow> string \<Rightarrow> string \<Rightarrow> Stats \<Rightarrow> ExtractionResult \<Rightarrow> Store \<Rightarrow> StoreOp \<Rightarrow> Store" where
  "applyOp host path content lang stats result st op =
     snd (case op of
            OpDeleteFile \<Rightarrow> deleteFile (\<lambda>_. False) path st
          | OpInsertNodes \<Rightarrow> insertNodes (\<lambda>_. False) (res_nodes result) st
          | OpInsertEdges \<Rightarrow> insertEdges (\<lambda>_. False) (res_edges result) st
          | OpInsertUnresolvedRefs \<Rightarrow>
              insertUnresolvedRefsBatch (\<lambda>_. False)
                (refsWithContext path lang (res_unresolvedReferences result)) st
          | OpUpsertFile \<Rightarrow>
              upsertFile (\<lambda>_. False) (newFileRecord host path content lang stats result) st)"

definition opName :: "StoreOp \<Rightarrow> string" where
  "opName op =
     (case op of
        OpDeleteFile \<Rightarrow> ''deleteFile''
      | OpInsertNodes \<Rightarrow> ''insertNodes''
      | OpInsertEdges \<Rightarrow> ''insertEdges''
      | OpInsertUnresolvedRefs \<Rightarrow> ''insertUnresolvedRefsBatch''
      | OpUpsertFile \<Rightarrow> ''upsertFile'')"


section \<open>Invariants and sample inputs\<close>

definition node_id_ok :: "(string \<Rightarrow> string) \<Rightarrow> Node \<Rightarrow> bool" where
  "node_id_ok H n =
     (n_id n = generateNodeId H (n_filePath n) (n_kind n) (n_name n) (n_startLine n))"

definition ids_ok :: "ExtractorCtx \<Rightarrow> ExtractorState \<Rightarrow> bool" where
  "ids_ok ctx st = (\<forall>n \<in> set (nodes st). node_id_ok (sha256hex ctx) n \<and> n_filePath n = filePath ctx)"

definition declarationType :: "LanguageExtractor \<Rightarrow> string \<Rightarrow> bool" where
  "declarationType ex t =
     (t \<in> set (functionTypes ex) \<or> t \<in> set (classTypes ex) \<or> t \<in> set (methodTypes ex)
      \<or> t \<in> set (interfaceTypes ex) \<or> t \<in> set (structTypes ex) \<or> t \<in> set (enumTypes ex))"

definition sampleDigest :: "string \<Rightarrow> string" where
  "sampleDigest s = rev s @ ''0000000000000000''"

definition tok :: "string \<Rightarrow> nat \<Rightarrow> nat \<Rightarrow> (string option \<times> bool \<times> SyntaxNode)" where
  "tok t a b = (None, False, SyntaxNode t a b 0 a 0 b [])"

definition staticBlockSource :: string where
  "staticBlockSource = ''class A { static { function f() {} } }''"

definition fnDecl :: SyntaxNode where
  "fnDecl = SyntaxNode ''function_declaration'' 19 34 0 19 0 34 [
              tok ''function'' 19 27,
              (Some ''name'', True, SyntaxNode ''identifier'' 28 29 0 28 0 29 []),
              (Some ''parameters'', True,
                 SyntaxNode ''formal_parameters'' 29 31 0 29 0 31
                   [tok ''('' 29 30, tok '')'' 30 31]),
              (Some ''body'', True,
                 SyntaxNode ''statement_block'' 32 34 0 32 0 34
                   [tok ''{'' 32 33, tok ''}'' 33 34])]"

definition staticBlock :: SyntaxNode where
  "staticBlock = SyntaxNode ''class_static_block'' 10 36 0 10 0 36 [
                tok ''static'' 10 16,
                (Some ''body'', True, SyntaxNode ''statement_block'' 17 36 0 17 0 36 [
                   tok ''{'' 17 18, (None, True, fnDecl), tok ''}'' 35 36])]"

definition classDecl :: SyntaxNode where
  "classDecl = SyntaxNode ''class_declaration'' 0 38 0 0 0 38 [
          tok ''class'' 0 5,
          (Some ''name'', True, SyntaxNode ''type_identifier'' 6 7 0 6 0 7 []),
          (Some ''body'', True, SyntaxNode ''class_body'' 8 38 0 8 0 38 [
             tok ''{'' 8 9, (None, True, staticBlock), tok ''}'' 37 38])]"

definition staticBlockTree :: SyntaxNode where
  "staticBlockTree = SyntaxNode ''program'' 0 38 0 0 0 38 [(None, True, classDecl)]"

definition tsLoader :: "SyntaxNode \<Rightarrow> Loader" where
  "tsLoader tree module prop =
     (if module = ''tree-sitter-typescript'' \<and> prop = Some ''typescript''
      then Some (\<lambda>src. Inr tree) else None)"

definition tsCtx :: ExtractorCtx where
  "tsCtx = newExtractor sampleDigest ''a.ts'' staticBlockSource (Some ''typescript'')"

definition newNodes :: "ExtractorState \<Rightarrow> ExtractorState \<Rightarrow> Node list" where
  "newNodes before after = drop (length (nodes before)) (nodes after)"

definition calls_only :: "ExtractorState \<Rightarrow> ExtractorState \<Rightarrow> bool" where
  "calls_only a b =
     (nodes b = nodes a \<and> edges b = edges a \<and> nodeStack b = nodeStack a \<and> errors b = errors a
      \<and> (\<exists>rs. unresolvedReferences b = unresolvedReferences a @ rs
                \<and> (\<forall>r \<in> set rs. referenceKind r = E_calls)))"

definition containerId :: "ExtractorState \<Rightarrow> string \<Rightarrow> bool" where
  "containerId st i = (\<exists>n \<in> set (nodes st). n_id n = i \<and> (n_kind n = K_class \<or> n_kind n = K_struct))"

definition stack_scoped :: "ExtractorState \<Rightarrow> bool" where
  "stack_scoped st = (\<forall>i \<in> set (nodeStack st). containerId st i)"

text \<open>
  \<open>scoped a b\<close>: from \<open>a\<close> to \<open>b\<close> the stack is the same, nodes, edges and references were
  only appended, and, if the stack of \<open>a\<close> held only classes and structs, every appended
  edge and every appended \<open>imports\<close> reference starts at a class or a struct.
\<close>

definition scoped :: "ExtractorState \<Rightarrow> ExtractorState \<Rightarrow> bool" where
  "scoped a b =
     (nodeStack b = nodeStack a
      \<and> (\<exists>ns. nodes b = nodes a @ ns)
      \<and> (\<exists>es. edges b = edges a @ es
                \<and> (stack_scoped a \<longrightarrow> (\<forall>e \<in> set es. containerId b (e_source e))))
      \<and> (\<exists>rs. unresolvedReferences b = unresolvedReferences a @ rs
                \<and> (stack_scoped a \<longrightarrow>
                     (\<forall>r \<in> set rs. referenceKind r = E_imports \<longrightarrow> containerId b (fromNodeId r)))))"

definition heritage_only :: "ExtractorState \<Rightarrow> ExtractorState \<Rightarrow> bool" where
  "heritage_only a b =
     (nodes b = nodes a \<and> edges b = edges a \<and> nodeStack b = nodeStack a
      \<and> (\<exists>rs. unresolvedReferences b = unresolvedReferences a @ rs
                \<and> (\<forall>r \<in> set rs. referenceKind r \<noteq> E_imports)))"

text \<open>A TypeScript file with one top-level import.\<close>

definition importSource :: string where
  "importSource = ''import x from '' @ [CHR 0x27] @ ''./a'' @ [CHR 0x27] @ '';''"

definition importStatement :: SyntaxNode where
  "importStatement = SyntaxNode ''import_statement'' 0 20 0 0 0 20 [
      tok ''import'' 0 6,
      (None, True, SyntaxNode ''import_clause'' 7 8 0 7 0 8
         [(None, True, SyntaxNode ''identifier'' 7 8 0 7 0 8 [])]),
      tok ''from'' 9 13,
      (Some ''source'', True, SyntaxNode ''string'' 14 19 0 14 0 19
         [tok [CHR 0x27] 14 15,
          (None, True, SyntaxNode ''string_fragment'' 15 18 0 15 0 18 []),
          tok [CHR 0x27] 18 19]),
      tok '';'' 19 20]"

definition importTree :: SyntaxNode where
  "importTree = SyntaxNode ''program'' 0 20 0 0 0 20 [(None, True, importStatement)]"

definition importCtx :: ExtractorCtx where
  "importCtx = newExtractor sampleDigest ''a.ts'' importSource (Some ''typescript'')"

text \<open>A Python class whose body imports a module.\<close>

definition pySource :: string where
  "pySource = ''class A:'' @ [CHR 0x0A] @ ''    import os'' @ [CHR 0x0A]"

definition pyImport :: SyntaxNode where
  "pyImport = SyntaxNode ''import_statement'' 13 22 1 4 1 13 [
      (None, False, SyntaxNode ''import'' 13 19 1 4 1 10 []),
      (Some ''name'', True, SyntaxNode ''dotted_name'' 20 22 1 11 1 13
         [(None, True, SyntaxNode ''identifier'' 20 22 1 11 1 13 [])])]"

definition pyClass :: SyntaxNode where
  "pyClass = SyntaxNode ''class_definition'' 0 22 0 0 1 13 [
      tok ''class'' 0 5,
      (Some ''name'', True, SyntaxNode ''identifier'' 6 7 0 6 0 7 []),
      tok '':'' 7 8,
      (Some ''body'', True, SyntaxNode ''block'' 13 22 1 4 1 13 [(None, True, pyImport)])]"

definition pyTree :: SyntaxNode where
  "pyTree = SyntaxNode ''module'' 0 23 0 0 2 0 [(None, True, pyClass)]"

definition pyLoader :: Loader where
  "pyLoader module prop =
     (if module = ''tree-sitter-python'' \<and> prop = None then Some (\<lambda>src. Inr pyTree) else None)"

definition pyCtx :: ExtractorCtx where
  "pyCtx = newExtractor sampleDigest ''m.py'' pySource (Some ''python'')"

text \<open>The state in which the body of a class with the given id is visited.\<close>

definition insideContainer :: "string \<Rightarrow> ExtractorState" where
  "insideContainer i = initialState\<lparr> nodeStack := [i] \<rparr>"

text \<open>
  A project at \<open>/proj\<close> that indexes every file up to a million bytes, on a host where the
  given loader stands for \<open>require\<close>, no store operation fails and git is not available.
\<close>

definition sampleOrch :: Orchestrator where
  "sampleOrch = \<lparr> rootDir = ''/proj'',
                   config = \<lparr> cfg_include = [''**/*''], cfg_exclude = [],
                              cfg_maxFileSize = 1000000 \<rparr> \<rparr>"

definition sampleHost :: "Loader \<Rightarrow> Host" where
  "sampleHost loader =
     \<lparr> h_cwd = ''/'', h_tryRequire = loader, h_sha256hex = sampleDigest,
       h_isMatch = (\<lambda>p pattern. True), h_normalizePath = (\<lambda>p. p), h_now = 1000,
       h_dbFails = (\<lambda>_. False), h_gitStatus = None, h_gitLsFiles = None, h_walk = [] \<rparr>"

definition noGrammars :: Loader where
  "noGrammars module prop = None"

definition emptyStore :: Store where
  "emptyStore = \<lparr> s_files = [], s_nodes = [], s_edges = [], s_unresolvedRefs = [] \<rparr>"

definition sampleStats :: Stats where
  "sampleStats = \<lparr> st_size = 38, st_mtimeMs = 500 \<rparr>"

text \<open>
  What indexing \<open>a.ts\<close> with the content \<open>class A { static { function f() {} } }\<close> returns
  and stores, and a store that holds an older version of the file.
\<close>

definition classA :: Node where
  "classA = \<lparr> n_id = ''class:1:A:ssalc:st.a00'', n_kind = K_class, n_name = ''A'',
               n_qualifiedName = ''a.ts::A'', n_filePath = ''a.ts'',
               n_language = ''typescript'', n_startLine = 1, n_endLine = 1,
               n_startColumn = 0, n_endColumn = 38 \<rparr>"

definition functionF :: Node where
  "functionF = \<lparr> n_id = ''function:1:f:noitcnuf:st.'', n_kind = K_function, n_name = ''f'',
                  n_qualifiedName = ''a.ts::A::f'', n_filePath = ''a.ts'',
                  n_language = ''typescript'', n_startLine = 1, n_endLine = 1,
                  n_startColumn = 19, n_endColumn = 34 \<rparr>"

definition edgeAF :: Edge where
  "edgeAF = \<lparr> e_source = ''class:1:A:ssalc:st.a00'', e_target = ''function:1:f:noitcnuf:st.'',
               e_kind = E_contains \<rparr>"

definition sampleResult :: ExtractionResult where
  "sampleResult = \<lparr> res_nodes = [classA, functionF], res_edges = [edgeAF],
                     res_unresolvedReferences = [], res_errors = [] \<rparr>"

definition sampleRecord :: FileRecord where
  "sampleRecord = \<lparr> f_path = ''a.ts'', f_contentHash = sampleDigest staticBlockSource,
                     f_language = ''typescript'', f_size = 38, f_modifiedAt = 500,
                     f_indexedAt = 1000, f_nodeCount = 2, f_errors = None \<rparr>"

definition indexedStore :: Store where
  "indexedStore = \<lparr> s_files = [sampleRecord], s_nodes = [classA, functionF],
                     s_edges = [edgeAF], s_unresolvedRefs = [] \<rparr>"

definition oldNode :: Node where
  "oldNode = \<lparr> n_id = ''function:old'', n_kind = K_function, n_name = ''g'',
                n_qualifiedName = ''a.ts::g'', n_filePath = ''a.ts'',
                n_language = ''typescript'', n_startLine = 1, n_endLine = 1,
                n_startColumn = 0, n_endColumn = 17 \<rparr>"

definition staleStore :: Store where
  "staleStore = \<lparr> s_files = [sampleRecord\<lparr> f_contentHash := ''stale'', f_size := 17,
                                            f_nodeCount := 1 \<rparr>],
                   s_nodes = [oldNode], s_edges = [], s_unresolvedRefs = [] \<rparr>"

text \<open>
  A disk on which \<open>/proj/a.ts\<close> is a symbolic link to a file outside the project:
  reading it returns the content of the target, \<open>realpath\<close> returns the target.
\<close>

definition symlinkFs :: FileSys where
  "symlinkFs =
     \<lparr> readFile = (\<lambda>p. if p = ''/proj/a.ts'' then Inr staticBlockSource
                        else Inl (JsError ''ENOENT'')),
       stat = (\<lambda>p. if p = ''/proj/a.ts'' then Inr sampleStats else Inl (JsError ''ENOENT'')),
       realpath = (\<lambda>p. if p = ''/proj/a.ts'' then Inr ''/home/user/secret.ts'' else Inr p) \<rparr>"



text \<open>
  A disk that holds \<open>/proj/a.ts\<close> and nothing else, an empty disk, a host without git
  whose file-system walk finds \<open>a.ts\<close>, a host on which \<open>git status\<close> reports no change,
  and a store that has drifted from the disk: an older version of \<open>a.ts\<close> and a record of
  \<open>gone.ts\<close>, which is no longer there.
\<close>

definition projectFs :: FileSys where
  "projectFs =
     \<lparr> readFile = (\<lambda>p. if p = ''/proj/a.ts'' then Inr staticBlockSource
                        else Inl (JsError ''ENOENT'')),
       stat = (\<lambda>p. if p = ''/proj/a.ts'' then Inr sampleStats else Inl (JsError ''ENOENT'')),
       realpath = (\<lambda>p. Inr p) \<rparr>"


definition walkHost :: Host where
  "walkHost = (sampleHost (tsLoader staticBlockTree))\<lparr> h_walk := [''a.ts''] \<rparr>"

definition gitCleanHost :: Host where
  "gitCleanHost = (sampleHost (tsLoader staticBlockTree))\<lparr> h_gitStatus := Some [] \<rparr>"




section \<open>Properties\<close>

subsection \<open>The file lock\<close>


lemma digitsVal_snoc: "digitsVal (xs @ [c]) = 10 * digitsVal xs + digitVal c"
  by (simp add: digitsVal_def)

lemma digit_chars_all:
  "\<forall>d \<in> set [0..<10]. isDigit (char_of (48 + d)) \<and> \<not> isWhiteSpace (char_of (48 + d))"
  by code_simp

lemma isDigit_char_of: "(d::nat) < 10 \<Longrightarrow> isDigit (char_of (48 + d))"
  using digit_chars_all by simp

lemma digitVal_char_of: "(d::nat) < 10 \<Longrightarrow> digitVal (char_of (48 + d)) = int d"
  by (simp add: digitVal_def)

lemma natToString_nonempty: "natToString n \<noteq> []"
  by (subst natToString.simps) simp

lemma natToString_digits: "c \<in> set (natToString n) \<Longrightarrow> isDigit c"
proof (induction n arbitrary: c rule: natToString.induct)
  case (1 n)
  show ?case
  proof (cases "n < 10")
    case True
    with "1.prems" show ?thesis
      by (subst (asm) natToString.simps) (simp add: isDigit_char_of)
  next
    case False
    with "1.prems" have "c \<in> set (natToString (n div 10)) \<or> c = char_of (48 + n mod 10)"
      by (subst (asm) natToString.simps) auto
    then show ?thesis
      using "1.IH"[OF False] isDigit_char_of[of "n mod 10"] by auto
  qed
qed

lemma digitsVal_natToString: "digitsVal (natToString n) = int n"
proof (induction n rule: natToString.induct)
  case (1 n)
  show ?case
  proof (cases "n < 10")
    case True
    then show ?thesis
      by (subst natToString.simps) (simp add: digitsVal_def digitVal_char_of)
  next
    case False
    have "digitsVal (natToString n) = 10 * digitsVal (natToString (n div 10)) + digitVal (char_of (48 + n mod 10))"
      using False by (subst natToString.simps) (simp add: digitsVal_snoc)
    also have "\<dots> = 10 * int (n div 10) + int (n mod 10)"
      using "1.IH"[OF False] by (simp add: digitVal_char_of)
    also have "\<dots> = int n" by presburger
    finally show ?thesis .
  qed
qed

lemma isDigit_not_ws: "isDigit c \<Longrightarrow> \<not> isWhiteSpace c"
  by (auto simp: isDigit_def isWhiteSpace_def)

lemma dropWhile_hd_id: "s \<noteq> [] \<Longrightarrow> \<not> P (hd s) \<Longrightarrow> dropWhile P s = s"
  by (cases s) auto

lemma trim_no_ws: "s \<noteq> [] \<Longrightarrow> \<not> isWhiteSpace (hd s) \<Longrightarrow> \<not> isWhiteSpace (last s) \<Longrightarrow> trim s = s"
proof -
  assume ne: "s \<noteq> []" and h: "\<not> isWhiteSpace (hd s)" and l: "\<not> isWhiteSpace (last s)"
  have 1: "dropWhile isWhiteSpace s = s" using ne h by (rule dropWhile_hd_id)
  have "rev s \<noteq> []" "\<not> isWhiteSpace (hd (rev s))" using ne l by (simp_all add: hd_rev)
  then have 2: "dropWhile isWhiteSpace (rev s) = rev s" by (rule dropWhile_hd_id)
  show ?thesis unfolding trim_def 1 2 by simp
qed

lemma parseInt10_digits:
  assumes ne: "s \<noteq> []" and dig: "\<forall>c \<in> set s. isDigit c"
  shows "parseInt10 s = Some (digitsVal s)"
proof -
  have hd: "isDigit (hd s)" using ne dig by auto
  have hdm: "hd s \<noteq> CHR ''-''" "hd s \<noteq> CHR ''+''" using hd by (auto simp: isDigit_def)
  have ts: "trimStart s = s"
    unfolding trimStart_def using ne hd isDigit_not_ws by (intro dropWhile_hd_id) auto
  have tw: "takeWhile isDigit s = s" using dig by (simp add: takeWhile_eq_all_conv)
  have u: "(if s \<noteq> [] \<and> (hd s = CHR ''-'' \<or> hd s = CHR ''+'') then tl s else s) = s"
    using hdm by simp
  show ?thesis
    unfolding parseInt10_def ts Let_def u tw using ne hdm by simp
qed

lemma parseInt10_natToString: "parseInt10 (trim (natToString n)) = Some (int n)"
proof -
  let ?s = "natToString n"
  have ne: "?s \<noteq> []" by (rule natToString_nonempty)
  have dig: "\<forall>c \<in> set ?s. isDigit c" using natToString_digits by blast
  have "hd ?s \<in> set ?s" "last ?s \<in> set ?s" using ne by auto
  then have "\<not> isWhiteSpace (hd ?s)" "\<not> isWhiteSpace (last ?s)"
    using dig isDigit_not_ws by auto
  then have tr: "trim ?s = ?s" using trim_no_ws[OF ne] by blast
  show ?thesis
    unfolding tr using parseInt10_digits[OF ne dig] by (simp add: digitsVal_natToString)
qed

lemma parseInt10_intToString: "0 \<le> i \<Longrightarrow> parseInt10 (trim (intToString i)) = Some i"
  using parseInt10_natToString[of "nat i"] by (simp add: intToString_def)


lemma release_try_frame:
  "release_try pid l fs = Inr fs2 \<Longrightarrow>
     fs2 = fs \<or> ((\<exists>c. entries fs (lockPath l) = Some (Content c) \<and> parseInt10 (trim c) = Some pid)
                \<and> lockPath l \<notin> undeletable fs
                \<and> fs2 = fs\<lparr>entries := (entries fs)(lockPath l := None)\<rparr>)"
  by (auto simp: release_try_def readFileSync_def unlinkSync_def
           split: sum.splits option.splits fs_entry.splits if_splits)

lemma release_try_foreign:
  "entries fs (lockPath l) = Some Unreadable \<or>
   (\<exists>c. entries fs (lockPath l) = Some (Content c) \<and> parseInt10 (trim c) \<noteq> Some pid) \<Longrightarrow>
   release_try pid l fs = Inr fs2 \<Longrightarrow> fs2 = fs"
  by (auto simp: release_try_def readFileSync_def split: sum.splits option.splits fs_entry.splits if_splits)

text \<open>
  Claim C9. \<open>FileLock.release\<close> never throws, leaves the instance not holding the lock,
  and touches no path but the lock file. It changes the file system only by removing the
  lock file, and only when the instance held the lock and the file's content parses to the
  current process id. An unreadable lock file, one whose content does not parse to the
  current pid, and in particular one another process has written its own (different) pid
  into, is left in place.
\<close>

theorem release_only_own_lock:
  "\<exists>l' fs'. release pid l fs = Inr (l', fs')
     \<and> \<not> held l' \<and> lockPath l' = lockPath l
     \<and> undeletable fs' = undeletable fs
     \<and> (\<forall>p. p \<noteq> lockPath l \<longrightarrow> entries fs' p = entries fs p)
     \<and> (fs' \<noteq> fs \<longrightarrow>
          held l
          \<and> (\<exists>c. entries fs (lockPath l) = Some (Content c) \<and> parseInt10 (trim c) = Some pid)
          \<and> entries fs' (lockPath l) = None)
     \<and> (entries fs (lockPath l) = Some Unreadable \<longrightarrow> fs' = fs)
     \<and> (\<forall>c. entries fs (lockPath l) = Some (Content c) \<and> parseInt10 (trim c) \<noteq> Some pid
            \<longrightarrow> fs' = fs)
     \<and> (\<forall>other. 0 \<le> other \<and> other \<noteq> pid
            \<and> entries fs (lockPath l) = Some (Content (intToString other)) \<longrightarrow> fs' = fs)"
proof (cases "held l")
  case False
  then show ?thesis by (simp add: release_def)
next
  case True
  define fs' where "fs' = (case release_try pid l fs of Inl _ \<Rightarrow> fs | Inr fs2 \<Rightarrow> fs2)"
  have rel: "release pid l fs = Inr (l\<lparr>held := False\<rparr>, fs')"
    using True by (simp add: release_def fs'_def)
  have frame: "fs' = fs \<or> ((\<exists>c. entries fs (lockPath l) = Some (Content c) \<and> parseInt10 (trim c) = Some pid)
                \<and> fs' = fs\<lparr>entries := (entries fs)(lockPath l := None)\<rparr>)"
    using release_try_frame[of pid l fs] by (auto simp: fs'_def split: sum.splits)
  have foreign: "entries fs (lockPath l) = Some Unreadable \<or>
      (\<exists>c. entries fs (lockPath l) = Some (Content c) \<and> parseInt10 (trim c) \<noteq> Some pid) \<Longrightarrow> fs' = fs"
    using release_try_foreign[of fs l pid] by (auto simp: fs'_def split: sum.splits)
  have other: "fs' = fs"
    if "0 \<le> other" "other \<noteq> pid" "entries fs (lockPath l) = Some (Content (intToString other))" for other
    using foreign that parseInt10_intToString[of other] by auto
  show ?thesis
    using rel True frame foreign other by (intro exI[of _ "l\<lparr>held := False\<rparr>"] exI[of _ fs']) auto
qed

text \<open>
  The lock file holds the pid 777 of another process when process 4242 releases: the file
  stays, the held flag is cleared.
\<close>

theorem release_only_own_lock_witness:
  "release 4242 \<lparr>lockPath = ''/p/.codegraph/codegraph.lock'', held = True\<rparr>
      \<lparr>entries = (\<lambda>p. if p = ''/p/.codegraph/codegraph.lock'' then Some (Content ''777'') else None),
       undeletable = {}\<rparr>
   = Inr (\<lparr>lockPath = ''/p/.codegraph/codegraph.lock'', held = False\<rparr>,
          \<lparr>entries = (\<lambda>p. if p = ''/p/.codegraph/codegraph.lock'' then Some (Content ''777'') else None),
           undeletable = {}\<rparr>)
   \<and> (0::int) \<le> 777 \<and> (777::int) \<noteq> 4242 \<and> intToString 777 = ''777''"
proof -
  define L where "L = \<lparr>lockPath = ''/p/.codegraph/codegraph.lock'', held = True\<rparr>"
  define FS where "FS = \<lparr>entries = (\<lambda>p. if p = ''/p/.codegraph/codegraph.lock''
                                        then Some (Content ''777'') else None),
                         undeletable = {}\<rparr>"
  have s: "intToString 777 = ''777''"
    by code_simp
  from release_only_own_lock[of 4242 L FS]
  obtain l' fs' where r: "release 4242 L FS = Inr (l', fs')"
    and h: "\<not> held l'" and p: "lockPath l' = lockPath L"
    and o: "\<forall>other. 0 \<le> other \<and> other \<noteq> 4242
              \<and> entries FS (lockPath L) = Some (Content (intToString other)) \<longrightarrow> fs' = FS"
    by blast
  have e: "entries FS (lockPath L) = Some (Content (intToString 777))"
    unfolding s by (simp add: FS_def L_def)
  have "fs' = FS" using o[rule_format, of 777] e by simp
  moreover have "l' = \<lparr>lockPath = ''/p/.codegraph/codegraph.lock'', held = False\<rparr>"
    using h p by (cases l') (simp add: L_def)
  ultimately show ?thesis
    using r s unfolding L_def FS_def by simp
qed

subsection \<open>The transaction wrapper\<close>

lemma data_only_keeps_open:
  "data_only fn \<Longrightarrow> txn db = Some w \<Longrightarrow>
   \<exists>w'. snd (run_fn can_commit fn db) = db\<lparr>txn := Some w'\<rparr>"
proof (induction fn arbitrary: db w rule: data_only.induct)
  case (1 a)
  then show ?case by (intro exI[of _ w]) simp
next
  case (2 e)
  then show ?case by (intro exI[of _ w]) simp
next
  case (3 k)
  then show ?case by simp
next
  case (4 rest f)
  have "txn (write_visible f db) = Some (f w)"
    using 4(3) by (simp add: write_visible_def)
  from 4(2)[OF this] obtain w' where
    "snd (run_fn can_commit rest (write_visible f db)) = (write_visible f db)\<lparr>txn := Some w'\<rparr>"
    by blast
  then show ?case using 4(3) by (intro exI[of _ w']) (simp add: write_visible_def)
qed

lemma transaction_cases:
  assumes "txn db = None"
    and "run_body can_commit fn (db\<lparr>cmd_log := cmd_log db @ [Exec BEGIN], txn := Some (durable db)\<rparr>)
           = (r, db2)"
  shows "transaction can_commit fn db =
      (case txn db2 of
         Some w \<Rightarrow>
           (case r of
              Inl e \<Rightarrow> (Inl e, db2\<lparr>cmd_log := cmd_log db2 @ [Exec ROLLBACK], txn := None\<rparr>)
            | Inr a \<Rightarrow>
                if can_commit w
                then (Inr a, db2\<lparr>cmd_log := cmd_log db2 @ [Exec COMMIT], durable := w, txn := None\<rparr>)
                else (Inl (JsError ''commit failed''),
                      db2\<lparr>cmd_log := cmd_log db2 @ [Exec COMMIT, Exec ROLLBACK], txn := None\<rparr>))
       | None \<Rightarrow>
           (Inl (JsError ''cannot rollback - no transaction is active''),
            db2\<lparr>cmd_log := cmd_log db2 @
                    (case r of Inl _ \<Rightarrow> [Exec ROLLBACK] | Inr _ \<Rightarrow> [Exec COMMIT, Exec ROLLBACK])\<rparr>))"
  using assms
  by (auto simp: transaction_def transaction_catch_def exec_def Let_def
           split: option.splits sum.splits)

text \<open>
  Claim C10, as the code has it. Inside an open transaction \<open>BEGIN\<close> fails: the function
  does not run and nothing changes. Otherwise the adapter issues \<open>BEGIN\<close> and runs the
  function. If the transaction is still open when the function ends: after a throw the
  adapter issues \<open>ROLLBACK\<close> and rethrows the same error; after a return it issues
  \<open>COMMIT\<close> and the working copy becomes the durable state, or, when the engine refuses
  the commit, it issues \<open>ROLLBACK\<close> and throws the engine's error. If a step of the
  function has ended the transaction, the \<open>ROLLBACK\<close> of the \<open>catch\<close> fails, and its error
  is thrown in place of the function's. A function that only reads and writes data leaves
  the transaction open and the durable state untouched, so for such a function a failed
  call leaves the database as it was and a successful one commits all its writes together.
\<close>

theorem transaction_outcomes:
  "(txn db \<noteq> None \<longrightarrow>
      transaction can_commit fn db =
        (Inl (JsError ''cannot start a transaction within a transaction''),
         db\<lparr>cmd_log := cmd_log db @ [Exec BEGIN]\<rparr>))
   \<and> (txn db = None \<longrightarrow>
        (case run_body can_commit fn
                (db\<lparr>cmd_log := cmd_log db @ [Exec BEGIN], txn := Some (durable db)\<rparr>) of
           (r, db2) \<Rightarrow>
             transaction can_commit fn db =
               (case txn db2 of
                  Some w \<Rightarrow>
                    (case r of
                       Inl e \<Rightarrow> (Inl e, db2\<lparr>cmd_log := cmd_log db2 @ [Exec ROLLBACK], txn := None\<rparr>)
                     | Inr a \<Rightarrow>
                         if can_commit w
                         then (Inr a, db2\<lparr>cmd_log := cmd_log db2 @ [Exec COMMIT],
                                         durable := w, txn := None\<rparr>)
                         else (Inl (JsError ''commit failed''),
                               db2\<lparr>cmd_log := cmd_log db2 @ [Exec COMMIT, Exec ROLLBACK],
                                   txn := None\<rparr>))
                | None \<Rightarrow>
                    (Inl (JsError ''cannot rollback - no transaction is active''),
                     db2\<lparr>cmd_log := cmd_log db2 @
                             (case r of Inl _ \<Rightarrow> [Exec ROLLBACK]
                              | Inr _ \<Rightarrow> [Exec COMMIT, Exec ROLLBACK])\<rparr>))
             \<and> (data_only fn \<longrightarrow>
                  (\<exists>w. db2 = db\<lparr>cmd_log := cmd_log db @ [Exec BEGIN, Body], txn := Some w\<rparr>
                       \<and> transaction can_commit fn db =
                           (case r of
                              Inl e \<Rightarrow>
                                (Inl e, db\<lparr>cmd_log := cmd_log db @ [Exec BEGIN, Body, Exec ROLLBACK]\<rparr>)
                            | Inr a \<Rightarrow>
                                if can_commit w
                                then (Inr a, db\<lparr>durable := w,
                                                cmd_log := cmd_log db @ [Exec BEGIN, Body, Exec COMMIT]\<rparr>)
                                else (Inl (JsError ''commit failed''),
                                      db\<lparr>cmd_log := cmd_log db @
                                              [Exec BEGIN, Body, Exec COMMIT, Exec ROLLBACK]\<rparr>))))))"
proof (intro conjI impI)
  assume "txn db \<noteq> None"
  then show "transaction can_commit fn db =
        (Inl (JsError ''cannot start a transaction within a transaction''),
         db\<lparr>cmd_log := cmd_log db @ [Exec BEGIN]\<rparr>)"
    by (auto simp: transaction_def exec_def Let_def)
next
  assume n: "txn db = None"
  let ?db1 = "db\<lparr>cmd_log := cmd_log db @ [Exec BEGIN], txn := Some (durable db)\<rparr>"
  obtain r db2 where b: "run_body can_commit fn ?db1 = (r, db2)"
    by (cases "run_body can_commit fn ?db1")
  note c = transaction_cases[OF n b]
  have d: "\<exists>w. db2 = db\<lparr>cmd_log := cmd_log db @ [Exec BEGIN, Body], txn := Some w\<rparr>
              \<and> transaction can_commit fn db =
                  (case r of
                     Inl e \<Rightarrow>
                       (Inl e, db\<lparr>cmd_log := cmd_log db @ [Exec BEGIN, Body, Exec ROLLBACK]\<rparr>)
                   | Inr a \<Rightarrow>
                       if can_commit w
                       then (Inr a, db\<lparr>durable := w,
                                       cmd_log := cmd_log db @ [Exec BEGIN, Body, Exec COMMIT]\<rparr>)
                       else (Inl (JsError ''commit failed''),
                             db\<lparr>cmd_log := cmd_log db @
                                     [Exec BEGIN, Body, Exec COMMIT, Exec ROLLBACK]\<rparr>))"
    if "data_only fn"
  proof -
    let ?db1' = "?db1\<lparr>cmd_log := cmd_log ?db1 @ [Body]\<rparr>"
    have "txn ?db1' = Some (durable db)" by simp
    from data_only_keeps_open[OF that this, of can_commit] obtain w where
      "snd (run_fn can_commit fn ?db1') = ?db1'\<lparr>txn := Some w\<rparr>" by blast
    then have e: "db2 = db\<lparr>cmd_log := cmd_log db @ [Exec BEGIN, Body], txn := Some w\<rparr>"
      using b by (simp add: run_body_def)
    show ?thesis
      using c n unfolding e
      by (intro exI[of _ w]) (cases r; simp)
  qed
  show "case run_body can_commit fn ?db1 of
           (r, db2) \<Rightarrow>
             transaction can_commit fn db =
               (case txn db2 of
                  Some w \<Rightarrow>
                    (case r of
                       Inl e \<Rightarrow> (Inl e, db2\<lparr>cmd_log := cmd_log db2 @ [Exec ROLLBACK], txn := None\<rparr>)
                     | Inr a \<Rightarrow>
                         if can_commit w
                         then (Inr a, db2\<lparr>cmd_log := cmd_log db2 @ [Exec COMMIT],
                                         durable := w, txn := None\<rparr>)
                         else (Inl (JsError ''commit failed''),
                               db2\<lparr>cmd_log := cmd_log db2 @ [Exec COMMIT, Exec ROLLBACK],
                                   txn := None\<rparr>))
                | None \<Rightarrow>
                    (Inl (JsError ''cannot rollback - no transaction is active''),
                     db2\<lparr>cmd_log := cmd_log db2 @
                             (case r of Inl _ \<Rightarrow> [Exec ROLLBACK]
                              | Inr _ \<Rightarrow> [Exec COMMIT, Exec ROLLBACK])\<rparr>))
             \<and> (data_only fn \<longrightarrow>
                  (\<exists>w. db2 = db\<lparr>cmd_log := cmd_log db @ [Exec BEGIN, Body], txn := Some w\<rparr>
                       \<and> transaction can_commit fn db =
                           (case r of
                              Inl e \<Rightarrow>
                                (Inl e, db\<lparr>cmd_log := cmd_log db @ [Exec BEGIN, Body, Exec ROLLBACK]\<rparr>)
                            | Inr a \<Rightarrow>
                                if can_commit w
                                then (Inr a, db\<lparr>durable := w,
                                                cmd_log := cmd_log db @ [Exec BEGIN, Body, Exec COMMIT]\<rparr>)
                                else (Inl (JsError ''commit failed''),
                                      db\<lparr>cmd_log := cmd_log db @
                                              [Exec BEGIN, Body, Exec COMMIT, Exec ROLLBACK]\<rparr>))))"
    using c d by (simp add: b)
qed

text \<open>
  A function that writes and then throws leaves the durable state 5 untouched and its
  error is rethrown; one that reads the state, writes and returns what it read has its
  write committed.
\<close>

theorem transaction_outcomes_witness:
  "transaction (\<lambda>_. True) (Writes (\<lambda>s. s + 1) (Throws (JsError ''boom'')) :: (nat, unit) db_fn)
      \<lparr>durable = 5, txn = None, cmd_log = []\<rparr>
   = (Inl (JsError ''boom''), \<lparr>durable = 5, txn = None, cmd_log = [Exec BEGIN, Body, Exec ROLLBACK]\<rparr>)
   \<and> transaction (\<lambda>_. True) (Reads (\<lambda>s. Writes (\<lambda>_. s + 1) (Returns s)) :: (nat, nat) db_fn)
      \<lparr>durable = 5, txn = None, cmd_log = []\<rparr>
   = (Inr 5, \<lparr>durable = 6, txn = None, cmd_log = [Exec BEGIN, Body, Exec COMMIT]\<rparr>)"
proof -
  have a: "data_only (Writes (\<lambda>s. s + 1) (Throws (JsError ''boom'')) :: (nat, unit) db_fn)"
    by (intro data_only.intros)
  have b: "data_only (Reads (\<lambda>s. Writes (\<lambda>_. s + 1) (Returns s)) :: (nat, nat) db_fn)"
    by (intro data_only.intros)
  show ?thesis
    using transaction_outcomes[where db = "\<lparr>durable = 5::nat, txn = None, cmd_log = []\<rparr>"
            and can_commit = "\<lambda>_. True"
            and fn = "Writes (\<lambda>s. s + 1) (Throws (JsError ''boom'')) :: (nat, unit) db_fn"]
          transaction_outcomes[where db = "\<lparr>durable = 5::nat, txn = None, cmd_log = []\<rparr>"
            and can_commit = "\<lambda>_. True"
            and fn = "Reads (\<lambda>s. Writes (\<lambda>_. s + 1) (Returns s)) :: (nat, nat) db_fn"]
          a b
    by (simp add: run_body_def write_visible_def visible_def)
qed

text \<open>
  Against the claim as it was stated: the function writes, then runs a statement whose
  conflict makes the engine roll the transaction back, and throws the engine's error. The
  \<open>ROLLBACK\<close> of the \<open>catch\<close> fails, and the caller gets its error, not the function's.
  And a function that commits by itself and then throws has its write stored although the
  call failed.
\<close>

theorem rollback_without_transaction:
  "transaction (\<lambda>_. True)
      (Writes (\<lambda>s. s + 1)
         (EngineRollsBack (Throws (JsError ''UNIQUE constraint failed: t.x''))) :: (nat, unit) db_fn)
      \<lparr>durable = 5, txn = None, cmd_log = []\<rparr>
   = (Inl (JsError ''cannot rollback - no transaction is active''),
      \<lparr>durable = 5, txn = None, cmd_log = [Exec BEGIN, Body, Exec ROLLBACK]\<rparr>)
   \<and> transaction (\<lambda>_. True)
      (Writes (\<lambda>s. s + 1) (Execs COMMIT (\<lambda>_. Throws (JsError ''boom''))) :: (nat, unit) db_fn)
      \<lparr>durable = 5, txn = None, cmd_log = []\<rparr>
   = (Inl (JsError ''cannot rollback - no transaction is active''),
      \<lparr>durable = 6, txn = None, cmd_log = [Exec BEGIN, Body, Exec COMMIT, Exec ROLLBACK]\<rparr>)"
  by (simp add: transaction_def transaction_catch_def run_body_def exec_def write_visible_def)

lemma fold_invariant:
  "(\<And>x s. x \<in> set xs \<Longrightarrow> Q s \<Longrightarrow> Q (f x s)) \<Longrightarrow> Q s \<Longrightarrow> Q (fold f xs s)"
  by (induction xs arbitrary: s) auto

subsection \<open>What each step does to the node list\<close>

lemma nodes_pushStack [simp]: "nodes (pushStack i st) = nodes st"
  by (simp add: pushStack_def)

lemma nodes_popStack [simp]: "nodes (popStack st) = nodes st"
  by (simp add: popStack_def)

lemma nodes_extractCall [simp]: "nodes (extractCall ctx node st) = nodes st"
  by (simp add: extractCall_def Let_def)

lemma nodes_extractImport [simp]: "nodes (extractImport ctx node st) = nodes st"
  by (simp add: extractImport_def Let_def)

lemma nodes_inheritanceOfChild [simp]: "nodes (inheritanceOfChild ctx i c st) = nodes st"
  by (simp add: inheritanceOfChild_def Let_def split: option.splits)

lemma nodes_extractInheritance [simp]: "nodes (extractInheritance ctx node i st) = nodes st"
  unfolding extractInheritance_def
  by (rule fold_invariant[where Q = "\<lambda>t. nodes t = nodes st"]) simp_all

lemma nodes_visitForCalls [simp]: "nodes (visitForCalls ctx ex node st) = nodes st"
proof (induction ctx ex node st rule: visitForCalls.induct)
  case (1 ctx ex node st)
  have "nodes (fold (visitForCalls ctx ex) (namedChildren node) s) = nodes s" for s
    using "1.IH" by (rule_tac fold_invariant[where Q = "\<lambda>t. nodes t = nodes s"]) auto
  then show ?case by (subst visitForCalls.simps) simp
qed

lemma nodes_visitFunctionBody [simp]: "nodes (visitFunctionBody ctx body i st) = nodes st"
  by (simp add: visitFunctionBody_def split: option.splits)

lemma nodes_createNode:
  "nodes (snd (createNode ctx kind name node st)) = nodes st @ [fst (createNode ctx kind name node st)]"
  by (simp add: createNode_def Let_def)

lemma fst_createNode_kind [simp]: "n_kind (fst (createNode ctx kind name node st)) = kind"
  by (simp add: createNode_def Let_def)

lemma fst_createNode_id_ok: "node_id_ok (sha256hex ctx) (fst (createNode ctx kind name node st))"
  by (simp add: createNode_def Let_def node_id_ok_def)

lemma fst_createNode_filePath [simp]: "n_filePath (fst (createNode ctx kind name node st)) = filePath ctx"
  by (simp add: createNode_def Let_def)

text \<open>The nodes a function-typed syntax node leaves: one, of the kind chosen, or none.\<close>

lemma nodes_extractFunction:
  "nodes (extractFunction ctx node st) =
     nodes st @ (case extractor ctx of
                   None \<Rightarrow> []
                 | Some ex \<Rightarrow>
                     if extractName node (source ctx) ex = ''<anonymous>'' then []
                     else [fst (createNode ctx K_function (extractName node (source ctx) ex) node st)])"
  by (simp add: extractFunction_def Let_def nodes_createNode split: option.splits prod.splits)
     (metis fst_conv snd_conv nodes_createNode)

lemma nodes_extractMethod:
  "nodes (extractMethod ctx node st) =
     nodes st @ (case extractor ctx of
                   None \<Rightarrow> []
                 | Some ex \<Rightarrow>
                     if nodeStack st = [] \<and> language ctx \<noteq> ''go'' then
                       (if extractName node (source ctx) ex = ''<anonymous>'' then []
                        else [fst (createNode ctx K_function (extractName node (source ctx) ex) node st)])
                     else [fst (createNode ctx K_method (extractName node (source ctx) ex) node st)])"
proof (cases "extractor ctx")
  case None
  then show ?thesis by (simp add: extractMethod_def)
next
  case (Some ex)
  show ?thesis
  proof (cases "nodeStack st = [] \<and> language ctx \<noteq> ''go''")
    case True
    then show ?thesis using Some by (simp add: extractMethod_def nodes_extractFunction)
  next
    case False
    obtain m st1 where c: "createNode ctx K_method (extractName node (source ctx) ex) node st = (m, st1)"
      by (cases "createNode ctx K_method (extractName node (source ctx) ex) node st")
    have "nodes st1 = nodes st @ [m]"
      using nodes_createNode[of ctx K_method "extractName node (source ctx) ex" node st] c by simp
    then show ?thesis
      using Some False c by (auto simp: extractMethod_def Let_def split: option.splits)
  qed
qed

lemma nodes_extractInterface:
  "\<exists>new. nodes (extractInterface ctx node st) = nodes st @ new
         \<and> (\<forall>n \<in> set new. node_id_ok (sha256hex ctx) n \<and> n_kind n \<in> {K_interface, K_trait})"
  by (cases "extractor ctx")
     (auto simp: extractInterface_def Let_def nodes_createNode fst_createNode_id_ok)

lemma nodes_extractEnum:
  "\<exists>new. nodes (extractEnum ctx node st) = nodes st @ new
         \<and> (\<forall>n \<in> set new. node_id_ok (sha256hex ctx) n \<and> n_kind n = K_enum)"
  by (cases "extractor ctx")
     (auto simp: extractEnum_def Let_def nodes_createNode fst_createNode_id_ok)

lemma ids_ok_nodes_cong: "nodes st' = nodes st \<Longrightarrow> ids_ok ctx st' = ids_ok ctx st"
  by (simp add: ids_ok_def)

lemma ids_ok_createNode: "ids_ok ctx st \<Longrightarrow> ids_ok ctx (snd (createNode ctx kind name node st))"
  by (auto simp: ids_ok_def nodes_createNode fst_createNode_id_ok)

lemma ids_ok_extractFunction: "ids_ok ctx st \<Longrightarrow> ids_ok ctx (extractFunction ctx node st)"
  by (auto simp: ids_ok_def nodes_extractFunction fst_createNode_id_ok split: option.splits if_splits)

lemma ids_ok_extractMethod: "ids_ok ctx st \<Longrightarrow> ids_ok ctx (extractMethod ctx node st)"
  by (auto simp: ids_ok_def nodes_extractMethod fst_createNode_id_ok split: option.splits if_splits)

lemma ids_ok_extractInterface: "ids_ok ctx st \<Longrightarrow> ids_ok ctx (extractInterface ctx node st)"
  by (cases "extractor ctx")
     (auto simp: extractInterface_def Let_def intro: ids_ok_createNode)

lemma ids_ok_extractEnum: "ids_ok ctx st \<Longrightarrow> ids_ok ctx (extractEnum ctx node st)"
  by (cases "extractor ctx")
     (auto simp: extractEnum_def Let_def intro: ids_ok_createNode)

subsection \<open>The branches of \<open>visitNode\<close>\<close>

lemma visitNode_None: "extractor ctx = None \<Longrightarrow> visitNode ctx node st = st"
  by (simp add: visitNode.simps)

lemma visitNode_function:
  "extractor ctx = Some ex \<Longrightarrow> ntype node \<in> set (functionTypes ex) \<Longrightarrow>
   visitNode ctx node st =
     (if nodeStack st \<noteq> [] \<and> ntype node \<in> set (methodTypes ex)
      then extractMethod ctx node st else extractFunction ctx node st)"
  by (simp add: visitNode.simps)

lemma visitNode_class:
  "extractor ctx = Some ex \<Longrightarrow> ntype node \<notin> set (functionTypes ex) \<Longrightarrow>
   ntype node \<in> set (classTypes ex) \<Longrightarrow>
   visitNode ctx node st =
     (if language ctx = ''swift'' \<and> hasChildOfType node ''struct'' then extractStruct ctx node st
      else if language ctx = ''swift'' \<and> hasChildOfType node ''enum'' then extractEnum ctx node st
      else extractClass ctx node st)"
  by (simp add: visitNode.simps)

lemma visitNode_method:
  "extractor ctx = Some ex \<Longrightarrow> ntype node \<notin> set (functionTypes ex) \<Longrightarrow>
   ntype node \<notin> set (classTypes ex) \<Longrightarrow> ntype node \<in> set (methodTypes ex) \<Longrightarrow>
   visitNode ctx node st = extractMethod ctx node st"
  by (simp add: visitNode.simps)

lemma visitNode_interface:
  "extractor ctx = Some ex \<Longrightarrow> ntype node \<notin> set (functionTypes ex) \<Longrightarrow>
   ntype node \<notin> set (classTypes ex) \<Longrightarrow> ntype node \<notin> set (methodTypes ex) \<Longrightarrow>
   ntype node \<in> set (interfaceTypes ex) \<Longrightarrow>
   visitNode ctx node st = extractInterface ctx node st"
  by (simp add: visitNode.simps)

lemma visitNode_struct:
  "extractor ctx = Some ex \<Longrightarrow> ntype node \<notin> set (functionTypes ex) \<Longrightarrow>
   ntype node \<notin> set (classTypes ex) \<Longrightarrow> ntype node \<notin> set (methodTypes ex) \<Longrightarrow>
   ntype node \<notin> set (interfaceTypes ex) \<Longrightarrow> ntype node \<in> set (structTypes ex) \<Longrightarrow>
   visitNode ctx node st = extractStruct ctx node st"
  by (simp add: visitNode.simps)

lemma visitNode_enum:
  "extractor ctx = Some ex \<Longrightarrow> ntype node \<notin> set (functionTypes ex) \<Longrightarrow>
   ntype node \<notin> set (classTypes ex) \<Longrightarrow> ntype node \<notin> set (methodTypes ex) \<Longrightarrow>
   ntype node \<notin> set (interfaceTypes ex) \<Longrightarrow> ntype node \<notin> set (structTypes ex) \<Longrightarrow>
   ntype node \<in> set (enumTypes ex) \<Longrightarrow>
   visitNode ctx node st = extractEnum ctx node st"
  by (simp add: visitNode.simps)

lemma visitNode_import:
  "extractor ctx = Some ex \<Longrightarrow> \<not> declarationType ex (ntype node) \<Longrightarrow>
   ntype node \<in> set (importTypes ex) \<Longrightarrow>
   visitNode ctx node st = fold (visitNode ctx) (namedChildren node) (extractImport ctx node st)"
  by (simp add: visitNode.simps declarationType_def)

lemma visitNode_call:
  "extractor ctx = Some ex \<Longrightarrow> \<not> declarationType ex (ntype node) \<Longrightarrow>
   ntype node \<notin> set (importTypes ex) \<Longrightarrow> ntype node \<in> set (callTypes ex) \<Longrightarrow>
   visitNode ctx node st = fold (visitNode ctx) (namedChildren node) (extractCall ctx node st)"
  by (simp add: visitNode.simps declarationType_def)

lemma visitNode_other:
  "extractor ctx = Some ex \<Longrightarrow> \<not> declarationType ex (ntype node) \<Longrightarrow>
   ntype node \<notin> set (importTypes ex) \<Longrightarrow> ntype node \<notin> set (callTypes ex) \<Longrightarrow>
   visitNode ctx node st = fold (visitNode ctx) (namedChildren node) st"
  by (simp add: visitNode.simps declarationType_def)

lemma extractClass_Some:
  "extractor ctx = Some ex \<Longrightarrow>
   createNode ctx K_class (extractName node (source ctx) ex) node st = (c, st1) \<Longrightarrow>
   extractClass ctx node st =
     popStack (fold (visitNode ctx) (namedChildren (bodyOrSelf ex node))
                 (pushStack (n_id c) (extractInheritance ctx node (n_id c) st1)))"
  by (simp add: extractClass.simps Let_def)

lemma extractStruct_Some:
  "extractor ctx = Some ex \<Longrightarrow>
   createNode ctx K_struct (extractName node (source ctx) ex) node st = (c, st1) \<Longrightarrow>
   extractStruct ctx node st =
     popStack (fold (visitNode ctx) (namedChildren (bodyOrSelf ex node)) (pushStack (n_id c) st1))"
  by (simp add: extractStruct.simps Let_def)

text \<open>
  A relation between the state before and after that every leaf step establishes, that is
  reflexive and transitive, and that survives the bracket of \<open>extractClass\<close> and
  \<open>extractStruct\<close> (create, push, visit the body, pop), holds across \<open>visitNode\<close>.
\<close>

lemma fold_rel:
  assumes "\<And>s. R s s" and "\<And>a b c. R a b \<Longrightarrow> R b c \<Longrightarrow> R a c"
    and "\<And>x s. x \<in> set xs \<Longrightarrow> R s (f x s)"
  shows "R s (fold f xs s)"
  using assms(3)
proof (induction xs arbitrary: s)
  case Nil
  then show ?case by (simp add: assms(1))
next
  case (Cons x xs)
  have "R s (f x s)" using Cons.prems by simp
  moreover have "R (f x s) (fold f xs (f x s))" using Cons by simp
  ultimately show ?case using assms(2) by auto
qed

lemma visit_rel_aux:
  fixes R :: "ExtractorState \<Rightarrow> ExtractorState \<Rightarrow> bool"
  assumes rfl: "\<And>s. R s s" and trans: "\<And>a b c. R a b \<Longrightarrow> R b c \<Longrightarrow> R a c"
    and func: "\<And>node s. R s (extractFunction ctx node s)"
    and meth: "\<And>node s. R s (extractMethod ctx node s)"
    and intf: "\<And>node s. R s (extractInterface ctx node s)"
    and enum: "\<And>node s. R s (extractEnum ctx node s)"
    and imp: "\<And>node s. R s (extractImport ctx node s)"
    and call: "\<And>node s. R s (extractCall ctx node s)"
    and cls: "\<And>ex node s c s1 s4. extractor ctx = Some ex \<Longrightarrow>
               createNode ctx K_class (extractName node (source ctx) ex) node s = (c, s1) \<Longrightarrow>
               R (pushStack (n_id c) (extractInheritance ctx node (n_id c) s1)) s4 \<Longrightarrow>
               R s (popStack s4)"
    and str: "\<And>ex node s c s1 s3. extractor ctx = Some ex \<Longrightarrow>
               createNode ctx K_struct (extractName node (source ctx) ex) node s = (c, s1) \<Longrightarrow>
               R (pushStack (n_id c) s1) s3 \<Longrightarrow> R s (popStack s3)"
  shows "R st (visitNode ctx' node st) \<or> ctx' \<noteq> ctx"
       "R st (extractClass ctx' node st) \<or> ctx' \<noteq> ctx"
       "R st (extractStruct ctx' node st) \<or> ctx' \<noteq> ctx"
  proof (induction ctx' node st and ctx' node st and ctx' node st
         rule: visitNode_extractClass_extractStruct.induct)
    case (1 ctx' node st)
    show ?case
    proof (cases "ctx' = ctx")
      case False
      then show ?thesis by simp
    next
      case True
      show ?thesis
      proof (cases "extractor ctx")
        case None
        then show ?thesis using True rfl by (simp add: visitNode_None)
      next
        case (Some ex)
        note ex = Some[folded True]
        let ?t = "ntype node"
        have kids: "R s (fold (visitNode ctx) (namedChildren node) s)"
          if "\<And>x s. x \<in> set (namedChildren node) \<Longrightarrow> R s (visitNode ctx' x s) \<or> ctx' \<noteq> ctx" for s
          using that True by (intro fold_rel[where R = R] rfl) (auto intro: trans)
        consider (f) "?t \<in> set (functionTypes ex)"
          | (c) "?t \<notin> set (functionTypes ex)" "?t \<in> set (classTypes ex)"
          | (m) "?t \<notin> set (functionTypes ex)" "?t \<notin> set (classTypes ex)" "?t \<in> set (methodTypes ex)"
          | (i) "?t \<notin> set (functionTypes ex)" "?t \<notin> set (classTypes ex)" "?t \<notin> set (methodTypes ex)"
                "?t \<in> set (interfaceTypes ex)"
          | (s) "?t \<notin> set (functionTypes ex)" "?t \<notin> set (classTypes ex)" "?t \<notin> set (methodTypes ex)"
                "?t \<notin> set (interfaceTypes ex)" "?t \<in> set (structTypes ex)"
          | (e) "?t \<notin> set (functionTypes ex)" "?t \<notin> set (classTypes ex)" "?t \<notin> set (methodTypes ex)"
                "?t \<notin> set (interfaceTypes ex)" "?t \<notin> set (structTypes ex)" "?t \<in> set (enumTypes ex)"
          | (im) "\<not> declarationType ex ?t" "?t \<in> set (importTypes ex)"
          | (ca) "\<not> declarationType ex ?t" "?t \<notin> set (importTypes ex)" "?t \<in> set (callTypes ex)"
          | (o) "\<not> declarationType ex ?t" "?t \<notin> set (importTypes ex)" "?t \<notin> set (callTypes ex)"
          unfolding declarationType_def by blast
        then have "R st (visitNode ctx node st)"
        proof cases
          case f
          then show ?thesis using Some func meth by (simp add: visitNode_function)
        next
          case c
          have "R st (extractStruct ctx node st)"
            if "language ctx = ''swift'' \<and> hasChildOfType node ''struct''"
            using "1.IH"(1)[OF ex refl] c that True by auto
          moreover have "R st (extractClass ctx node st)"
            if "\<not> (language ctx = ''swift'' \<and> hasChildOfType node ''struct'')"
               "\<not> (language ctx = ''swift'' \<and> hasChildOfType node ''enum'')"
            using "1.IH"(2)[OF ex refl] c that True by auto
          ultimately show ?thesis using Some c enum by (auto simp: visitNode_class)
        next
          case m
          then show ?thesis using Some meth by (simp add: visitNode_method)
        next
          case i
          then show ?thesis using Some intf by (simp add: visitNode_interface)
        next
          case s
          have "R st (extractStruct ctx node st)"
            using "1.IH"(3)[OF ex refl] s True by auto
          then show ?thesis using Some s by (simp add: visitNode_struct)
        next
          case e
          then show ?thesis using Some enum by (simp add: visitNode_enum)
        next
          case im
          have "R (extractImport ctx node st) (fold (visitNode ctx) (namedChildren node) (extractImport ctx node st))"
            using "1.IH"(4)[OF ex refl] im unfolding declarationType_def by (intro kids) blast
          then show ?thesis using Some im imp[of st node] trans by (auto simp: visitNode_import)
        next
          case ca
          have "R (extractCall ctx node st) (fold (visitNode ctx) (namedChildren node) (extractCall ctx node st))"
            using "1.IH"(5)[OF ex refl] ca unfolding declarationType_def by (intro kids) blast
          then show ?thesis using Some ca call[of st node] trans by (auto simp: visitNode_call)
        next
          case o
          have "R st (fold (visitNode ctx) (namedChildren node) st)"
            using "1.IH"(6)[OF ex refl] o unfolding declarationType_def by (intro kids) blast
          then show ?thesis using Some o by (simp add: visitNode_other)
        qed
        then show ?thesis using True by simp
      qed
    qed
  next
    case (2 ctx' node st)
    show ?case
    proof (cases "ctx' = ctx")
      case False
      then show ?thesis by simp
    next
      case True
      show ?thesis
      proof (cases "extractor ctx")
        case None
        then show ?thesis using True rfl by (simp add: extractClass.simps)
      next
        case (Some ex)
        note ex = Some[folded True]
        obtain c s1 where c: "createNode ctx K_class (extractName node (source ctx) ex) node st = (c, s1)"
          by (cases "createNode ctx K_class (extractName node (source ctx) ex) node st")
        let ?s3 = "pushStack (n_id c) (extractInheritance ctx node (n_id c) s1)"
        have "R ?s3 (fold (visitNode ctx) (namedChildren (bodyOrSelf ex node)) ?s3)"
          using "2.IH"[OF ex refl refl c[folded True, symmetric] refl refl] True
          by (intro fold_rel[where R = R] rfl) (auto intro: trans)
        then have "R st (popStack (fold (visitNode ctx) (namedChildren (bodyOrSelf ex node)) ?s3))"
          by (rule cls[OF Some c])
        then show ?thesis using True by (simp add: extractClass_Some[OF Some c])
      qed
    qed
  next
    case (3 ctx' node st)
    show ?case
    proof (cases "ctx' = ctx")
      case False
      then show ?thesis by simp
    next
      case True
      show ?thesis
      proof (cases "extractor ctx")
        case None
        then show ?thesis using True rfl by (simp add: extractStruct.simps)
      next
        case (Some ex)
        note ex = Some[folded True]
        obtain c s1 where c: "createNode ctx K_struct (extractName node (source ctx) ex) node st = (c, s1)"
          by (cases "createNode ctx K_struct (extractName node (source ctx) ex) node st")
        let ?s2 = "pushStack (n_id c) s1"
        have "R ?s2 (fold (visitNode ctx) (namedChildren (bodyOrSelf ex node)) ?s2)"
          using "3.IH"[OF ex refl refl c[folded True, symmetric] refl] True
          by (intro fold_rel[where R = R] rfl) (auto intro: trans)
        then have "R st (popStack (fold (visitNode ctx) (namedChildren (bodyOrSelf ex node)) ?s2))"
          by (rule str[OF Some c])
        then show ?thesis using True by (simp add: extractStruct_Some[OF Some c])
      qed
    qed
  qed

lemma visit_rel:
  fixes R :: "ExtractorState \<Rightarrow> ExtractorState \<Rightarrow> bool"
  assumes "\<And>s. R s s" and "\<And>a b c. R a b \<Longrightarrow> R b c \<Longrightarrow> R a c"
    and "\<And>node s. R s (extractFunction ctx node s)"
    and "\<And>node s. R s (extractMethod ctx node s)"
    and "\<And>node s. R s (extractInterface ctx node s)"
    and "\<And>node s. R s (extractEnum ctx node s)"
    and "\<And>node s. R s (extractImport ctx node s)"
    and "\<And>node s. R s (extractCall ctx node s)"
    and "\<And>ex node s c s1 s4. extractor ctx = Some ex \<Longrightarrow>
               createNode ctx K_class (extractName node (source ctx) ex) node s = (c, s1) \<Longrightarrow>
               R (pushStack (n_id c) (extractInheritance ctx node (n_id c) s1)) s4 \<Longrightarrow>
               R s (popStack s4)"
    and "\<And>ex node s c s1 s3. extractor ctx = Some ex \<Longrightarrow>
               createNode ctx K_struct (extractName node (source ctx) ex) node s = (c, s1) \<Longrightarrow>
               R (pushStack (n_id c) s1) s3 \<Longrightarrow> R s (popStack s3)"
  shows "R st (visitNode ctx node st)"
  using visit_rel_aux(1)[of R ctx st ctx node, OF assms] by simp

subsection \<open>Node identifiers\<close>

lemma ids_ok_extractImport: "ids_ok ctx (extractImport ctx node st) = ids_ok ctx st"
  by (rule ids_ok_nodes_cong) simp

lemma ids_ok_extractCall: "ids_ok ctx (extractCall ctx node st) = ids_ok ctx st"
  by (rule ids_ok_nodes_cong) simp

lemma ids_ok_visitNode: "ids_ok ctx st \<Longrightarrow> ids_ok ctx (visitNode ctx node st)"
proof -
  have "ids_ok ctx st \<longrightarrow> ids_ok ctx (visitNode ctx node st)"
  proof (rule visit_rel[where R = "\<lambda>a b. ids_ok ctx a \<longrightarrow> ids_ok ctx b"], goal_cases)
    case (1 s)
    show ?case by simp
  next
    case (2 a b c)
    then show ?case by simp
  next
    case (3 node s)
    show ?case by (simp add: ids_ok_extractFunction)
  next
    case (4 node s)
    show ?case by (simp add: ids_ok_extractMethod)
  next
    case (5 node s)
    show ?case by (simp add: ids_ok_extractInterface)
  next
    case (6 node s)
    show ?case by (simp add: ids_ok_extractEnum)
  next
    case (7 node s)
    show ?case by (simp add: ids_ok_extractImport)
  next
    case (8 node s)
    show ?case by (simp add: ids_ok_extractCall)
  next
    case (9 ex node s c s1 s4)
    have "ids_ok ctx s1" if "ids_ok ctx s"
      using ids_ok_createNode[OF that, of K_class] 9(2) by (metis snd_conv)
    moreover have "ids_ok ctx (pushStack (n_id c) (extractInheritance ctx node (n_id c) s1)) = ids_ok ctx s1"
      by (rule ids_ok_nodes_cong) simp
    moreover have "ids_ok ctx (popStack s4) = ids_ok ctx s4"
      by (rule ids_ok_nodes_cong) simp
    ultimately show ?case using 9(3) by simp
  next
    case (10 ex node s c s1 s3)
    have "ids_ok ctx s1" if "ids_ok ctx s"
      using ids_ok_createNode[OF that, of K_struct] 10(2) by (metis snd_conv)
    moreover have "ids_ok ctx (pushStack (n_id c) s1) = ids_ok ctx s1"
      by (rule ids_ok_nodes_cong) simp
    moreover have "ids_ok ctx (popStack s3) = ids_ok ctx s3"
      by (rule ids_ok_nodes_cong) simp
    ultimately show ?case using 10(3) by simp
  qed
  then show "ids_ok ctx st \<Longrightarrow> ids_ok ctx (visitNode ctx node st)" by simp
qed

lemma ids_ok_initial: "ids_ok ctx initialState"
  by (simp add: ids_ok_def initialState_def)

lemma ids_ok_extract:
  "n \<in> set (res_nodes (TreeSitterExtractor_extract tryRequire ctx)) \<Longrightarrow>
   node_id_ok (sha256hex ctx) n \<and> n_filePath n = filePath ctx"
proof -
  assume n: "n \<in> set (res_nodes (TreeSitterExtractor_extract tryRequire ctx))"
  have "ids_ok ctx (visitNode ctx root initialState)" for root
    by (rule ids_ok_visitNode[OF ids_ok_initial])
  then show ?thesis
    using n
    by (auto simp: TreeSitterExtractor_extract_def errorResult_def resultOf_def ids_ok_def
                   initialState_def
             split: if_splits option.splits sum.splits js_error.splits)
qed

lemma node_ids:
  "\<forall>n \<in> set (res_nodes (extractFromSource tryRequire H path src lang)).
     n_id n = generateNodeId H path (n_kind n) (n_name n) (n_startLine n)
     \<and> n_id n = kindString (n_kind n) @ '':'' @
                  take 16 (H (path @ '':'' @ kindString (n_kind n) @ '':'' @ n_name n @ '':''
                              @ natToString (n_startLine n)))
     \<and> n_filePath n = path"
proof
  fix n
  assume "n \<in> set (res_nodes (extractFromSource tryRequire H path src lang))"
  then have "node_id_ok H n \<and> n_filePath n = path"
    using ids_ok_extract[of n tryRequire "newExtractor H path src lang"]
    by (simp add: extractFromSource_def newExtractor_def Let_def)
  then show "n_id n = generateNodeId H path (n_kind n) (n_name n) (n_startLine n)
     \<and> n_id n = kindString (n_kind n) @ '':'' @
                  take 16 (H (path @ '':'' @ kindString (n_kind n) @ '':'' @ n_name n @ '':''
                              @ natToString (n_startLine n)))
     \<and> n_filePath n = path"
    by (simp add: node_id_ok_def generateNodeId_def Let_def)
qed

subsection \<open>Examples\<close>

lemma natToString_1: "natToString (Suc 0) = ''1''" "natToString 1 = ''1''"
  by code_simp+

lemma tsCtx_simps [simp]:
  "extractor tsCtx = Some typescriptExtractor" "language tsCtx = ''typescript''"
  "source tsCtx = staticBlockSource" "filePath tsCtx = ''a.ts''" "sha256hex tsCtx = sampleDigest"
  by (simp_all add: tsCtx_def newExtractor_def EXTRACTORS_def)

lemma staticBlock_extraction: "extractFromSource (tsLoader staticBlockTree) sampleDigest ''a.ts'' staticBlockSource (Some ''typescript'')
  = \<lparr>res_nodes =
    [\<lparr>n_id = ''class:1:A:ssalc:st.a00'', n_kind = K_class, n_name = ''A'',
        n_qualifiedName = ''a.ts::A'', n_filePath = ''a.ts'',
        n_language = ''typescript'', n_startLine = 1, n_endLine = 1,
        n_startColumn = 0, n_endColumn = 38\<rparr>,
     \<lparr>n_id = ''function:1:f:noitcnuf:st.'', n_kind = K_function,
        n_name = ''f'', n_qualifiedName = ''a.ts::A::f'',
        n_filePath = ''a.ts'', n_language = ''typescript'', n_startLine = 1,
        n_endLine = 1, n_startColumn = 19, n_endColumn = 34\<rparr>],
    res_edges =
      [\<lparr>e_source = ''class:1:A:ssalc:st.a00'',
          e_target = ''function:1:f:noitcnuf:st.'', e_kind = E_contains\<rparr>],
    res_unresolvedReferences = [], res_errors = []\<rparr>"
  by code_simp

subsection \<open>Kinds of function-typed nodes\<close>

lemma function_typed_kinds:
  assumes ex: "extractor ctx = Some ex"
  shows "(ntype node \<in> set (functionTypes ex) \<longrightarrow>
           map n_kind (newNodes st (visitNode ctx node st)) =
             (if nodeStack st \<noteq> [] \<and> ntype node \<in> set (methodTypes ex) then [K_method]
              else if extractName node (source ctx) ex = ''<anonymous>'' then []
              else [K_function]))
       \<and> (ntype node \<notin> set (functionTypes ex) \<and> ntype node \<notin> set (classTypes ex)
            \<and> ntype node \<in> set (methodTypes ex) \<longrightarrow>
           map n_kind (newNodes st (visitNode ctx node st)) =
             (if nodeStack st \<noteq> [] \<or> language ctx = ''go'' then [K_method]
              else if extractName node (source ctx) ex = ''<anonymous>'' then []
              else [K_function]))"
  using ex
  by (auto simp: visitNode_function visitNode_method newNodes_def nodes_extractMethod
                 nodes_extractFunction)

subsection \<open>Imports\<close>

lemma import_local:
  assumes ex: "extractor ctx = Some ex"
    and ty: "\<not> declarationType ex (ntype node)" "ntype node \<in> set (importTypes ex)"
  shows "visitNode ctx node st = fold (visitNode ctx) (namedChildren node) (extractImport ctx node st)
       \<and> nodes (extractImport ctx node st) = nodes st
       \<and> edges (extractImport ctx node st) = edges st
       \<and> nodeStack (extractImport ctx node st) = nodeStack st
       \<and> unresolvedReferences (extractImport ctx node st) =
           unresolvedReferences st @
             (if importModuleName ctx node \<noteq> [] \<and> nodeStack st \<noteq> [] \<and> last (nodeStack st) \<noteq> []
              then [\<lparr> fromNodeId = last (nodeStack st), referenceName = importModuleName ctx node,
                      referenceKind = E_imports,
                      r_line = startPosRow node + 1, r_column = startPosColumn node,
                      r_filePath = None, r_language = None \<rparr>]
              else [])
       \<and> (nodeStack st = [] \<longrightarrow> extractImport ctx node st = st)"
proof -
  have "visitNode ctx node st = fold (visitNode ctx) (namedChildren node) (extractImport ctx node st)"
    by (rule visitNode_import[OF ex ty])
  moreover have "nodes (extractImport ctx node st) = nodes st
       \<and> edges (extractImport ctx node st) = edges st
       \<and> nodeStack (extractImport ctx node st) = nodeStack st
       \<and> unresolvedReferences (extractImport ctx node st) =
           unresolvedReferences st @
             (if importModuleName ctx node \<noteq> [] \<and> nodeStack st \<noteq> [] \<and> last (nodeStack st) \<noteq> []
              then [\<lparr> fromNodeId = last (nodeStack st), referenceName = importModuleName ctx node,
                      referenceKind = E_imports,
                      r_line = startPosRow node + 1, r_column = startPosColumn node,
                      r_filePath = None, r_language = None \<rparr>]
              else [])
       \<and> (nodeStack st = [] \<longrightarrow> extractImport ctx node st = st)"
    by (simp add: extractImport_def Let_def)
  ultimately show ?thesis by blast
qed

subsection \<open>Liquid\<close>

lemma detect_liquid: "detectLanguage ''sections/header.liquid'' = ''liquid''"
  by code_simp

lemma grammar_liquid: "map_of grammarEntries ''liquid'' = None"
  by code_simp

lemma liquid_result:
  "detectLanguage ''sections/header.liquid'' = ''liquid''
   \<and> isLanguageSupported tryRequire ''liquid''
   \<and> getParser tryRequire ''liquid'' = None
   \<and> extractFromSource tryRequire H path src (Some ''liquid'') =
       \<lparr> res_nodes = [], res_edges = [], res_unresolvedReferences = [],
         res_errors = [\<lparr> message = ''Failed to get parser for language: liquid'',
                         severity = SevError \<rparr>] \<rparr>"
  by (simp add: detect_liquid grammar_liquid
        isLanguageSupported_def getParser_def GRAMMAR_MAP_def
        extractFromSource_def newExtractor_def TreeSitterExtractor_extract_def errorResult_def
        Let_def)

subsection \<open>Containers: what the stack holds while \<open>visitNode\<close> runs\<close>

lemma calls_only_refl: "calls_only a a"
  by (simp add: calls_only_def)

lemma calls_only_trans: "calls_only a b \<Longrightarrow> calls_only b c \<Longrightarrow> calls_only a c"
  by (auto simp: calls_only_def)

lemma calls_only_extractCall: "calls_only st (extractCall ctx node st)"
  by (simp add: calls_only_def extractCall_def Let_def)

lemma calls_only_visitForCalls: "calls_only st (visitForCalls ctx ex node st)"
proof (induction ctx ex node st rule: visitForCalls.induct)
  case (1 ctx ex node st)
  let ?s = "if ntype node \<in> set (callTypes ex) then extractCall ctx node st else st"
  have a: "calls_only st ?s" by (simp add: calls_only_refl calls_only_extractCall)
  have "calls_only ?s (fold (visitForCalls ctx ex) (namedChildren node) ?s)"
    by (rule fold_rel[where R = calls_only]) (auto intro: calls_only_refl calls_only_trans "1.IH")
  with a show ?case
    by (subst visitForCalls.simps) (rule calls_only_trans)
qed

lemma calls_only_visitFunctionBody: "calls_only st (visitFunctionBody ctx body i st)"
  by (simp add: visitFunctionBody_def calls_only_refl calls_only_visitForCalls split: option.splits)

lemma containerId_mono: "containerId a i \<Longrightarrow> nodes b = nodes a @ ns \<Longrightarrow> containerId b i"
  by (auto simp: containerId_def)

lemma scoped_refl: "scoped a a"
  by (simp add: scoped_def)

lemma scoped_stack_scoped:
  "scoped a b \<Longrightarrow> stack_scoped a \<Longrightarrow> stack_scoped b"
  by (auto simp: scoped_def stack_scoped_def intro: containerId_mono)

lemma scoped_trans:
  assumes ab: "scoped a b" and bc: "scoped b c"
  shows "scoped a c"
proof -
  from ab obtain ns1 es1 rs1 where
    s1: "nodeStack b = nodeStack a" and n1: "nodes b = nodes a @ ns1"
    and e1: "edges b = edges a @ es1"
      "stack_scoped a \<longrightarrow> (\<forall>e \<in> set es1. containerId b (e_source e))"
    and r1: "unresolvedReferences b = unresolvedReferences a @ rs1"
      "stack_scoped a \<longrightarrow> (\<forall>r \<in> set rs1. referenceKind r = E_imports \<longrightarrow> containerId b (fromNodeId r))"
    unfolding scoped_def by blast
  from bc obtain ns2 es2 rs2 where
    s2: "nodeStack c = nodeStack b" and n2: "nodes c = nodes b @ ns2"
    and e2: "edges c = edges b @ es2"
      "stack_scoped b \<longrightarrow> (\<forall>e \<in> set es2. containerId c (e_source e))"
    and r2: "unresolvedReferences c = unresolvedReferences b @ rs2"
      "stack_scoped b \<longrightarrow> (\<forall>r \<in> set rs2. referenceKind r = E_imports \<longrightarrow> containerId c (fromNodeId r))"
    unfolding scoped_def by blast
  have sb: "stack_scoped a \<Longrightarrow> stack_scoped b" using ab by (rule scoped_stack_scoped)
  have up: "containerId b i \<Longrightarrow> containerId c i" for i using n2 by (auto intro: containerId_mono)
  have "nodeStack c = nodeStack a" using s1 s2 by simp
  moreover have "nodes c = nodes a @ (ns1 @ ns2)" using n1 n2 by simp
  moreover have "edges c = edges a @ (es1 @ es2)" using e1 e2 by simp
  moreover have "stack_scoped a \<longrightarrow> (\<forall>e \<in> set (es1 @ es2). containerId c (e_source e))"
    using e1(2) e2(2) sb up by auto
  moreover have "unresolvedReferences c = unresolvedReferences a @ (rs1 @ rs2)" using r1 r2 by simp
  moreover have "stack_scoped a \<longrightarrow>
      (\<forall>r \<in> set (rs1 @ rs2). referenceKind r = E_imports \<longrightarrow> containerId c (fromNodeId r))"
    using r1(2) r2(2) sb up by auto
  ultimately show ?thesis unfolding scoped_def by blast
qed

lemma createNode_parts:
  assumes "createNode ctx kind name node st = (n, st1)"
  shows "n_kind n = kind" "nodes st1 = nodes st @ [n]" "nodeStack st1 = nodeStack st"
    "unresolvedReferences st1 = unresolvedReferences st"
    "edges st1 = edges st @
       (if nodeStack st \<noteq> [] \<and> last (nodeStack st) \<noteq> []
        then [\<lparr> e_source = last (nodeStack st), e_target = n_id n, e_kind = E_contains \<rparr>] else [])"
  using assms by (auto simp: createNode_def Let_def)

lemma scoped_createNode:
  assumes c: "createNode ctx kind name node st = (n, st1)"
  shows "scoped st st1"
proof -
  note p = createNode_parts[OF c]
  have "stack_scoped st \<longrightarrow>
     (\<forall>e \<in> set (if nodeStack st \<noteq> [] \<and> last (nodeStack st) \<noteq> []
        then [\<lparr> e_source = last (nodeStack st), e_target = n_id n, e_kind = E_contains \<rparr>] else []).
        containerId st1 (e_source e))"
    using p(2) by (auto simp: stack_scoped_def intro: containerId_mono)
  then show ?thesis
    unfolding scoped_def using p by auto
qed

lemma scoped_calls_only: "calls_only a b \<Longrightarrow> scoped a b"
  by (auto simp: scoped_def calls_only_def)

text \<open>Pushing any id, adding calls, and popping again leaves a scoped step.\<close>

lemma scoped_bracket_calls:
  assumes "calls_only (pushStack i st1) st3"
  shows "scoped st1 (popStack st3)"
  using assms by (auto simp: scoped_def calls_only_def pushStack_def popStack_def containerId_def)

lemma scoped_extractFunction: "scoped st (extractFunction ctx node st)"
proof (cases "extractor ctx")
  case None
  then show ?thesis by (simp add: extractFunction_def scoped_refl)
next
  case (Some ex)
  show ?thesis
  proof (cases "extractName node (source ctx) ex = ''<anonymous>''")
    case True
    then show ?thesis using Some by (simp add: extractFunction_def scoped_refl)
  next
    case False
    obtain n st1 where c: "createNode ctx K_function (extractName node (source ctx) ex) node st = (n, st1)"
      by (cases "createNode ctx K_function (extractName node (source ctx) ex) node st")
    let ?st3 = "case getChildByField node (bodyField ex) of
                  Some body \<Rightarrow> visitFunctionBody ctx body (n_id n) (pushStack (n_id n) st1)
                | None \<Rightarrow> pushStack (n_id n) st1"
    have "calls_only (pushStack (n_id n) st1) ?st3"
      by (simp add: calls_only_refl calls_only_visitFunctionBody split: option.splits)
    then have "scoped st1 (popStack ?st3)" by (rule scoped_bracket_calls)
    with scoped_createNode[OF c] have "scoped st (popStack ?st3)" by (rule scoped_trans)
    then show ?thesis using Some False c by (simp add: extractFunction_def Let_def)
  qed
qed

lemma scoped_extractMethod: "scoped st (extractMethod ctx node st)"
proof (cases "extractor ctx")
  case None
  then show ?thesis by (simp add: extractMethod_def scoped_refl)
next
  case (Some ex)
  show ?thesis
  proof (cases "nodeStack st = [] \<and> language ctx \<noteq> ''go''")
    case True
    then show ?thesis using Some by (simp add: extractMethod_def scoped_extractFunction)
  next
    case False
    obtain n st1 where c: "createNode ctx K_method (extractName node (source ctx) ex) node st = (n, st1)"
      by (cases "createNode ctx K_method (extractName node (source ctx) ex) node st")
    let ?st3 = "case getChildByField node (bodyField ex) of
                  Some body \<Rightarrow> visitFunctionBody ctx body (n_id n) (pushStack (n_id n) st1)
                | None \<Rightarrow> pushStack (n_id n) st1"
    have "calls_only (pushStack (n_id n) st1) ?st3"
      by (simp add: calls_only_refl calls_only_visitFunctionBody split: option.splits)
    then have "scoped st1 (popStack ?st3)" by (rule scoped_bracket_calls)
    with scoped_createNode[OF c] have "scoped st (popStack ?st3)" by (rule scoped_trans)
    then show ?thesis using Some False c by (auto simp: extractMethod_def Let_def)
  qed
qed

lemma scoped_extractInterface: "scoped st (extractInterface ctx node st)"
  by (cases "extractor ctx")
     (auto simp: extractInterface_def Let_def scoped_refl intro: scoped_createNode[OF surjective_pairing])

lemma scoped_extractEnum: "scoped st (extractEnum ctx node st)"
  by (cases "extractor ctx")
     (auto simp: extractEnum_def Let_def scoped_refl intro: scoped_createNode[OF surjective_pairing])

lemma scoped_extractCall: "scoped st (extractCall ctx node st)"
  by (rule scoped_calls_only[OF calls_only_extractCall])

lemma scoped_extractImport: "scoped st (extractImport ctx node st)"
  by (auto simp: scoped_def extractImport_def Let_def stack_scoped_def containerId_def)

lemma heritage_only_inheritanceOfChild: "heritage_only st (inheritanceOfChild ctx i child st)"
  by (auto simp: heritage_only_def inheritanceOfChild_def Let_def split: option.splits)

lemma heritage_only_extractInheritance: "heritage_only st (extractInheritance ctx node i st)"
  unfolding extractInheritance_def
proof (rule fold_rel[where R = heritage_only])
  show "heritage_only s s" for s by (simp add: heritage_only_def)
  show "heritage_only a b \<Longrightarrow> heritage_only b c \<Longrightarrow> heritage_only a c" for a b c
    by (auto simp: heritage_only_def)
  show "heritage_only s (inheritanceOfChild ctx i x s)" for x s
    by (rule heritage_only_inheritanceOfChild)
qed

lemma scoped_heritage_only: "heritage_only a b \<Longrightarrow> scoped a b"
  by (auto simp: scoped_def heritage_only_def)

text \<open>Pushing the id of a class or struct that is among the nodes keeps the stack scoped.\<close>

lemma scoped_bracket_container:
  assumes n: "n \<in> set (nodes st2)" "n_kind n = K_class \<or> n_kind n = K_struct"
    and r: "scoped (pushStack (n_id n) st2) st4"
  shows "scoped st2 (popStack st4)"
proof -
  let ?p = "pushStack (n_id n) st2"
  from r obtain ns es rs where
    s: "nodeStack st4 = nodeStack ?p" and nn: "nodes st4 = nodes ?p @ ns"
    and e: "edges st4 = edges ?p @ es"
      "stack_scoped ?p \<longrightarrow> (\<forall>e \<in> set es. containerId st4 (e_source e))"
    and rr: "unresolvedReferences st4 = unresolvedReferences ?p @ rs"
      "stack_scoped ?p \<longrightarrow> (\<forall>r \<in> set rs. referenceKind r = E_imports \<longrightarrow> containerId st4 (fromNodeId r))"
    unfolding scoped_def by blast
  have sc: "stack_scoped st2 \<Longrightarrow> stack_scoped ?p"
    using n by (auto simp: stack_scoped_def pushStack_def containerId_def)
  have c: "containerId (popStack st4) i = containerId st4 i" for i
    by (simp add: containerId_def popStack_def)
  have "nodeStack (popStack st4) = nodeStack st2" using s by (simp add: popStack_def pushStack_def)
  moreover have "nodes (popStack st4) = nodes st2 @ ns" using nn by (simp add: pushStack_def)
  moreover have "edges (popStack st4) = edges st2 @ es" using e(1) by (simp add: pushStack_def popStack_def)
  moreover have "stack_scoped st2 \<longrightarrow> (\<forall>e \<in> set es. containerId (popStack st4) (e_source e))"
    using e(2) sc c by simp
  moreover have "unresolvedReferences (popStack st4) = unresolvedReferences st2 @ rs"
    using rr(1) by (simp add: pushStack_def popStack_def)
  moreover have "stack_scoped st2 \<longrightarrow>
      (\<forall>r \<in> set rs. referenceKind r = E_imports \<longrightarrow> containerId (popStack st4) (fromNodeId r))"
    using rr(2) sc c by simp
  ultimately show ?thesis unfolding scoped_def by blast
qed

lemma scoped_visitNode: "scoped st (visitNode ctx node st)"
proof (rule visit_rel[where R = scoped], goal_cases)
  case (1 s)
  show ?case by (rule scoped_refl)
next
  case (2 a b c)
  then show ?case by (rule scoped_trans)
next
  case (3 node s)
  show ?case by (rule scoped_extractFunction)
next
  case (4 node s)
  show ?case by (rule scoped_extractMethod)
next
  case (5 node s)
  show ?case by (rule scoped_extractInterface)
next
  case (6 node s)
  show ?case by (rule scoped_extractEnum)
next
  case (7 node s)
  show ?case by (rule scoped_extractImport)
next
  case (8 node s)
  show ?case by (rule scoped_extractCall)
next
  case (9 ex node s c s1 s4)
  let ?s2 = "extractInheritance ctx node (n_id c) s1"
  note p = createNode_parts[OF 9(2)]
  have h: "heritage_only s1 ?s2" by (rule heritage_only_extractInheritance)
  have "c \<in> set (nodes ?s2)" using p(2) h by (simp add: heritage_only_def)
  then have "scoped ?s2 (popStack s4)"
    using p(1) 9(3) by (intro scoped_bracket_container[of c]) auto
  moreover have "scoped s ?s2"
    using scoped_createNode[OF 9(2)] scoped_heritage_only[OF h] by (rule scoped_trans)
  ultimately show ?case by (rule scoped_trans[rotated])
next
  case (10 ex node s c s1 s3)
  note p = createNode_parts[OF 10(2)]
  have "c \<in> set (nodes s1)" using p(2) by simp
  then have "scoped s1 (popStack s3)"
    using p(1) 10(3) by (intro scoped_bracket_container[of c]) auto
  with scoped_createNode[OF 10(2)] show ?case by (rule scoped_trans)
qed

lemma extract_scoped:
  "(\<forall>e \<in> set (res_edges (TreeSitterExtractor_extract tryRequire ctx)).
      \<exists>n \<in> set (res_nodes (TreeSitterExtractor_extract tryRequire ctx)).
        n_id n = e_source e \<and> (n_kind n = K_class \<or> n_kind n = K_struct))
   \<and> (\<forall>r \<in> set (res_unresolvedReferences (TreeSitterExtractor_extract tryRequire ctx)).
        referenceKind r = E_imports \<longrightarrow>
        (\<exists>n \<in> set (res_nodes (TreeSitterExtractor_extract tryRequire ctx)).
           n_id n = fromNodeId r \<and> (n_kind n = K_class \<or> n_kind n = K_struct)))"
proof -
  have init: "stack_scoped initialState" by (simp add: stack_scoped_def initialState_def)
  have v: "(\<forall>e \<in> set (edges (visitNode ctx root initialState)).
              containerId (visitNode ctx root initialState) (e_source e))
         \<and> (\<forall>r \<in> set (unresolvedReferences (visitNode ctx root initialState)).
              referenceKind r = E_imports \<longrightarrow>
              containerId (visitNode ctx root initialState) (fromNodeId r))" for root
    using scoped_visitNode[of initialState ctx root] init
    by (auto simp: scoped_def initialState_def)
  show ?thesis
    using v
    by (auto simp: TreeSitterExtractor_extract_def errorResult_def resultOf_def containerId_def
                   initialState_def
             split: option.splits sum.splits js_error.splits)
qed

subsection \<open>The store operations, one by one\<close>

lemma thenDo_Inr [simp]: "thenDo (Inr a, s) k = k a s"
  by (simp add: thenDo_def)

lemma thenDo_Inl [simp]: "thenDo (Inl e, s) k = (Inl e, s)"
  by (simp add: thenDo_def)

lemma find_filter_append_last:
  "find (\<lambda>f. g f = g r) (filter (\<lambda>f. g f \<noteq> g r) xs @ [r]) = Some r"
  by (induction xs) auto

lemma getFileByPath_upsertFile_same:
  "upsertFile dbFails r st = (Inr u, st1) \<Longrightarrow> getFileByPath st1 (f_path r) = Some r"
  by (auto simp: upsertFile_def getFileByPath_def find_filter_append_last split: if_splits)

lemma files_insertNodes: "insertNodes d ns st = (x, st1) \<Longrightarrow> s_files st1 = s_files st"
  by (auto simp: insertNodes_def split: if_splits)

lemma files_insertEdges: "insertEdges d es st = (x, st1) \<Longrightarrow> s_files st1 = s_files st"
  by (auto simp: insertEdges_def split: if_splits)

lemma files_insertRefs: "insertUnresolvedRefsBatch d rs st = (x, st1) \<Longrightarrow> s_files st1 = s_files st"
  by (auto simp: insertUnresolvedRefsBatch_def split: if_splits)

subsection \<open>Re-indexing an unchanged file\<close>

lemma store_unchanged:
  assumes "getFileByPath st p = Some r" "f_contentHash r = hashContent (h_sha256hex host) content"
  shows "storeExtractionResult host p content lang stats result st = (Inr (), st)"
  using assms by (simp add: storeExtractionResult_def Let_def)

lemma store_success_record:
  assumes "storeExtractionResult host p content lang stats result st = (Inr u, st1)"
  shows "\<exists>r. getFileByPath st1 p = Some r \<and> f_contentHash r = hashContent (h_sha256hex host) content"
proof (cases "case getFileByPath st p of Some f \<Rightarrow> f_contentHash f = hashContent (h_sha256hex host) content
              | None \<Rightarrow> False")
  case True
  then show ?thesis using assms
    by (auto simp: storeExtractionResult_def Let_def split: option.splits)
next
  case False
  let ?rec = "newFileRecord host p content lang stats result"
  from assms False obtain st4 where "upsertFile (h_dbFails host) ?rec st4 = (Inr u, st1)"
    by (auto simp: storeExtractionResult_def Let_def thenDo_def
             split: prod.splits sum.splits if_splits)
  then have "getFileByPath st1 (f_path ?rec) = Some ?rec"
    by (rule getFileByPath_upsertFile_same)
  then show ?thesis by (simp add: newFileRecord_def)
qed

lemma indexFileWithContent_unchanged:
  assumes "getFileByPath st p = Some r" "f_contentHash r = hashContent (h_sha256hex host) content"
  shows "\<exists>res. indexFileWithContent orch host p content stats st = (Inr res, st)"
  using store_unchanged[OF assms]
  by (auto simp: indexFileWithContent_def Let_def split: option.splits)

subsection \<open>A failing store operation\<close>

lemma store_steps:
  assumes "\<not> (case getFileByPath st p of
                Some f \<Rightarrow> f_contentHash f = hashContent (h_sha256hex host) content
              | None \<Rightarrow> False)"
  shows "storeExtractionResult host p content lang stats result st =
     (let ops = plannedOps (getFileByPath st p \<noteq> None) result;
          completed = takeWhile (\<lambda>op. \<not> h_dbFails host op) ops
      in ((case dropWhile (\<lambda>op. \<not> h_dbFails host op) ops of
             [] \<Rightarrow> Inr ()
           | op # _ \<Rightarrow> Inl (databaseError (opName op))),
          foldl (applyOp host p content lang stats result) st completed))"
  using assms
  by (auto simp: storeExtractionResult_def Let_def plannedOps_def applyOp_def opName_def
                 deleteFile_def insertNodes_def insertEdges_def insertUnresolvedRefsBatch_def
                 upsertFile_def
           split: option.splits)

subsection \<open>Claims about the extractor\<close>

text \<open>
  Claim C5. The id of a node is its kind, a colon, and the first 16 characters of the
  digest of \<open>filePath:kind:name:line\<close>; it depends on nothing else. Every node an
  extraction returns carries the id generated from the path of the file and its own kind,
  name and start line, so extracting the same content of the same file again returns the
  same ids.
\<close>

theorem node_ids_deterministic:
  "generateNodeId H path kind name line =
     kindString kind @ '':'' @
       take 16 (H (path @ '':'' @ kindString kind @ '':'' @ name @ '':'' @ natToString line))
   \<and> (\<forall>n \<in> set (res_nodes (extractFromSource tryRequire H path src lang)).
         n_id n = generateNodeId H path (n_kind n) (n_name n) (n_startLine n)
         \<and> n_filePath n = path)"
  using node_ids[of tryRequire H path src lang]
  by (simp add: generateNodeId_def Let_def)

text \<open>
  The two nodes of \<open>class A { static { function f() {} } }\<close> in \<open>a.ts\<close>, with a digest that
  shows its input: each id is the one generated from the node's kind, name and line.
\<close>

theorem node_ids_deterministic_witness:
  "map n_id (res_nodes (extractFromSource (tsLoader staticBlockTree) sampleDigest ''a.ts''
                          staticBlockSource (Some ''typescript'')))
     = [generateNodeId sampleDigest ''a.ts'' K_class ''A'' 1,
        generateNodeId sampleDigest ''a.ts'' K_function ''f'' 1]
   \<and> generateNodeId sampleDigest ''a.ts'' K_class ''A'' 1 = ''class:1:A:ssalc:st.a00''"
proof -
  let ?r = "extractFromSource (tsLoader staticBlockTree) sampleDigest ''a.ts''
              staticBlockSource (Some ''typescript'')"
  note t = node_ids_deterministic[of sampleDigest "''a.ts''" K_class "''A''" 1
             "tsLoader staticBlockTree" staticBlockSource "Some ''typescript''"]
  have a: "\<forall>n \<in> set (res_nodes ?r).
             n_id n = generateNodeId sampleDigest ''a.ts'' (n_kind n) (n_name n) (n_startLine n)"
    using t by simp
  have g: "generateNodeId sampleDigest ''a.ts'' K_class ''A'' 1 = ''class:1:A:ssalc:st.a00''"
    by code_simp
  show ?thesis
    using a g by (simp add: staticBlock_extraction)
qed

text \<open>
  Claim C4. A language is reported as supported while no parser is available for it
  exactly when it is \<open>liquid\<close>: a grammar that failed to load makes its language
  unsupported, and the indexer skips a file of an unsupported language with an empty result
  and no error. For \<open>liquid\<close> the extractor has no path but the tree parser: the extraction
  result is empty but for one entry of severity \<open>error\<close>, and the indexer returns that
  result and stores nothing for the file.
\<close>

theorem liquid_has_no_extraction:
  "(isLanguageSupported tryRequire lang \<and> getParser tryRequire lang = None) = (lang = ''liquid'')
   \<and> extractFromSource tryRequire H path src (Some ''liquid'') =
       \<lparr> res_nodes = [], res_edges = [], res_unresolvedReferences = [],
         res_errors = [\<lparr> message = ''Failed to get parser for language: liquid'',
                         severity = SevError \<rparr>] \<rparr>
   \<and> (validatePathWithinRoot (h_cwd host) (rootDir orch) p \<noteq> None
        \<and> st_size stats \<le> cfg_maxFileSize (config orch) \<and> detectLanguage p = ''liquid''
        \<longrightarrow> indexFileWithContent orch host p content stats st =
              (Inr \<lparr> res_nodes = [], res_edges = [], res_unresolvedReferences = [],
                     res_errors = [\<lparr> message = ''Failed to get parser for language: liquid'',
                                     severity = SevError \<rparr>] \<rparr>, st))
   \<and> (validatePathWithinRoot (h_cwd host) (rootDir orch) p \<noteq> None
        \<and> st_size stats \<le> cfg_maxFileSize (config orch)
        \<and> \<not> isLanguageSupported (h_tryRequire host) (detectLanguage p)
        \<longrightarrow> indexFileWithContent orch host p content stats st = (Inr (emptyResult []), st))"
proof -
  have a: "(isLanguageSupported tryRequire lang \<and> getParser tryRequire lang = None)
             = (lang = ''liquid'')"
    by (auto simp: isLanguageSupported_def getParser_def GRAMMAR_MAP_def grammar_liquid)
  have b: "extractFromSource t H' path' src' (Some ''liquid'') =
       \<lparr> res_nodes = [], res_edges = [], res_unresolvedReferences = [],
         res_errors = [\<lparr> message = ''Failed to get parser for language: liquid'',
                         severity = SevError \<rparr>] \<rparr>" for t H' path' src'
    using liquid_result[of t H' path' src'] by simp
  have c: "isLanguageSupported t ''liquid''" for t
    by (simp add: isLanguageSupported_def)
  show ?thesis
    using a b[of tryRequire H path src]
    by (auto simp: indexFileWithContent_def Let_def b c split: option.splits)
qed

text \<open>
  \<open>sections/header.liquid\<close> in the sample project is detected as \<open>liquid\<close>, reported as
  supported, and indexing it returns the error and leaves the store empty; with no grammar
  loaded, \<open>main.kt\<close> is skipped without an error.
\<close>

theorem liquid_has_no_extraction_witness:
  "detectLanguage ''sections/header.liquid'' = ''liquid''
   \<and> isLanguageSupported noGrammars ''liquid''
   \<and> indexFileWithContent sampleOrch (sampleHost noGrammars) ''sections/header.liquid''
        ''{{ product.title }}'' sampleStats emptyStore =
          (Inr \<lparr> res_nodes = [], res_edges = [], res_unresolvedReferences = [],
                 res_errors = [\<lparr> message = ''Failed to get parser for language: liquid'',
                                 severity = SevError \<rparr>] \<rparr>, emptyStore)
   \<and> indexFileWithContent sampleOrch (sampleHost noGrammars) ''main.kt''
        ''fun main() {}'' sampleStats emptyStore = (Inr (emptyResult []), emptyStore)"
proof -
  have v1: "validatePathWithinRoot ''/'' ''/proj'' ''sections/header.liquid'' \<noteq> None"
    by code_simp
  have v2: "validatePathWithinRoot ''/'' ''/proj'' ''main.kt'' \<noteq> None"
    by code_simp
  have k: "\<not> isLanguageSupported noGrammars (detectLanguage ''main.kt'')"
    by code_simp
  have s: "isLanguageSupported noGrammars ''liquid''"
    by (simp add: isLanguageSupported_def)
  note t1 = liquid_has_no_extraction[where host = "sampleHost noGrammars" and orch = sampleOrch
              and p = "''sections/header.liquid''" and stats = sampleStats
              and content = "''{{ product.title }}''" and st = emptyStore]
  note t2 = liquid_has_no_extraction[where host = "sampleHost noGrammars" and orch = sampleOrch
              and p = "''main.kt''" and stats = sampleStats
              and content = "''fun main() {}''" and st = emptyStore]
  have c1: "indexFileWithContent sampleOrch (sampleHost noGrammars) ''sections/header.liquid''
        ''{{ product.title }}'' sampleStats emptyStore =
          (Inr \<lparr> res_nodes = [], res_edges = [], res_unresolvedReferences = [],
                 res_errors = [\<lparr> message = ''Failed to get parser for language: liquid'',
                                 severity = SevError \<rparr>] \<rparr>, emptyStore)"
    using t1 v1 detect_liquid by (simp add: sampleHost_def sampleOrch_def sampleStats_def)
  have c2: "indexFileWithContent sampleOrch (sampleHost noGrammars) ''main.kt''
        ''fun main() {}'' sampleStats emptyStore = (Inr (emptyResult []), emptyStore)"
    using t2 v2 k by (simp add: sampleHost_def sampleOrch_def sampleStats_def)
  show ?thesis using c1 c2 s detect_liquid by simp
qed

text \<open>
  Claim C7, as the code has it. The stack \<open>visitNode\<close> sees holds classes and structs only:
  interfaces and traits are never pushed, and the body of a function or method is searched
  for calls only, so no node is visited with a function on top of the stack. A node whose
  type is a function type of the language becomes a method exactly when the stack is not
  empty and the type is also one of the language's method types; otherwise it becomes a
  function, or nothing when it has no name. A node whose type is a method type only becomes
  a method when the stack is not empty or the language is Go, and is treated as a function
  otherwise. Every edge of an extraction result starts at a class or a struct of the
  result.
\<close>

theorem method_needs_method_type:
  assumes "extractor ctx = Some ex"
  shows "(ntype node \<in> set (functionTypes ex) \<longrightarrow>
           map n_kind (newNodes st (visitNode ctx node st)) =
             (if nodeStack st \<noteq> [] \<and> ntype node \<in> set (methodTypes ex) then [K_method]
              else if extractName node (source ctx) ex = ''<anonymous>'' then []
              else [K_function]))
       \<and> (ntype node \<notin> set (functionTypes ex) \<and> ntype node \<notin> set (classTypes ex)
            \<and> ntype node \<in> set (methodTypes ex) \<longrightarrow>
           map n_kind (newNodes st (visitNode ctx node st)) =
             (if nodeStack st \<noteq> [] \<or> language ctx = ''go'' then [K_method]
              else if extractName node (source ctx) ex = ''<anonymous>'' then []
              else [K_function]))
       \<and> nodeStack (visitNode ctx node st) = nodeStack st
       \<and> (\<forall>e \<in> set (res_edges (TreeSitterExtractor_extract tryRequire ctx)).
             \<exists>n \<in> set (res_nodes (TreeSitterExtractor_extract tryRequire ctx)).
               n_id n = e_source e \<and> (n_kind n = K_class \<or> n_kind n = K_struct))"
  using function_typed_kinds[OF assms, of node st] scoped_visitNode[of st ctx node]
        extract_scoped[of tryRequire ctx]
  by (simp add: scoped_def)

text \<open>
  The function declaration of \<open>class A { static { function f() {} } }\<close>, visited inside the
  class: a function.
\<close>

theorem method_needs_method_type_witness:
  "extractor tsCtx = Some typescriptExtractor
   \<and> ntype fnDecl \<in> set (functionTypes typescriptExtractor)
   \<and> ntype fnDecl \<notin> set (methodTypes typescriptExtractor)
   \<and> map n_kind (newNodes (insideContainer ''class:1:A:ssalc:st.a00'')
                    (visitNode tsCtx fnDecl (insideContainer ''class:1:A:ssalc:st.a00'')))
       = [K_function]"
proof -
  have e: "extractor tsCtx = Some typescriptExtractor" by simp
  have f: "ntype fnDecl \<in> set (functionTypes typescriptExtractor)"
          "ntype fnDecl \<notin> set (methodTypes typescriptExtractor)"
    by (simp_all add: fnDecl_def typescriptExtractor_def)
  have n: "extractName fnDecl (source tsCtx) typescriptExtractor \<noteq> ''<anonymous>''"
    by code_simp
  show ?thesis
    using method_needs_method_type[OF e, of fnDecl "insideContainer ''class:1:A:ssalc:st.a00''"]
          e f n
    by simp
qed

text \<open>
  Against the claim as it was stated: in \<open>class A { static { function f() {} } }\<close> the
  innermost container of \<open>f\<close> is the class \<open>A\<close> (the result has the \<open>contains\<close> edge from
  \<open>A\<close> to \<open>f\<close>), and \<open>f\<close> is a function, not a method.
\<close>

theorem function_inside_class:
  "ntype fnDecl \<in> set (functionTypes typescriptExtractor)
   \<and> map (\<lambda>n. (n_kind n, n_name n, n_id n))
        (res_nodes (extractFromSource (tsLoader staticBlockTree) sampleDigest ''a.ts''
                      staticBlockSource (Some ''typescript'')))
      = [(K_class, ''A'', ''class:1:A:ssalc:st.a00''),
         (K_function, ''f'', ''function:1:f:noitcnuf:st.'')]
   \<and> res_edges (extractFromSource (tsLoader staticBlockTree) sampleDigest ''a.ts''
                   staticBlockSource (Some ''typescript''))
      = [\<lparr> e_source = ''class:1:A:ssalc:st.a00'', e_target = ''function:1:f:noitcnuf:st.'',
            e_kind = E_contains \<rparr>]"
  by (simp add: staticBlock_extraction fnDecl_def typescriptExtractor_def)

text \<open>
  Claim C3, as the code has it. \<open>extractImport\<close> records a reference only when the module
  name is not empty and the stack is not empty: then it appends one \<open>imports\<close> reference
  from the innermost container, at the line and column of the import. With an empty stack
  it records nothing: the state is unchanged, and no node is created for the file. So
  every \<open>imports\<close> reference of an extraction result starts at a class or a struct of the
  result.
\<close>

theorem imports_need_container:
  assumes "extractor ctx = Some ex"
    and "\<not> declarationType ex (ntype node)" and "ntype node \<in> set (importTypes ex)"
  shows "visitNode ctx node st = fold (visitNode ctx) (namedChildren node) (extractImport ctx node st)
       \<and> nodes (extractImport ctx node st) = nodes st
       \<and> edges (extractImport ctx node st) = edges st
       \<and> nodeStack (extractImport ctx node st) = nodeStack st
       \<and> unresolvedReferences (extractImport ctx node st) =
           unresolvedReferences st @
             (if importModuleName ctx node \<noteq> [] \<and> nodeStack st \<noteq> [] \<and> last (nodeStack st) \<noteq> []
              then [\<lparr> fromNodeId = last (nodeStack st), referenceName = importModuleName ctx node,
                      referenceKind = E_imports,
                      r_line = startPosRow node + 1, r_column = startPosColumn node,
                      r_filePath = None, r_language = None \<rparr>]
              else [])
       \<and> (nodeStack st = [] \<longrightarrow> extractImport ctx node st = st)
       \<and> (\<forall>r \<in> set (res_unresolvedReferences (TreeSitterExtractor_extract tryRequire ctx)).
            referenceKind r = E_imports \<longrightarrow>
            (\<exists>n \<in> set (res_nodes (TreeSitterExtractor_extract tryRequire ctx)).
               n_id n = fromNodeId r \<and> (n_kind n = K_class \<or> n_kind n = K_struct)))"
  using import_local[OF assms, of st] extract_scoped[of tryRequire ctx]
  by simp

text \<open>
  The import in the body of the Python class \<open>A\<close>: one reference from the class to \<open>os\<close>,
  and the extraction of the file returns just that reference.
\<close>

theorem imports_need_container_witness:
  "extractor pyCtx = Some pythonExtractor
   \<and> \<not> declarationType pythonExtractor (ntype pyImport)
   \<and> ntype pyImport \<in> set (importTypes pythonExtractor)
   \<and> unresolvedReferences (extractImport pyCtx pyImport (insideContainer ''class:1:A:ssalc:yp.m00''))
       = [\<lparr> fromNodeId = ''class:1:A:ssalc:yp.m00'', referenceName = ''os'',
             referenceKind = E_imports, r_line = 2, r_column = 4,
             r_filePath = None, r_language = None \<rparr>]
   \<and> res_unresolvedReferences (extractFromSource pyLoader sampleDigest ''m.py'' pySource (Some ''python''))
       = [\<lparr> fromNodeId = ''class:1:A:ssalc:yp.m00'', referenceName = ''os'',
             referenceKind = E_imports, r_line = 2, r_column = 4,
             r_filePath = None, r_language = None \<rparr>]"
proof -
  have e: "extractor pyCtx = Some pythonExtractor"
    by (simp add: pyCtx_def newExtractor_def EXTRACTORS_def)
  have d: "\<not> declarationType pythonExtractor (ntype pyImport)"
    by (simp add: declarationType_def pythonExtractor_def pyImport_def)
  have i: "ntype pyImport \<in> set (importTypes pythonExtractor)"
    by (simp add: pythonExtractor_def pyImport_def)
  have m: "importModuleName pyCtx pyImport = ''os''"
    by code_simp
  have r: "res_unresolvedReferences (extractFromSource pyLoader sampleDigest ''m.py'' pySource (Some ''python''))
       = [\<lparr> fromNodeId = ''class:1:A:ssalc:yp.m00'', referenceName = ''os'',
             referenceKind = E_imports, r_line = 2, r_column = 4,
             r_filePath = None, r_language = None \<rparr>]"
    by code_simp
  have s: "startPosRow pyImport = 1" "startPosColumn pyImport = 4"
    by (simp_all add: pyImport_def)
  show ?thesis
    using imports_need_container[OF e d i, of "insideContainer ''class:1:A:ssalc:yp.m00''"]
          e d i r
    by (simp add: m s insideContainer_def initialState_def)
qed

text \<open>
  Against the claim as it was stated: \<open>import x from './a';\<close> at the top level of a
  TypeScript file is a node of an import type with the module name \<open>./a\<close>, and the
  extraction of the file returns no reference and no node.
\<close>

theorem top_level_import_dropped:
  "ntype importStatement \<in> set (importTypes typescriptExtractor)
   \<and> importModuleName importCtx importStatement = ''./a''
   \<and> extractFromSource (tsLoader importTree) sampleDigest ''a.ts'' importSource (Some ''typescript'')
       = \<lparr> res_nodes = [], res_edges = [], res_unresolvedReferences = [], res_errors = [] \<rparr>"
  by code_simp

lemma reindex_same_size:
  assumes a: "indexFileWithContent orch host p content stats st = (Inr res1, st1)"
    and sz: "st_size stats2 = st_size stats"
  shows "indexFileWithContent orch (host\<lparr>h_now := t, h_dbFails := d\<rparr>) p content stats2 st1 = (Inr res1, st1)"
proof -
  let ?host' = "host\<lparr>h_now := t, h_dbFails := d\<rparr>"
  let ?lang = "detectLanguage p"
  let ?result = "extractFromSource (h_tryRequire host) (h_sha256hex host) p content (Some ?lang)"
  let ?storable = "validatePathWithinRoot (h_cwd host) (rootDir orch) p \<noteq> None
      \<and> \<not> st_size stats > cfg_maxFileSize (config orch)
      \<and> isLanguageSupported (h_tryRequire host) ?lang
      \<and> (res_nodes ?result \<noteq> [] \<or> res_errors ?result = [])"
  show ?thesis
  proof (cases ?storable)
    case False
    then have "st1 = st" using a
      by (auto simp: indexFileWithContent_def Let_def split: option.splits if_splits)
    then show ?thesis using a False sz
      by (auto simp: indexFileWithContent_def Let_def split: option.splits if_splits)
  next
    case True
    then have eq: "indexFileWithContent orch h p content s' s =
        thenDo (storeExtractionResult h p content ?lang s' ?result s) (\<lambda>_ s1. (Inr ?result, s1))"
      if "h_cwd h = h_cwd host" "h_tryRequire h = h_tryRequire host" "h_sha256hex h = h_sha256hex host"
         "st_size s' = st_size stats"
      for h s s'
      using that by (auto simp: indexFileWithContent_def Let_def split: option.splits)
    have "thenDo (storeExtractionResult host p content ?lang stats ?result st)
            (\<lambda>_ s1. (Inr ?result, s1)) = (Inr res1, st1)"
      using a eq[of host stats st] by simp
    then obtain u where u: "storeExtractionResult host p content ?lang stats ?result st = (Inr u, st1)"
      and res: "res1 = ?result"
      by (auto simp: thenDo_def split: prod.splits sum.splits)
    from store_success_record[OF u] obtain r where
      r: "getFileByPath st1 p = Some r" "f_contentHash r = hashContent (h_sha256hex ?host') content"
      by auto
    have "storeExtractionResult ?host' p content ?lang stats2 ?result st1 = (Inr (), st1)"
      by (rule store_unchanged[OF r])
    then show ?thesis using eq[of ?host' stats2 st1] res sz by simp
  qed
qed

lemma sample_extraction:
  "extractFromSource (tsLoader staticBlockTree) sampleDigest ''a.ts'' staticBlockSource
     (Some ''typescript'') = sampleResult"
  by (simp add: staticBlock_extraction sampleResult_def classA_def functionF_def edgeAF_def)

lemma sample_valid: "validatePathWithinRoot ''/'' ''/proj'' ''a.ts'' = Some ''/proj/a.ts''"
  by code_simp

lemma sample_language: "detectLanguage ''a.ts'' = ''typescript''"
  by code_simp

lemma sample_supported: "isLanguageSupported (tsLoader staticBlockTree) ''typescript''"
  by code_simp

lemma sample_first_index:
  "indexFileWithContent sampleOrch (sampleHost (tsLoader staticBlockTree)) ''a.ts''
     staticBlockSource sampleStats emptyStore = (Inr sampleResult, indexedStore)"
  by (simp add: indexFileWithContent_def sampleOrch_def sampleHost_def sample_valid
        sample_language sample_supported sample_extraction sampleStats_def Let_def
        storeExtractionResult_def getFileByPath_def emptyStore_def hashContent_def
        insertNodes_def insertEdges_def upsertFile_def newFileRecord_def
        sampleResult_def indexedStore_def sampleRecord_def)

subsection \<open>Claims about the store\<close>

text \<open>
  Claim C6. When the store holds a record of the file with the hash of the content,
  \<open>storeExtractionResult\<close> returns at once and the store is what it was: nothing is
  deleted and nothing inserted. So once indexing a file has returned, indexing it again
  with the same content (at any later time, whatever the modification time, and even if
  every store operation would fail) returns the same extraction result and leaves the
  whole store as it is.
\<close>

theorem reindex_unchanged_noop:
  "(getFileByPath st p = Some r \<and> f_contentHash r = hashContent (h_sha256hex host) content
      \<longrightarrow> storeExtractionResult host p content lang stats result st = (Inr (), st))
   \<and> (indexFileWithContent orch host p content stats st = (Inr res1, st1)
        \<and> st_size stats2 = st_size stats
      \<longrightarrow> indexFileWithContent orch (host\<lparr>h_now := t, h_dbFails := d\<rparr>) p content stats2 st1
            = (Inr res1, st1))"
  using store_unchanged[of st p r host content lang stats result]
        reindex_same_size[where orch = orch and host = host and p = p and content = content
          and stats = stats and st = st and ?res1.0 = res1 and ?st1.0 = st1
          and ?stats2.0 = stats2 and t = t and d = d]
  by blast

text \<open>
  \<open>a.ts\<close> is indexed into the empty store, and indexed again later, with a newer
  modification time, on a store whose every operation fails: the second run returns the
  same result and the store is the one the first run left.
\<close>

theorem reindex_unchanged_noop_witness:
  "indexFileWithContent sampleOrch (sampleHost (tsLoader staticBlockTree)) ''a.ts''
     staticBlockSource sampleStats emptyStore = (Inr sampleResult, indexedStore)
   \<and> getFileByPath indexedStore ''a.ts'' = Some sampleRecord
   \<and> indexFileWithContent sampleOrch
        ((sampleHost (tsLoader staticBlockTree))\<lparr> h_now := 2000, h_dbFails := (\<lambda>_. True) \<rparr>)
        ''a.ts'' staticBlockSource (sampleStats\<lparr> st_mtimeMs := 900 \<rparr>) indexedStore
       = (Inr sampleResult, indexedStore)"
proof -
  have g: "getFileByPath indexedStore ''a.ts'' = Some sampleRecord"
    by (simp add: getFileByPath_def indexedStore_def sampleRecord_def)
  show ?thesis
    using reindex_unchanged_noop[where orch = sampleOrch
            and host = "sampleHost (tsLoader staticBlockTree)" and p = "''a.ts''"
            and content = staticBlockSource and stats = sampleStats and st = emptyStore
            and ?res1.0 = sampleResult and ?st1.0 = indexedStore
            and ?stats2.0 = "sampleStats\<lparr> st_mtimeMs := 900 \<rparr>" and t = 2000
            and d = "\<lambda>_. True"]
          sample_first_index g
    by simp
qed

text \<open>
  Claim C1, as the code has it. \<open>storeExtractionResult\<close> issues its store operations one
  after the other, outside any transaction. Past the early return it issues, in this
  order, \<open>deleteFile\<close> (when the file has a record), \<open>insertNodes\<close>, \<open>insertEdges\<close> and
  \<open>insertUnresolvedRefsBatch\<close> (each when there is something to insert) and \<open>upsertFile\<close>.
  The first operation that fails ends the sequence with its error; the operations before
  it have taken effect and stay in effect.
\<close>

theorem store_keeps_completed_steps:
  "storeExtractionResult host p content lang stats result st =
     (if (case getFileByPath st p of
            Some f \<Rightarrow> f_contentHash f = hashContent (h_sha256hex host) content
          | None \<Rightarrow> False)
      then (Inr (), st)
      else
        let ops = plannedOps (getFileByPath st p \<noteq> None) result;
            completed = takeWhile (\<lambda>op. \<not> h_dbFails host op) ops
        in ((case dropWhile (\<lambda>op. \<not> h_dbFails host op) ops of
               [] \<Rightarrow> Inr ()
             | op # _ \<Rightarrow> Inl (databaseError (opName op))),
            foldl (applyOp host p content lang stats result) st completed))"
proof (cases "case getFileByPath st p of
                Some f \<Rightarrow> f_contentHash f = hashContent (h_sha256hex host) content
              | None \<Rightarrow> False")
  case True
  then show ?thesis by (simp add: storeExtractionResult_def Let_def)
next
  case False
  then show ?thesis using store_steps[OF False, of lang stats result] by simp
qed

text \<open>
  The store holds an older version of \<open>a.ts\<close> and the engine fails \<open>upsertFile\<close>: the old
  record and node are deleted, the new nodes and the edge are stored, and there is no file
  record.
\<close>

theorem store_keeps_completed_steps_witness:
  "storeExtractionResult ((sampleHost noGrammars)\<lparr> h_dbFails := (\<lambda>op. op = OpUpsertFile) \<rparr>)
     ''a.ts'' staticBlockSource ''typescript'' sampleStats sampleResult staleStore
   = (Inl (JsError ''Database error: upsertFile''),
      \<lparr> s_files = [], s_nodes = [classA, functionF], s_edges = [edgeAF],
        s_unresolvedRefs = [] \<rparr>)"
proof -
  let ?H = "(sampleHost noGrammars)\<lparr> h_dbFails := (\<lambda>op. op = OpUpsertFile) \<rparr>"
  have g: "getFileByPath staleStore ''a.ts'' =
             Some (sampleRecord\<lparr> f_contentHash := ''stale'', f_size := 17, f_nodeCount := 1 \<rparr>)"
    by (simp add: getFileByPath_def staleStore_def sampleRecord_def)
  have hs: "h_sha256hex (sampleHost noGrammars) = sampleDigest"
    by (simp add: sampleHost_def)
  have h: "''stale'' \<noteq> hashContent sampleDigest staticBlockSource"
    by code_simp
  have ops: "plannedOps True sampleResult = [OpDeleteFile, OpInsertNodes, OpInsertEdges, OpUpsertFile]"
    by (simp add: plannedOps_def sampleResult_def)
  have step: "foldl (applyOp ?H ''a.ts'' staticBlockSource ''typescript'' sampleStats sampleResult)
                staleStore [OpDeleteFile, OpInsertNodes, OpInsertEdges]
              = \<lparr> s_files = [], s_nodes = [classA, functionF], s_edges = [edgeAF],
                  s_unresolvedRefs = [] \<rparr>"
    by (simp add: applyOp_def deleteFile_def insertNodes_def insertEdges_def staleStore_def
          sampleResult_def sampleRecord_def classA_def functionF_def oldNode_def edgeAF_def
          Let_def)
  show ?thesis
    using store_keeps_completed_steps[where host = ?H
            and p = "''a.ts''" and content = staticBlockSource and lang = "''typescript''"
            and stats = sampleStats and result = sampleResult and st = staleStore]
    by (simp add: g hs h ops step[simplified] databaseError_def opName_def Let_def)
qed

text \<open>
  Against the claim as it was stated: the store holds an older version of \<open>a.ts\<close> and the
  engine fails \<open>insertEdges\<close>. The call throws, and the store it leaves is neither the one
  before the call nor the one a complete run produces: the old record and node are gone,
  the new nodes are stored, the edge and the file record are not.
\<close>

theorem store_partial_failure:
  "storeExtractionResult ((sampleHost noGrammars)\<lparr> h_dbFails := (\<lambda>op. op = OpInsertEdges) \<rparr>)
     ''a.ts'' staticBlockSource ''typescript'' sampleStats sampleResult staleStore
   = (Inl (JsError ''Database error: insertEdges''),
      \<lparr> s_files = [], s_nodes = [classA, functionF], s_edges = [],
        s_unresolvedRefs = [] \<rparr>)
   \<and> \<lparr> s_files = [], s_nodes = [classA, functionF], s_edges = [],
        s_unresolvedRefs = [] \<rparr> \<noteq> staleStore
   \<and> snd (storeExtractionResult (sampleHost noGrammars)
            ''a.ts'' staticBlockSource ''typescript'' sampleStats sampleResult staleStore)
      = indexedStore
   \<and> \<lparr> s_files = [], s_nodes = [classA, functionF], s_edges = [],
        s_unresolvedRefs = [] \<rparr> \<noteq> indexedStore"
proof -
  have h: "hashContent sampleDigest staticBlockSource \<noteq> ''stale''"
    by code_simp
  show ?thesis
    using h
    by (simp add: storeExtractionResult_def getFileByPath_def sampleHost_def sampleResult_def
          deleteFile_def insertNodes_def insertEdges_def upsertFile_def databaseError_def
          staleStore_def indexedStore_def newFileRecord_def sampleStats_def hashContent_def
          sampleRecord_def classA_def functionF_def oldNode_def edgeAF_def Let_def)
qed

subsection \<open>Claims about paths\<close>

lemma validate_is_lexical:
  "validatePathWithinRoot cwd root p =
     (if isPathWithinRoot cwd p root then Some (path_resolve cwd [root, p]) else None)"
  by (auto simp: validatePathWithinRoot_def isPathWithinRoot_def Let_def)

lemma sample_index_symlink:
  "indexFile sampleOrch (sampleHost (tsLoader staticBlockTree)) symlinkFs ''a.ts'' emptyStore
     = (Inr sampleResult, indexedStore)"
proof -
  have v: "validatePathWithinRoot (h_cwd (sampleHost (tsLoader staticBlockTree)))
             (rootDir sampleOrch) ''a.ts'' = Some ''/proj/a.ts''"
    by (simp add: sampleHost_def sampleOrch_def sample_valid)
  show ?thesis
    by (simp add: indexFile_def v symlinkFs_def sample_first_index)
qed

text \<open>
  Claim C8, as the code has it. \<open>indexFile\<close> resolves the relative path against the
  project root and compares the resolved path with the resolved root as text. When the
  resolved path is neither the root nor below it, the result is one error, with no nodes,
  whatever the disk holds: nothing is read and the store is unchanged; the same holds
  for \<open>indexFileWithContent\<close>. That check is the whole check: what \<open>realpath\<close> returns
  does not enter the result of \<open>indexFile\<close>, so a path that passes the textual check is
  read and indexed wherever its symbolic links lead.
\<close>

theorem traversal_check_is_lexical:
  "validatePathWithinRoot cwd root p =
     (if isPathWithinRoot cwd p root then Some (path_resolve cwd [root, p]) else None)
   \<and> (validatePathWithinRoot cwd root p = Some full \<longrightarrow>
        full = path_resolve cwd [root, p]
        \<and> (prefix (path_resolve cwd [root] @ ''/'') full \<or> full = path_resolve cwd [root]))
   \<and> (validatePathWithinRoot (h_cwd host) (rootDir orch) p = None \<longrightarrow>
        indexFile orch host fs p st =
          (Inr \<lparr> res_nodes = [], res_edges = [], res_unresolvedReferences = [],
                 res_errors = [\<lparr> message = ''Path traversal blocked: '' @ p,
                                 severity = SevError \<rparr>] \<rparr>, st)
        \<and> indexFileWithContent orch host p content stats st =
          (Inr \<lparr> res_nodes = [], res_edges = [], res_unresolvedReferences = [],
                 res_errors = [\<lparr> message = ''Path traversal blocked'',
                                 severity = SevError \<rparr>] \<rparr>, st))
   \<and> indexFile orch host (fs\<lparr> realpath := r \<rparr>) p st = indexFile orch host fs p st"
proof -
  have a: "indexFile orch host (fs\<lparr> realpath := r \<rparr>) p st = indexFile orch host fs p st"
    by (simp add: indexFile_def split: option.splits sum.splits)
  have b: "validatePathWithinRoot (h_cwd host) (rootDir orch) p = None \<longrightarrow>
        indexFile orch host fs p st =
          (Inr \<lparr> res_nodes = [], res_edges = [], res_unresolvedReferences = [],
                 res_errors = [\<lparr> message = ''Path traversal blocked: '' @ p,
                                 severity = SevError \<rparr>] \<rparr>, st)
        \<and> indexFileWithContent orch host p content stats st =
          (Inr \<lparr> res_nodes = [], res_edges = [], res_unresolvedReferences = [],
                 res_errors = [\<lparr> message = ''Path traversal blocked'',
                                 severity = SevError \<rparr>] \<rparr>, st)"
    by (simp add: indexFile_def indexFileWithContent_def emptyResult_def)
  have c: "validatePathWithinRoot cwd root p = Some full \<longrightarrow>
        full = path_resolve cwd [root, p]
        \<and> (prefix (path_resolve cwd [root] @ ''/'') full \<or> full = path_resolve cwd [root])"
    unfolding validatePathWithinRoot_def Let_def by (cases "isPathWithinRoot cwd p root") auto
  from validate_is_lexical[of cwd root p] c b a show ?thesis
    by (intro conjI)
qed

text \<open>
  \<open>../../etc/passwd\<close> in the project \<open>/proj\<close> resolves to \<open>/etc/passwd\<close>: blocked, and
  the store stays empty.
\<close>

theorem traversal_check_is_lexical_witness:
  "path_resolve ''/'' [''/proj'', ''../../etc/passwd''] = ''/etc/passwd''
   \<and> validatePathWithinRoot ''/'' ''/proj'' ''../../etc/passwd'' = None
   \<and> indexFile sampleOrch (sampleHost (tsLoader staticBlockTree)) symlinkFs ''../../etc/passwd''
        emptyStore =
          (Inr \<lparr> res_nodes = [], res_edges = [], res_unresolvedReferences = [],
                 res_errors = [\<lparr> message = ''Path traversal blocked: ../../etc/passwd'',
                                 severity = SevError \<rparr>] \<rparr>, emptyStore)"
proof -
  have r: "path_resolve ''/'' [''/proj'', ''../../etc/passwd''] = ''/etc/passwd''"
    by code_simp
  have v: "validatePathWithinRoot ''/'' ''/proj'' ''../../etc/passwd'' = None"
    by code_simp
  have v': "validatePathWithinRoot (h_cwd (sampleHost (tsLoader staticBlockTree)))
              (rootDir sampleOrch) ''../../etc/passwd'' = None"
    by (simp add: sampleHost_def sampleOrch_def v)
  have i: "indexFile sampleOrch (sampleHost (tsLoader staticBlockTree)) symlinkFs
             ''../../etc/passwd'' emptyStore =
          (Inr \<lparr> res_nodes = [], res_edges = [], res_unresolvedReferences = [],
                 res_errors = [\<lparr> message = ''Path traversal blocked: '' @ ''../../etc/passwd'',
                                 severity = SevError \<rparr>] \<rparr>, emptyStore)"
    using traversal_check_is_lexical[where host = "sampleHost (tsLoader staticBlockTree)"
            and orch = sampleOrch and p = "''../../etc/passwd''" and fs = symlinkFs
            and st = emptyStore and cwd = "''/''" and root = "''/proj''" and full = "''/proj''"]
          v'
    by blast
  show ?thesis
    using r v i by simp
qed

text \<open>
  Against the claim as it was stated: \<open>/proj/a.ts\<close> is a symbolic link to
  \<open>/home/user/secret.ts\<close>. The check with \<open>realpath\<close> says the path is outside the root;
  \<open>indexFile\<close> reads the file and stores its record, nodes and edge.
\<close>

theorem symlink_escape_indexed:
  "realpath symlinkFs ''/proj/a.ts'' = Inr ''/home/user/secret.ts''
   \<and> isPathWithinRootReal ''/'' symlinkFs ''a.ts'' ''/proj'' = False
   \<and> indexFile sampleOrch (sampleHost (tsLoader staticBlockTree)) symlinkFs ''a.ts'' emptyStore
       = (Inr sampleResult, indexedStore)
   \<and> res_nodes sampleResult = [classA, functionF]
   \<and> map f_path (s_files indexedStore) = [''a.ts'']"
proof -
  have a: "realpath symlinkFs ''/proj/a.ts'' = Inr ''/home/user/secret.ts''"
    by (simp add: symlinkFs_def)
  have b: "isPathWithinRootReal ''/'' symlinkFs ''a.ts'' ''/proj'' = False"
    by code_simp
  show ?thesis
    using a b sample_index_symlink
    by (simp add: sampleResult_def indexedStore_def sampleRecord_def)
qed

subsection \<open>What \<open>sync\<close> does to the file records\<close>























lemma set_setOf [simp]: "set (setOf xs) = set xs"
  by (simp add: setOf_def)









subsection \<open>\<open>sync\<close> returns when the engine does not fail\<close>










subsection \<open>Sample runs of \<open>sync\<close>\<close>






lemma walk_host [simp]:
  "h_cwd walkHost = ''/''" "h_tryRequire walkHost = tsLoader staticBlockTree"
  "h_sha256hex walkHost = sampleDigest" "h_now walkHost = 1000"
  "h_dbFails walkHost = (\<lambda>_. False)" "h_gitStatus walkHost = None"
  "h_gitLsFiles walkHost = None" "h_walk walkHost = [''a.ts'']"
  by (simp_all add: walkHost_def sampleHost_def)

lemma git_clean_host [simp]:
  "h_cwd gitCleanHost = ''/''" "h_tryRequire gitCleanHost = tsLoader staticBlockTree"
  "h_sha256hex gitCleanHost = sampleDigest"
  by (simp_all add: gitCleanHost_def sampleHost_def)

lemma sample_orch [simp]:
  "rootDir sampleOrch = ''/proj''" "cfg_maxFileSize (config sampleOrch) = 1000000"
  by (simp_all add: sampleOrch_def)

lemma project_fs [simp]:
  "readFile projectFs ''/proj/a.ts'' = Inr staticBlockSource"
  "stat projectFs ''/proj/a.ts'' = Inr sampleStats"
  by (simp_all add: projectFs_def)







subsection \<open>Claims about \<open>sync\<close>\<close>




end
